theory Spec2Isabelle
  imports Complex_Main
begin

section \<open>Cutout engine: \<open>Edb._create_cutout_multithread\<close> (edb.py)\<close>

subsection \<open>The layout store and the polygon engine\<close>

text \<open>
  The polygon engine and the padstack containment test belong to the EDB database, not
  to the repository. The cutout is therefore modelled over an arbitrary engine, passed
  as a record of functions: \<open>'p\<close> is the type of polygon data, \<open>'g\<close> the geometry of a
  padstack instance.
  \<^item> \<open>GetIntersectionType g a b\<close> is \<open>a.GetIntersectionType(b)\<close>; the source only
    compares the result with 0, 1 and 2;
  \<^item> \<open>Intersect g a b\<close> is \<open>list(a.Intersect(b))\<close>;
  \<^item> \<open>Subtract g p vs\<close> is the local \<open>subtract(p, vs)\<close>;
  \<^item> \<open>IsNull g p\<close> is \<open>p.IsNull()\<close>;
  \<^item> \<open>in_polygon g i p\<close> is \<open>pinst.in_polygon(p, simple_check=True)\<close>.
\<close>

record ('p, 'g) geometry =
  GetIntersectionType :: "'p \<Rightarrow> 'p \<Rightarrow> int"
  Intersect :: "'p \<Rightarrow> 'p \<Rightarrow> 'p list"
  Subtract :: "'p \<Rightarrow> 'p list \<Rightarrow> 'p list"
  IsNull :: "'p \<Rightarrow> bool"
  in_polygon :: "'g \<Rightarrow> 'p \<Rightarrow> bool"

text \<open>
  A primitive of the layout. \<open>prim_voids\<close> holds the polygon data of the primitive's
  voids (the source reads a void only through \<open>get_polygon_data\<close>). Objects are
  identified by their record, which carries the object's id.
\<close>

record 'p primitive =
  prim_id :: nat
  prim_net :: string
  prim_layer :: string
  is_void :: bool
  polygon_data :: 'p
  prim_voids :: "'p list"

record 'g padstack_instance =
  pinst_id :: nat
  pinst_net :: string
  pinst_geom :: 'g

text \<open>A component owns the padstack instances whose ids it lists.\<close>

record component =
  refdes :: string
  comp_pins :: "nat list"

record ('p, 'g) layout =
  nets :: "string list"
  instances :: "'g padstack_instance list"
  primitives :: "'p primitive list"
  components :: "component list"

text \<open>
  The \<open>custom_extent\<close> argument: \<open>None\<close>, a list of points, or a polygon data
  object. Python tests it for truth: \<open>None\<close> and the empty list are false.
\<close>

datatype 'p custom_extent = NoExtent | ExtentPoints "(real \<times> real) list" | ExtentPolygon 'p

fun extent_given :: "'p custom_extent \<Rightarrow> bool" where
  "extent_given NoExtent = False"
| "extent_given (ExtentPoints pts) = (pts \<noteq> [])"
| "extent_given (ExtentPolygon p) = True"

text \<open>
  What the cutout needs from the rest of the application:
  \<^item> \<open>shape_to_polygon_data\<close>: the point list turned into polygon data
    (\<open>core_primitives.Shape\<close> and \<open>shape_to_polygon_data\<close>);
  \<^item> \<open>net_extent\<close>: the region \<open>_create_extent\<close> (followed by \<open>Defeature\<close> when
    asked) computes from the signal nets of the pruned layout; \<open>None\<close> stands for a
    result that Python reads as false;
  \<^item> \<open>delete_single_pin_rlc\<close>: \<open>core_components.delete_single_pin_rlc\<close>.
\<close>

record ('p, 'g) cutout_env =
  engine :: "('p, 'g) geometry"
  shape_to_polygon_data :: "(real \<times> real) list \<Rightarrow> 'p option"
  net_extent :: "('p, 'g) layout \<Rightarrow> string list \<Rightarrow> 'p option"
  delete_single_pin_rlc :: "component list \<Rightarrow> component list"

subsection \<open>Classification of one primitive: \<open>clean_prim\<close>\<close>

text \<open>
  An element of \<open>poly_to_create\<close>: the polygon, the layer name, the net name and the
  voids to attach.
\<close>

type_synonym 'p new_poly = "'p \<times> string \<times> string \<times> 'p list"

text \<open>
  The two lists the loop over the voids of a primitive fills for one piece \<open>p\<close> of the
  intersection: \<open>void_to_subtract\<close> (intersection type above 2 or equal to 1) and
  \<open>list_void\<close> (intersection type 2). A void of any other type joins neither list.
\<close>

definition void_to_subtract :: "('p, 'g) geometry \<Rightarrow> 'p \<Rightarrow> 'p list \<Rightarrow> 'p list" where
  "void_to_subtract g p voids =
     filter (\<lambda>v. GetIntersectionType g p v > 2 \<or> GetIntersectionType g p v = 1) voids"

definition list_void :: "('p, 'g) geometry \<Rightarrow> 'p \<Rightarrow> 'p list \<Rightarrow> 'p list" where
  "list_void g p voids =
     filter (\<lambda>v. \<not> (GetIntersectionType g p v > 2 \<or> GetIntersectionType g p v = 1)
                 \<and> GetIntersectionType g p v = 2) voids"

text \<open>The body of the loop \<open>for p in list_poly\<close>: what one piece appends to \<open>poly_to_create\<close>.\<close>

definition piece_polys :: "('p, 'g) geometry \<Rightarrow> 'p primitive \<Rightarrow> 'p \<Rightarrow> 'p new_poly list" where
  "piece_polys g prim_1 p =
     (if IsNull g p then []
      else if prim_voids prim_1 \<noteq> [] then
        (if void_to_subtract g p (prim_voids prim_1) \<noteq> [] then
           map (\<lambda>polys_clean.
                  (polys_clean, prim_layer prim_1, prim_net prim_1,
                   filter (\<lambda>v. GetIntersectionType g polys_clean v = 2)
                     (list_void g p (prim_voids prim_1))))
             (filter (\<lambda>polys_clean. \<not> IsNull g polys_clean)
                (Subtract g p (void_to_subtract g p (prim_voids prim_1))))
         else [(p, prim_layer prim_1, prim_net prim_1, list_void g p (prim_voids prim_1))])
      else [(p, prim_layer prim_1, prim_net prim_1, [])])"

text \<open>
  \<open>clean_prim\<close> returns what it appends to \<open>poly_to_create\<close> and to \<open>prims_to_delete\<close>.
\<close>

definition clean_prim ::
  "('p, 'g) geometry \<Rightarrow> 'p \<Rightarrow> 'p primitive \<Rightarrow> 'p new_poly list \<times> 'p primitive list" where
  "clean_prim g poly prim_1 =
     (let int_data = GetIntersectionType g poly (polygon_data prim_1) in
      if int_data = 0 then ([], [prim_1])
      else if int_data \<noteq> 2 then
        (let list_poly = Intersect g poly (polygon_data prim_1) in
         (if list_poly \<noteq> [] then concat (map (piece_polys g prim_1) list_poly) else [],
          [prim_1]))
      else ([], []))"

subsection \<open>The cutout\<close>

text \<open>
  The net clean-up (the first three loops): nets, padstack instances and primitives
  whose net is not in \<open>all_list\<close> are deleted; the instances of \<open>reference_list\<close> and
  its primitives that are not voids are collected for classification.
\<close>

definition reference_list_of :: "'p custom_extent \<Rightarrow> string list \<Rightarrow> string list \<Rightarrow> string list" where
  "reference_list_of custom signal_list reference_list =
     (if extent_given custom then reference_list @ signal_list else reference_list)"

definition all_list_of :: "'p custom_extent \<Rightarrow> string list \<Rightarrow> string list \<Rightarrow> string list" where
  "all_list_of custom signal_list reference_list =
     (if extent_given custom then reference_list_of custom signal_list reference_list
      else signal_list @ reference_list)"

definition net_clean_up :: "string list \<Rightarrow> ('p, 'g) layout \<Rightarrow> ('p, 'g) layout" where
  "net_clean_up all_list s =
     s\<lparr>nets := filter (\<lambda>n. n \<in> set all_list) (nets s),
       instances := filter (\<lambda>i. pinst_net i \<in> set all_list) (instances s),
       primitives := filter (\<lambda>i. prim_net i \<in> set all_list) (primitives s)\<rparr>"

definition reference_pinsts ::
  "string list \<Rightarrow> string list \<Rightarrow> ('p, 'g) layout \<Rightarrow> 'g padstack_instance list" where
  "reference_pinsts all_list reference_list s =
     filter (\<lambda>i. pinst_net i \<in> set all_list \<and> pinst_net i \<in> set reference_list) (instances s)"

definition reference_prims ::
  "string list \<Rightarrow> string list \<Rightarrow> ('p, 'g) layout \<Rightarrow> 'p primitive list" where
  "reference_prims all_list reference_list s =
     filter (\<lambda>i. prim_net i \<in> set all_list \<and> prim_net i \<in> set reference_list \<and> \<not> is_void i)
       (primitives s)"

text \<open>The clip region \<open>_poly\<close>.\<close>

definition clip_region ::
  "('p, 'g) cutout_env \<Rightarrow> 'p custom_extent \<Rightarrow> string list \<Rightarrow> ('p, 'g) layout \<Rightarrow> 'p option" where
  "clip_region env custom signal_list s =
     (case custom of
        ExtentPoints pts \<Rightarrow>
          (if pts \<noteq> [] then shape_to_polygon_data env pts else net_extent env s signal_list)
      | ExtentPolygon p \<Rightarrow> Some p
      | NoExtent \<Rightarrow> net_extent env s signal_list)"

text \<open>
  \<open>create_polygon\<close> adds a polygon with its voids to the store, under an id no object
  of the store has. The new polygon is not a void.
\<close>

definition fresh_id :: "'p primitive list \<Rightarrow> nat" where
  "fresh_id ps = Suc (fold max (map prim_id ps) 0)"

definition create_polygon :: "'p new_poly \<Rightarrow> 'p primitive list \<Rightarrow> 'p primitive list" where
  "create_polygon el ps =
     ps @ [\<lparr>prim_id = fresh_id ps, prim_net = fst (snd (snd el)), prim_layer = fst (snd el),
            is_void = False, polygon_data = fst el, prim_voids = snd (snd (snd el))\<rparr>]"

text \<open>\<open>numpins\<close> of a component: its pins that are still in the layout.\<close>

definition numpins :: "('p, 'g) layout \<Rightarrow> component \<Rightarrow> nat" where
  "numpins s c = length (filter (\<lambda>i. i \<in> pinst_id ` set (instances s)) (comp_pins c))"

text \<open>
  The part of the cutout after the clip region is known. The two thread pools map
  \<open>pins_clean\<close> and \<open>clean_prim\<close> over lists fixed before the pool starts, and the
  \<open>with\<close> block joins the pool before the deletions; the model maps over the same
  lists in list order.
\<close>

definition prune :: "('p, 'g) cutout_env \<Rightarrow> 'p \<Rightarrow> 'g padstack_instance list \<Rightarrow>
    'p primitive list \<Rightarrow> bool \<Rightarrow> ('p, 'g) layout \<Rightarrow> ('p, 'g) layout" where
  "prune env poly ref_pinsts ref_prims remove_single_pin_components s =
     (let g = engine env;
          pins_to_delete = filter (\<lambda>pinst. \<not> in_polygon g (pinst_geom pinst) poly) ref_pinsts;
          s1 = s\<lparr>instances := fold removeAll pins_to_delete (instances s)\<rparr>;
          cleaned = map (clean_prim g poly) ref_prims;
          poly_to_create = concat (map fst cleaned);
          prims_to_delete = concat (map snd cleaned);
          s2 = s1\<lparr>primitives := fold create_polygon poly_to_create (primitives s1)\<rparr>;
          s3 = s2\<lparr>primitives := fold removeAll prims_to_delete (primitives s2)\<rparr>;
          s4 = s3\<lparr>components := filter (\<lambda>c. numpins s3 c \<noteq> 0) (components s3)\<rparr>
      in if remove_single_pin_components
         then s4\<lparr>components := delete_single_pin_rlc env (components s4)\<rparr>
         else s4)"

text \<open>
  The statements of \<open>_create_cutout_multithread\<close> after its guard: the result and the
  layout they leave. (The optional \<open>save_edb_as\<close> does not touch the layout.)
\<close>

definition cutout_steps :: "('p, 'g) cutout_env \<Rightarrow> string list \<Rightarrow> string list \<Rightarrow>
    'p custom_extent \<Rightarrow> bool \<Rightarrow> ('p, 'g) layout \<Rightarrow> bool \<times> ('p, 'g) layout" where
  "cutout_steps env signal_list reference_list custom remove_single_pin_components s =
     (let reference_list' = reference_list_of custom signal_list reference_list;
          all_list = all_list_of custom signal_list reference_list;
          ref_pinsts = reference_pinsts all_list reference_list' s;
          ref_prims = reference_prims all_list reference_list' s;
          s1 = net_clean_up all_list s
      in case clip_region env custom signal_list s1 of
           None \<Rightarrow> (False, s1)
         | Some poly \<Rightarrow>
             if IsNull (engine env) poly then (False, s1)
             else (True, prune env poly ref_pinsts ref_prims remove_single_pin_components s1))"

text \<open>
  The guard, the first statement of \<open>_create_cutout_multithread\<close>
  (\<open>if is_ironpython:\<close>), reads the global name \<open>is_ironpython\<close>. The module edb.py
  binds no such name: none of its imports brings it, and nothing assigns it (stackup.py
  imports it from \<open>pyaedt.generic.general_methods\<close>; edb.py only reads it, here and in
  one other function, and names it in a comment). \<open>None\<close> stands for the unbound name,
  whose lookup raises \<open>NameError\<close>.
\<close>

definition is_ironpython :: "bool option" where
  "is_ironpython = None"

text \<open>
  \<open>_create_cutout_multithread\<close>: the result and the layout it leaves.
  \<open>pyaedt_function_handler\<close> turns the \<open>NameError\<close> into the result \<open>False\<close>; under
  IronPython the function logs an error and returns \<open>False\<close>.
\<close>

definition create_cutout_multithread :: "('p, 'g) cutout_env \<Rightarrow> string list \<Rightarrow> string list \<Rightarrow>
    'p custom_extent \<Rightarrow> bool \<Rightarrow> ('p, 'g) layout \<Rightarrow> bool \<times> ('p, 'g) layout" where
  "create_cutout_multithread env signal_list reference_list custom remove_single_pin_components s =
     (case is_ironpython of
        None \<Rightarrow> (False, s)
      | Some ironpython \<Rightarrow>
          if ironpython then (False, s)
          else cutout_steps env signal_list reference_list custom remove_single_pin_components s)"

subsection \<open>A concrete polygon engine for evaluation\<close>

text \<open>
  The theorems on the cutout hold for every polygon engine. To run the cutout on concrete
  layouts we use a one-dimensional engine: a polygon is an interval \<open>[lo, hi)\<close> of
  integers, null when empty, and a padstack instance sits at a point. The intersection
  types are 0 (disjoint), 1 (this inside other), 2 (other inside this) and 3 (overlap).
\<close>

type_synonym interval = "int \<times> int"

definition iv_null :: "interval \<Rightarrow> bool" where
  "iv_null a = (snd a \<le> fst a)"

definition iv_inter :: "interval \<Rightarrow> interval \<Rightarrow> interval" where
  "iv_inter a b = (max (fst a) (fst b), min (snd a) (snd b))"

definition iv_type :: "interval \<Rightarrow> interval \<Rightarrow> int" where
  "iv_type a b =
     (if iv_null (iv_inter a b) then 0
      else if fst a \<le> fst b \<and> snd b \<le> snd a then 2
      else if fst b \<le> fst a \<and> snd a \<le> snd b then 1
      else 3)"

definition iv_intersect :: "interval \<Rightarrow> interval \<Rightarrow> interval list" where
  "iv_intersect a b = (if iv_null (iv_inter a b) then [] else [iv_inter a b])"

definition iv_minus :: "interval \<Rightarrow> interval \<Rightarrow> interval list" where
  "iv_minus v q =
     filter (\<lambda>r. \<not> iv_null r) [(fst q, min (snd q) (fst v)), (max (fst q) (snd v), snd q)]"

definition iv_subtract :: "interval \<Rightarrow> interval list \<Rightarrow> interval list" where
  "iv_subtract p vs = fold (\<lambda>v qs. concat (map (iv_minus v) qs)) vs [p]"

definition iv_engine :: "(interval, int) geometry" where
  "iv_engine =
     \<lparr>GetIntersectionType = iv_type, Intersect = iv_intersect, Subtract = iv_subtract,
      IsNull = iv_null, in_polygon = (\<lambda>x a. fst a \<le> x \<and> x < snd a)\<rparr>"

text \<open>
  An environment over that engine: a point list spans the interval of its abscissae, and
  the extent of the signal nets is the hull of their primitives.
\<close>

definition iv_hull :: "interval list \<Rightarrow> interval option" where
  "iv_hull xs =
     (case xs of [] \<Rightarrow> None
      | a # as \<Rightarrow> Some (fold min (map fst as) (fst a), fold max (map snd as) (snd a)))"

definition iv_env :: "(interval, int) cutout_env" where
  "iv_env =
     \<lparr>engine = iv_engine,
      shape_to_polygon_data = (\<lambda>pts. iv_hull (map (\<lambda>pt. (\<lfloor>fst pt\<rfloor>, \<lceil>fst pt\<rceil>)) pts)),
      net_extent = (\<lambda>s signal_list.
         iv_hull (map polygon_data (filter (\<lambda>p. prim_net p \<in> set signal_list) (primitives s)))),
      delete_single_pin_rlc = (\<lambda>cs. cs)\<rparr>"

text \<open>A small board: a signal trace, a ground plane with a void, a stray net.\<close>

definition board :: "(interval, int) layout" where
  "board =
     \<lparr>nets = [''NET1'', ''GND'', ''VCC''],
      instances =
        [\<lparr>pinst_id = 1, pinst_net = ''NET1'', pinst_geom = 12\<rparr>,
         \<lparr>pinst_id = 2, pinst_net = ''GND'', pinst_geom = 15\<rparr>,
         \<lparr>pinst_id = 3, pinst_net = ''GND'', pinst_geom = 40\<rparr>,
         \<lparr>pinst_id = 4, pinst_net = ''VCC'', pinst_geom = 13\<rparr>,
         \<lparr>pinst_id = 5, pinst_net = ''NET1'', pinst_geom = 19\<rparr>],
      primitives =
        [\<lparr>prim_id = 1, prim_net = ''NET1'', prim_layer = ''TOP'', is_void = False,
          polygon_data = (10, 20), prim_voids = []\<rparr>,
         \<lparr>prim_id = 2, prim_net = ''GND'', prim_layer = ''BOT'', is_void = False,
          polygon_data = (0, 100), prim_voids = [(12, 14), (18, 30), (50, 60)]\<rparr>,
         \<lparr>prim_id = 3, prim_net = ''GND'', prim_layer = ''BOT'', is_void = False,
          polygon_data = (11, 19), prim_voids = []\<rparr>,
         \<lparr>prim_id = 4, prim_net = ''GND'', prim_layer = ''TOP'', is_void = False,
          polygon_data = (30, 40), prim_voids = []\<rparr>,
         \<lparr>prim_id = 5, prim_net = ''VCC'', prim_layer = ''TOP'', is_void = False,
          polygon_data = (12, 18), prim_voids = []\<rparr>],
      components =
        [\<lparr>refdes = ''U1'', comp_pins = [1, 2]\<rparr>, \<lparr>refdes = ''C1'', comp_pins = [3, 4]\<rparr>]\<rparr>"

subsection \<open>Notions used to state the properties of the cutout\<close>

text \<open>The primitive \<open>n\<close> is what \<open>create_polygon\<close> makes of the queue element \<open>el\<close>.\<close>

definition made_from :: "'p new_poly \<Rightarrow> 'p primitive \<Rightarrow> bool" where
  "made_from el n \<longleftrightarrow>
     polygon_data n = fst el \<and> prim_layer n = fst (snd el) \<and> prim_net n = fst (snd (snd el))
     \<and> prim_voids n = snd (snd (snd el)) \<and> \<not> is_void n"

text \<open>
  The clipped polygons of a primitive, in the words of the specification: for each piece
  of the intersection that is not null, the voids that reach outside the piece (type 1
  or above 2) are subtracted and the voids inside it (type 2) are attached again, to the
  piece or to what the subtraction leaves of it.
\<close>

definition clipped_pieces :: "('p, 'g) geometry \<Rightarrow> 'p primitive \<Rightarrow> 'p \<Rightarrow> 'p new_poly set" where
  "clipped_pieces g q p =
     (let outside = filter (\<lambda>v. GetIntersectionType g p v = 1 \<or> 2 < GetIntersectionType g p v)
                      (prim_voids q);
          inside = filter (\<lambda>v. GetIntersectionType g p v = 2) (prim_voids q)
      in if outside = [] then {(p, prim_layer q, prim_net q, inside)}
         else (\<lambda>c. (c, prim_layer q, prim_net q,
                     filter (\<lambda>v. GetIntersectionType g c v = 2) inside))
              ` set (filter (\<lambda>c. \<not> IsNull g c) (Subtract g p outside)))"

definition kept_pieces :: "('p, 'g) geometry \<Rightarrow> 'p \<Rightarrow> 'p primitive \<Rightarrow> 'p new_poly set" where
  "kept_pieces g poly q =
     (\<Union>p \<in> set (filter (\<lambda>p. \<not> IsNull g p) (Intersect g poly (polygon_data q))).
        clipped_pieces g q p)"

text \<open>
  What the steps after the guard make of the board: cut around its signal net, and cut by
  the polygon \<open>[11, 16)\<close>.
\<close>

definition board_net_cut :: "(interval, int) layout" where
  "board_net_cut =
     \<lparr>nets = [''NET1'', ''GND''],
      instances =
        [\<lparr>pinst_id = 1, pinst_net = ''NET1'', pinst_geom = 12\<rparr>,
         \<lparr>pinst_id = 2, pinst_net = ''GND'', pinst_geom = 15\<rparr>,
         \<lparr>pinst_id = 5, pinst_net = ''NET1'', pinst_geom = 19\<rparr>],
      primitives =
        [\<lparr>prim_id = 1, prim_net = ''NET1'', prim_layer = ''TOP'', is_void = False,
          polygon_data = (10, 20), prim_voids = []\<rparr>,
         \<lparr>prim_id = 3, prim_net = ''GND'', prim_layer = ''BOT'', is_void = False,
          polygon_data = (11, 19), prim_voids = []\<rparr>,
         \<lparr>prim_id = 5, prim_net = ''GND'', prim_layer = ''BOT'', is_void = False,
          polygon_data = (10, 18), prim_voids = [(12, 14)]\<rparr>],
      components = [\<lparr>refdes = ''U1'', comp_pins = [1, 2]\<rparr>]\<rparr>"

definition board_custom_cut :: "(interval, int) layout" where
  "board_custom_cut =
     \<lparr>nets = [''NET1'', ''GND''],
      instances =
        [\<lparr>pinst_id = 1, pinst_net = ''NET1'', pinst_geom = 12\<rparr>,
         \<lparr>pinst_id = 2, pinst_net = ''GND'', pinst_geom = 15\<rparr>],
      primitives =
        [\<lparr>prim_id = 5, prim_net = ''NET1'', prim_layer = ''TOP'', is_void = False,
          polygon_data = (11, 16), prim_voids = []\<rparr>,
         \<lparr>prim_id = 6, prim_net = ''GND'', prim_layer = ''BOT'', is_void = False,
          polygon_data = (11, 16), prim_voids = [(12, 14)]\<rparr>,
         \<lparr>prim_id = 7, prim_net = ''GND'', prim_layer = ''BOT'', is_void = False,
          polygon_data = (11, 16), prim_voids = []\<rparr>],
      components = [\<lparr>refdes = ''U1'', comp_pins = [1, 2]\<rparr>]\<rparr>"

section \<open>Stackup: \<open>Stackup\<close> (core/stackup.py)\<close>

subsection \<open>Layers and the layer collection\<close>

datatype layer_type =
    SignalLayer | DielectricLayer | ConductingLayer | AirlinesLayer | ErrorsLayer
  | SymbolLayer | MeasureLayer | AssemblyLayer | SilkscreenLayer | SolderMaskLayer
  | SolderPasteLayer | GlueLayer | WirebondLayer | UserLayer | SIwaveHFSSSolverRegions
  | OutlineLayer | PostprocessingLayer | UndefinedLayerType

text \<open>
  The source compares a layer's association with \<open>TopAssociated\<close> only and names
  \<open>BottomAssociated\<close>; \<open>OtherAssociation\<close> stands for every other value of the
  database's enumeration.
\<close>

datatype top_bottom_association = TopAssociated | BottomAssociated | OtherAssociation

datatype collection_mode = Laminate | Overlapping | MultiZone

text \<open>
  A layer of the database, with the attributes the stackup code reads and writes.
  Lengths are in meters. A via layer names its two reference layers.
\<close>

record layer =
  layer_name :: string
  kind :: layer_type
  material :: string
  fill_material :: string
  thickness :: real
  lower_elevation :: real
  negative :: bool
  etch_factor :: "real option"
  roughness_enabled :: bool
  association :: top_bottom_association
  is_via_layer :: bool
  upper_ref :: string
  lower_ref :: string

record layer_collection =
  mode :: collection_mode
  layers_of :: "layer list"

text \<open>\<open>GetUpperElevation\<close>: the lower elevation plus the thickness.\<close>

definition upper_elevation :: "layer \<Rightarrow> real" where
  "upper_elevation l = lower_elevation l + thickness l"

text \<open>The layer type sets of \<open>LayerCollection.Layers\<close>.\<close>

definition is_stackup_layer :: "layer \<Rightarrow> bool" where
  "is_stackup_layer l \<longleftrightarrow> kind l = SignalLayer \<or> kind l = DielectricLayer"

definition StackupLayerSet :: "layer_collection \<Rightarrow> layer list" where
  "StackupLayerSet lc = filter is_stackup_layer (layers_of lc)"

definition NonStackupLayerSet :: "layer_collection \<Rightarrow> layer list" where
  "NonStackupLayerSet lc = filter (\<lambda>l. \<not> is_stackup_layer l) (layers_of lc)"

definition SignalLayerSet :: "layer_collection \<Rightarrow> layer list" where
  "SignalLayerSet lc = filter (\<lambda>l. kind l = SignalLayer) (layers_of lc)"

text \<open>
  Modelled from the spec: the layer collection of the EDB database, whose operations
  (\<open>AddLayerTop\<close>, \<open>AddLayerBottom\<close>, \<open>AddLayerAbove\<close>, \<open>AddLayerBelow\<close>,
  \<open>AddStackupLayerAtElevation\<close>, \<open>AddLayers\<close>) are not code of the repository. The
  collection lists its layers from the top: the spec's views are ``in current stacking
  order (top index 0 convention)'', and the source rebuilds a collection in the same
  order by \<open>AddLayerBottom\<close> on each layer in turn (\<open>refresh_layer_collection\<close>,
  \<open>remove_layer\<close>), takes index 0 for the top layer (\<open>place_in_layout\<close>, \<open>plot\<close>) and
  the last index for the bottom one. In \<open>Laminate\<close> mode the layers are stacked without
  gaps (``adjacent layers' elevations must not overlap'', \<open>upper = lower + thickness\<close>),
  the lowest stackup layer at elevation 0; a via layer keeps its elevation. In the other
  modes a layer keeps the elevation it carries, and \<open>AddStackupLayerAtElevation\<close> puts
  it above the first layer that is not higher (``explicit elevation-based insertion'').
\<close>

fun stack_up :: "real \<Rightarrow> layer list \<Rightarrow> layer list" where
  "stack_up z [] = []"
| "stack_up z (l # ls) =
     (if is_stackup_layer l \<and> \<not> is_via_layer l
      then l\<lparr>lower_elevation := z\<rparr> # stack_up (z + thickness l) ls
      else l # stack_up z ls)"

definition restack :: "layer list \<Rightarrow> layer list" where
  "restack ls = rev (stack_up 0 (rev ls))"

definition settle :: "layer_collection \<Rightarrow> layer_collection" where
  "settle lc = (if mode lc = Laminate then lc\<lparr>layers_of := restack (layers_of lc)\<rparr> else lc)"

definition AddLayerTop :: "layer \<Rightarrow> layer_collection \<Rightarrow> layer_collection" where
  "AddLayerTop l lc = settle (lc\<lparr>layers_of := l # layers_of lc\<rparr>)"

definition AddLayerBottom :: "layer \<Rightarrow> layer_collection \<Rightarrow> layer_collection" where
  "AddLayerBottom l lc = settle (lc\<lparr>layers_of := layers_of lc @ [l]\<rparr>)"

fun list_insert_above :: "layer \<Rightarrow> string \<Rightarrow> layer list \<Rightarrow> layer list" where
  "list_insert_above l b [] = []"
| "list_insert_above l b (x # xs) =
     (if layer_name x = b then l # x # xs else x # list_insert_above l b xs)"

fun list_insert_below :: "layer \<Rightarrow> string \<Rightarrow> layer list \<Rightarrow> layer list" where
  "list_insert_below l b [] = []"
| "list_insert_below l b (x # xs) =
     (if layer_name x = b then x # l # xs else x # list_insert_below l b xs)"

text \<open>Without a base layer of that name the collection is left as it is.\<close>

definition AddLayerAbove :: "layer \<Rightarrow> string option \<Rightarrow> layer_collection \<Rightarrow> layer_collection" where
  "AddLayerAbove l base lc =
     (case base of None \<Rightarrow> lc
      | Some b \<Rightarrow> settle (lc\<lparr>layers_of := list_insert_above l b (layers_of lc)\<rparr>))"

definition AddLayerBelow :: "layer \<Rightarrow> string option \<Rightarrow> layer_collection \<Rightarrow> layer_collection" where
  "AddLayerBelow l base lc =
     (case base of None \<Rightarrow> lc
      | Some b \<Rightarrow> settle (lc\<lparr>layers_of := list_insert_below l b (layers_of lc)\<rparr>))"

fun insert_at_elevation :: "layer \<Rightarrow> layer list \<Rightarrow> layer list" where
  "insert_at_elevation l [] = [l]"
| "insert_at_elevation l (x # xs) =
     (if is_stackup_layer x \<and> lower_elevation l < lower_elevation x
      then x # insert_at_elevation l xs else l # x # xs)"

definition AddStackupLayerAtElevation :: "layer \<Rightarrow> layer_collection \<Rightarrow> layer_collection" where
  "AddStackupLayerAtElevation l lc = lc\<lparr>layers_of := insert_at_elevation l (layers_of lc)\<rparr>"

definition AddLayers :: "layer list \<Rightarrow> layer_collection \<Rightarrow> layer_collection" where
  "AddLayers ls lc = lc\<lparr>layers_of := layers_of lc @ ls\<rparr>"

text \<open>
  \<open>LayerCollection()\<close>: an empty collection. Its mode is the first of the database's
  modes (``0 - Laminate'' in the documentation of \<open>stackup_mode\<close>).
\<close>

definition LayerCollection :: layer_collection where
  "LayerCollection = \<lparr>mode = Laminate, layers_of = []\<rparr>"

text \<open>
  Modelled from the spec: \<open>GetTopBottomStackupLayers\<close> of the database, behind
  \<open>stackup_limits\<close>: ``top/bottom determined by min/max elevation among the filtered
  layer set''. The top layer is the first layer of greatest lower elevation, the bottom
  layer the first of least lower elevation; the elevations returned are their lower
  elevations. There is no result on an empty set.
\<close>

definition highest :: "layer \<Rightarrow> layer list \<Rightarrow> layer" where
  "highest l ls = fold (\<lambda>x t. if lower_elevation t < lower_elevation x then x else t) ls l"

definition lowest :: "layer \<Rightarrow> layer list \<Rightarrow> layer" where
  "lowest l ls = fold (\<lambda>x b. if lower_elevation x < lower_elevation b then x else b) ls l"

definition GetTopBottomStackupLayers :: "layer list \<Rightarrow> (layer \<times> real \<times> layer \<times> real) option" where
  "GetTopBottomStackupLayers ls =
     (case ls of [] \<Rightarrow> None
      | l # rest \<Rightarrow>
          Some (highest l rest, lower_elevation (highest l rest),
                lowest l rest, lower_elevation (lowest l rest)))"

subsection \<open>The application state\<close>

datatype component_type = IC | OtherComponent

datatype solderball_placement = AbovePadstack | BelowPadstack | OtherPlacement

datatype die_orientation = ChipUp | ChipDown

record edb_component =
  comp_name :: string
  comp_type :: component_type
  placement :: solderball_placement
  orientation :: die_orientation

text \<open>
  A padstack instance with its start and stop layer and the layer mapping
  \<open>SetMapping\<close> last wrote (a layer's id is represented by its name).
\<close>

record edb_padstack =
  start_layer :: string
  stop_layer :: string
  layer_map :: "(string \<times> string) option"

text \<open>
  The state behind a \<open>Stackup\<close> object: the layer collection of the active layout, the
  names of the material library, the components and padstack instances, and the lines
  sent to the logger. The object reads the collection through \<open>_layer_collection\<close>, the
  ``copy of EDB layer collection'' that \<open>refresh_layer_collection\<close> rebuilds from the
  layout after each edit. The edits are modelled on the layout's collection; the views
  whose value depends on the order of the copy (\<open>stackup_limits\<close>,
  \<open>get_layout_thickness\<close>) read the rebuilt copy.
\<close>

record edb_state =
  collection :: layer_collection
  material_names :: "string list"
  edb_components :: "edb_component list"
  edb_padstacks :: "edb_padstack list"
  logged :: "string list"

text \<open>
  \<open>SetLayerCollection\<close> of the active layout answers whether it took the collection.
  \<open>numpy_present\<close> says whether \<open>numpy\<close> could be imported.
\<close>

record stackup_env =
  SetLayerCollection :: "layer_collection \<Rightarrow> bool"
  numpy_present :: bool

definition commit :: "stackup_env \<Rightarrow> layer_collection \<Rightarrow> edb_state \<Rightarrow> bool \<times> edb_state" where
  "commit env lc s =
     (if SetLayerCollection env lc then (True, s\<lparr>collection := lc\<rparr>) else (False, s))"

text \<open>The dictionaries \<open>layers\<close> and \<open>stackup_layers\<close>, in collection order (layer names are the keys).\<close>

definition layers :: "edb_state \<Rightarrow> layer list" where
  "layers s = layers_of (collection s)"

definition stackup_layers :: "edb_state \<Rightarrow> layer list" where
  "stackup_layers s =
     filter (\<lambda>l. kind l = SignalLayer \<or> kind l = DielectricLayer) (layers s)"

definition find_layer :: "string \<Rightarrow> layer list \<Rightarrow> layer option" where
  "find_layer n ls = find (\<lambda>l. layer_name l = n) ls"

subsection \<open>Strings\<close>

text \<open>\<open>str.lower\<close> on ASCII letters, \<open>str\<close> of a natural number, and \<open>sub in s\<close>.\<close>

definition lower_char :: "char \<Rightarrow> char" where
  "lower_char c =
     (if 65 \<le> (of_char c :: nat) \<and> (of_char c :: nat) \<le> 90
      then char_of ((of_char c :: nat) + 32) else c)"

definition str_lower :: "string \<Rightarrow> string" where
  "str_lower s = map lower_char s"

function str_of_nat :: "nat \<Rightarrow> string" where
  "str_of_nat n =
     (if n < 10 then [char_of (48 + n)] else str_of_nat (n div 10) @ [char_of (48 + n mod 10)])"
  by pat_completeness auto
termination
  by (relation "measure id") auto

fun starts_with :: "string \<Rightarrow> string \<Rightarrow> bool" where
  "starts_with s [] = True"
| "starts_with [] (p # ps) = False"
| "starts_with (c # s) (p # ps) = (c = p \<and> starts_with s ps)"

fun str_contains :: "string \<Rightarrow> string \<Rightarrow> bool" where
  "str_contains [] p = (p = [])"
| "str_contains (c # s) p = (starts_with (c # s) p \<or> str_contains s p)"

subsection \<open>\<open>_set_layout_stackup\<close>\<close>

datatype operation =
    change_attribute | change_name | change_position | insert_below | insert_above
  | add_on_top | add_on_bottom | non_stackup | add_at_elevation

definition append_log :: "string \<Rightarrow> edb_state \<Rightarrow> edb_state" where
  "append_log msg s = s\<lparr>logged := logged s @ [msg]\<rparr>"

text \<open>
  The rebuild of the three \<open>change_\<close> operations: the stackup layers of the layout are
  added again, the clone taking the place of the layer of its name and of the base layer;
  then the other layers.
\<close>

definition rebuild_with :: "layer \<Rightarrow> string option \<Rightarrow> layer_collection \<Rightarrow> layer_collection" where
  "rebuild_with layer_clone base_layer lc_readonly =
     (let add = (if mode lc_readonly = Overlapping then AddStackupLayerAtElevation
                 else AddLayerBottom);
          lc1 = fold (\<lambda>layer lc.
                        if layer_name layer = layer_name layer_clone
                           \<or> Some (layer_name layer) = base_layer
                        then add layer_clone lc else add layer lc)
                  (StackupLayerSet lc_readonly) (LayerCollection\<lparr>mode := mode lc_readonly\<rparr>)
      in fold AddLayerBottom (NonStackupLayerSet lc_readonly) lc1)"

definition set_layout_stackup ::
  "stackup_env \<Rightarrow> layer \<Rightarrow> operation \<Rightarrow> string option \<Rightarrow> edb_state \<Rightarrow> bool \<times> edb_state" where
  "set_layout_stackup env layer_clone operation base_layer s =
     (let lc = collection s;
          lc' =
            (if operation = change_position \<or> operation = change_attribute
                \<or> operation = change_name
             then rebuild_with layer_clone base_layer lc
             else if operation = insert_below then AddLayerBelow layer_clone base_layer lc
             else if operation = insert_above then AddLayerAbove layer_clone base_layer lc
             else if operation = add_on_top then AddLayerTop layer_clone lc
             else if operation = add_on_bottom then AddLayerBottom layer_clone lc
             else if operation = add_at_elevation then AddStackupLayerAtElevation layer_clone lc
             else lc)
      in commit env lc' s)"

subsection \<open>\<open>add_layer\<close> and \<open>remove_layer\<close>\<close>

text \<open>
  A new layer as the database's constructors \<open>StackupLayer(name, type, thickness, 0, "")\<close>
  and \<open>Layer(name, type)\<close> make it.
\<close>

definition new_layer_of :: "string \<Rightarrow> layer_type \<Rightarrow> real \<Rightarrow> layer" where
  "new_layer_of n t th =
     \<lparr>layer_name = n, kind = t, material = [], fill_material = [], thickness = th,
      lower_elevation = 0, negative = False, etch_factor = None, roughness_enabled = False,
      association = OtherAssociation, is_via_layer = False, upper_ref = [], lower_ref = []\<rparr>"

definition create_stackup_layer :: "string \<Rightarrow> real \<Rightarrow> string \<Rightarrow> layer" where
  "create_stackup_layer layer_name' thickness' layer_type' =
     new_layer_of layer_name' (if layer_type' = ''signal'' then SignalLayer else DielectricLayer)
       thickness'"

definition create_nonstackup_layer :: "string \<Rightarrow> string \<Rightarrow> layer" where
  "create_nonstackup_layer layer_name' layer_type' =
     new_layer_of layer_name'
       (if layer_type' = ''conducting'' then ConductingLayer
        else if layer_type' = ''airlines'' then AirlinesLayer
        else if layer_type' = ''error'' then ErrorsLayer
        else if layer_type' = ''symbol'' then SymbolLayer
        else if layer_type' = ''measure'' then MeasureLayer
        else if layer_type' = ''assembly'' then AssemblyLayer
        else if layer_type' = ''silkscreen'' then SilkscreenLayer
        else if layer_type' = ''soldermask'' then SolderMaskLayer
        else if layer_type' = ''solderpaste'' then SolderPasteLayer
        else if layer_type' = ''glue'' then GlueLayer
        else if layer_type' = ''wirebond'' then WirebondLayer
        else if layer_type' = ''user'' then UserLayer
        else if layer_type' = ''siwavehfsssolverregions'' then SIwaveHFSSSolverRegions
        else if layer_type' = ''outline'' then OutlineLayer
        else if layer_type' = ''postprocessing'' then PostprocessingLayer
        else UndefinedLayerType) 0"

text \<open>
  The arguments of \<open>add_layer\<close>. The thickness and the elevation are the numbers
  \<open>edb_value\<close> reads from the argument; a missing material is the empty string, a
  missing etch factor or elevation is \<open>None\<close>.
\<close>

record layer_request =
  req_name :: string
  req_base :: "string option"
  req_method :: operation
  req_type :: string
  req_material :: string
  req_fill :: string
  req_thickness :: real
  req_etch_factor :: "real option"
  req_negative :: bool
  req_roughness :: bool
  req_elevation :: "real option"

text \<open>The defaults of \<open>add_layer\<close>, for a layer of the given name.\<close>

definition request :: "string \<Rightarrow> layer_request" where
  "request n =
     \<lparr>req_name = n, req_base = None, req_method = add_on_top, req_type = ''signal'',
      req_material = ''copper'', req_fill = ''fr4_epoxy'', req_thickness = 35 / 1000000,
      req_etch_factor = None, req_negative = False, req_roughness = False,
      req_elevation = None\<rparr>"

text \<open>
  The dictionary \<open>materials_lower\<close>: a lower-case name finds the last material of the
  library that has it.
\<close>

definition materials_lower :: "string list \<Rightarrow> string \<Rightarrow> string option" where
  "materials_lower ms k =
     (case filter (\<lambda>m. str_lower m = k) ms of [] \<Rightarrow> None | m # rest \<Rightarrow> Some (last (m # rest)))"

definition resolve_material :: "string \<Rightarrow> edb_state \<Rightarrow> string \<times> edb_state" where
  "resolve_material m s =
     (case materials_lower (material_names s) (str_lower m) of
        None \<Rightarrow> (m, append_log (m @ '' does not exist in material library'') s)
      | Some m' \<Rightarrow> (m', s))"

text \<open>Python's truth of an optional number: \<open>None\<close> and 0 are false.\<close>

definition truthy :: "real option \<Rightarrow> bool" where
  "truthy x = (case x of None \<Rightarrow> False | Some v \<Rightarrow> v \<noteq> 0)"

definition update_layer :: "string \<Rightarrow> (layer \<Rightarrow> layer) \<Rightarrow> edb_state \<Rightarrow> edb_state" where
  "update_layer n f s =
     s\<lparr>collection := (collection s)
         \<lparr>layers_of := map (\<lambda>l. if layer_name l = n then f l else l) (layers_of (collection s))\<rparr>\<rparr>"

text \<open>
  \<open>add_layer\<close>. The result \<open>None\<close> is the \<open>False\<close> the function returns, by itself when
  the name is taken or through \<open>pyaedt_function_handler\<close> when \<open>self.layers[layer_name]\<close>
  raises \<open>KeyError\<close>.
\<close>

definition add_stackup_layer ::
  "stackup_env \<Rightarrow> layer_request \<Rightarrow> string \<Rightarrow> string \<Rightarrow> edb_state \<Rightarrow> layer option \<times> edb_state" where
  "add_stackup_layer env r material' fillMaterial' s =
     (let new_layer = (create_stackup_layer (req_name r) (req_thickness r) (req_type r))
                        \<lparr>material := material'\<rparr>;
          new_layer = (if req_type r \<noteq> ''dielectric''
                       then new_layer\<lparr>fill_material := fillMaterial'\<rparr> else new_layer);
          new_layer = new_layer\<lparr>negative := req_negative r\<rparr>;
          l1 = length (layers s);
          new_layer = (if req_method r = add_at_elevation \<and> truthy (req_elevation r)
                       then new_layer\<lparr>lower_elevation := the (req_elevation r)\<rparr>
                       else new_layer);
          s1 = snd (set_layout_stackup env new_layer (req_method r) (req_base r) s);
          s2 = (if length (layers s1) = l1
                then snd (set_layout_stackup env new_layer (req_method r) (req_base r) s1)
                else s1)
      in if (truthy (req_etch_factor r) \<or> req_roughness r)
            \<and> find_layer (req_name r) (layers s2) = None
         then (None, s2)
         else
           (let s3 = (if truthy (req_etch_factor r)
                      then update_layer (req_name r) (\<lambda>l. l\<lparr>etch_factor := req_etch_factor r\<rparr>) s2
                      else s2);
                s4 = (if req_roughness r
                      then update_layer (req_name r) (\<lambda>l. l\<lparr>roughness_enabled := True\<rparr>) s3
                      else s3)
            in (find_layer (req_name r) (layers s4), s4)))"

definition add_layer :: "stackup_env \<Rightarrow> layer_request \<Rightarrow> edb_state \<Rightarrow> layer option \<times> edb_state" where
  "add_layer env r s =
     (if req_name r \<in> set (map layer_name (layers s))
      then (None, append_log (''layer '' @ req_name r @ '' exists.'') s)
      else
        (let material' = (if req_material r = []
                          then (if req_type r = ''signal'' then ''copper'' else ''fr4_epoxy'')
                          else req_material r);
             fillMaterial' = (if req_fill r = [] then ''fr4_epoxy'' else req_fill r);
             (material', s1) = resolve_material material' s;
             (fillMaterial', s2) = (if req_type r \<noteq> ''dielectric''
                                    then resolve_material fillMaterial' s1
                                    else (fillMaterial', s1))
         in if req_type r = ''signal'' \<or> req_type r = ''dielectric''
            then add_stackup_layer env r material' fillMaterial' s2
            else
              (let new_layer = create_nonstackup_layer (req_name r) (req_type r);
                   s3 = snd (set_layout_stackup env new_layer non_stackup None s2)
               in (find_layer (req_name r) (layers s3), s3))))"

definition remove_layer :: "stackup_env \<Rightarrow> string \<Rightarrow> edb_state \<Rightarrow> bool \<times> edb_state" where
  "remove_layer env name' s =
     (let new_layer_collection =
            fold (\<lambda>lyr lc. if \<not> (layer_name lyr = name') then AddLayerBottom lyr lc else lc)
              (layers s) LayerCollection
      in commit env new_layer_collection s)"

subsection \<open>\<open>refresh_layer_collection\<close>, \<open>stackup_limits\<close> and \<open>get_layout_thickness\<close>\<close>

text \<open>
  \<open>refresh_layer_collection\<close> rebuilds the copy from the collection of the layout: the
  stackup layers are added again one by one, by their elevation in an overlapping
  collection and at the bottom in a laminate one, then the non-stackup layers at the
  bottom.
\<close>

definition refresh_layer_collection :: "layer_collection \<Rightarrow> layer_collection" where
  "refresh_layer_collection lc_readonly =
     (let layers' = StackupLayerSet lc_readonly;
          non_stackup = NonStackupLayerSet lc_readonly;
          lc = LayerCollection\<lparr>mode := mode lc_readonly\<rparr>;
          lc = (if mode lc_readonly = Overlapping
                then fold AddStackupLayerAtElevation layers' lc
                else if mode lc_readonly = Laminate
                then fold AddLayerBottom layers' lc
                else AddLayers layers' lc);
          lc = fold AddLayerBottom non_stackup lc
      in lc\<lparr>mode := mode lc_readonly\<rparr>)"

text \<open>The state with the rebuilt copy for its collection: what the views read.\<close>

definition refreshed :: "edb_state \<Rightarrow> edb_state" where
  "refreshed s = s\<lparr>collection := refresh_layer_collection (collection s)\<rparr>"

text \<open>\<open>None\<close> is the \<open>False\<close> of \<open>pyaedt_function_handler\<close>, when there is no layer to name.\<close>

definition stackup_limits :: "bool \<Rightarrow> edb_state \<Rightarrow> (string \<times> real \<times> string \<times> real) option" where
  "stackup_limits only_metals s =
     (let input_layers = (if only_metals then SignalLayerSet (collection (refreshed s))
                          else StackupLayerSet (collection (refreshed s)))
      in case GetTopBottomStackupLayers input_layers of
           None \<Rightarrow> None
         | Some (topl, topz, bottoml, bottomz) \<Rightarrow>
             Some (layer_name topl, topz, layer_name bottoml, bottomz))"

text \<open>
  \<open>get_layout_thickness\<close> takes the first name of \<open>self.stackup_layers\<close> for the
  bottom layer and the last for the top layer.
\<close>

definition get_layout_thickness :: "edb_state \<Rightarrow> real option" where
  "get_layout_thickness s =
     (case stackup_layers (refreshed s) of
        [] \<Rightarrow> None
      | l # ls \<Rightarrow>
          (let bottom_layer = l;
               top_layer = last (l # ls)
           in Some (lower_elevation top_layer + thickness top_layer
                    - lower_elevation bottom_layer)))"

subsection \<open>\<open>flip_design\<close>\<close>

definition radbox :: "layer \<Rightarrow> bool" where
  "radbox l = str_contains (layer_name l) ''RadBox''"

text \<open>The first loop: \<open>max_elevation\<close>, in micrometers, starts from 0.\<close>

definition max_elevation :: "layer_collection \<Rightarrow> real" where
  "max_elevation lc =
     fold (\<lambda>layer m.
             if \<not> radbox layer
             then max (max m (lower_elevation layer * 1000000)) (upper_elevation layer * 1000000)
             else m)
       (StackupLayerSet lc) 0"

text \<open>\<open>edb_value\<close> of a number followed by \<open>um\<close>.\<close>

definition um :: "real \<Rightarrow> real" where
  "um x = x / 1000000"

definition flipped :: "real \<Rightarrow> layer \<Rightarrow> layer" where
  "flipped max_el cloned_layer =
     cloned_layer
       \<lparr>lower_elevation := um (max_el - upper_elevation cloned_layer * 1000000),
        association := (if association cloned_layer = TopAssociated then BottomAssociated
                        else TopAssociated)\<rparr>"

text \<open>The second loop, over all layers: the stackup layers that are flipped into \<open>new_lc\<close>.\<close>

definition flip_stackup_layers :: "real \<Rightarrow> layer list \<Rightarrow> layer_collection \<Rightarrow> layer_collection" where
  "flip_stackup_layers max_el ls new_lc =
     fold (\<lambda>layer lc.
             if is_stackup_layer layer \<and> \<not> radbox layer \<and> \<not> is_via_layer layer
             then AddStackupLayerAtElevation (flipped max_el layer) lc else lc)
       ls new_lc"

text \<open>
  The third loop, over the via layers. The three lookups \<open>[...][0]\<close> raise
  \<open>IndexError\<close> on a name that is not found; the result is then \<open>None\<close>.
\<close>

fun flip_via_layers ::
  "layer_collection \<Rightarrow> layer list \<Rightarrow> layer_collection \<Rightarrow> layer_collection option" where
  "flip_via_layers lc [] new_lc = Some new_lc"
| "flip_via_layers lc (layer # rest) new_lc =
     (case find_layer (upper_ref layer) (layers_of lc) of
        None \<Rightarrow> None
      | Some upper_ref' \<Rightarrow>
          (case find_layer (lower_ref layer) (layers_of lc) of
             None \<Rightarrow> None
           | Some lower_ref' \<Rightarrow>
               (case find_layer (upper_ref layer) (layers_of new_lc) of
                  None \<Rightarrow> None
                | Some ref_layer_in_flipped_stackup \<Rightarrow>
                    flip_via_layers lc rest
                      (AddStackupLayerAtElevation
                         (layer\<lparr>upper_ref := layer_name lower_ref',
                                lower_ref := layer_name upper_ref',
                                lower_elevation :=
                                  lower_elevation ref_layer_in_flipped_stackup
                                  + thickness ref_layer_in_flipped_stackup\<rparr>)
                         new_lc))))"

text \<open>The collection \<open>flip_design\<close> hands to \<open>SetLayerCollection\<close>.\<close>

definition flip_layers :: "layer_collection \<Rightarrow> layer_collection option" where
  "flip_layers lc =
     (let new_lc = LayerCollection\<lparr>mode := mode lc\<rparr>;
          new_lc = flip_stackup_layers (max_elevation lc) (layers_of lc) new_lc;
          vialayers = filter is_via_layer (StackupLayerSet lc)
      in case flip_via_layers lc vialayers new_lc of
           None \<Rightarrow> None
         | Some new_lc \<Rightarrow> Some (AddLayers (NonStackupLayerSet lc) new_lc))"

definition flip_component :: "edb_component \<Rightarrow> edb_component" where
  "flip_component c =
     (let c1 = (if placement c = AbovePadstack then c\<lparr>placement := BelowPadstack\<rparr>
                else if placement c = BelowPadstack then c\<lparr>placement := AbovePadstack\<rparr>
                else c)
      in if comp_type c = IC
         then (if orientation c1 = ChipDown then c1\<lparr>orientation := ChipUp\<rparr>
               else c1\<lparr>orientation := ChipDown\<rparr>)
         else c1)"

text \<open>
  The loop over the padstack instances stops at the first one whose start or stop layer
  is not a signal layer of the new collection (\<open>IndexError\<close>).
\<close>

fun remap_padstacks :: "layer list \<Rightarrow> edb_padstack list \<Rightarrow> bool \<times> edb_padstack list" where
  "remap_padstacks lay_list [] = (True, [])"
| "remap_padstacks lay_list (p # ps) =
     (if start_layer p \<in> set (map layer_name lay_list)
         \<and> stop_layer p \<in> set (map layer_name lay_list)
      then (let r = remap_padstacks lay_list ps
            in (fst r, p\<lparr>layer_map := Some (stop_layer p, start_layer p)\<rparr> # snd r))
      else (False, p # ps))"

definition flip_design :: "stackup_env \<Rightarrow> edb_state \<Rightarrow> bool \<times> edb_state" where
  "flip_design env s =
     (case flip_layers (collection s) of
        None \<Rightarrow> (False, s)
      | Some new_lc \<Rightarrow>
          if \<not> SetLayerCollection env new_lc
          then (False, append_log ''Failed to Flip Stackup.'' s)
          else
            (let s1 = s\<lparr>collection := new_lc,
                        edb_components := map flip_component (edb_components s)\<rparr>;
                 r = remap_padstacks (SignalLayerSet new_lc) (edb_padstacks s1)
             in (fst r, s1\<lparr>edb_padstacks := snd r\<rparr>)))"

subsection \<open>\<open>create_symmetric_stackup\<close>\<close>

text \<open>
  The setter \<open>dielectric_fill\<close> of a stackup layer, reached through
  \<open>self.stackup_layers[name]\<close>: \<open>None\<close> when there is no stackup layer of that name
  (\<open>KeyError\<close>).
\<close>

definition set_dielectric_fill :: "string \<Rightarrow> string \<Rightarrow> edb_state \<Rightarrow> edb_state option" where
  "set_dielectric_fill n v s =
     (if n \<in> set (map layer_name (stackup_layers s))
      then Some (update_layer n (\<lambda>l. l\<lparr>fill_material := v\<rparr>) s) else None)"

text \<open>The body of the loop over \<open>np.arange(int(layer_count / 2), 1, -1)\<close>.\<close>

definition add_inner_layers ::
  "stackup_env \<Rightarrow> nat \<Rightarrow> real \<Rightarrow> real \<Rightarrow> string \<Rightarrow> nat \<Rightarrow> edb_state \<Rightarrow> edb_state" where
  "add_inner_layers env layer_count inner_layer_thickness dielectric_thickness
       dielectric_material layer_num s =
     (let s1 = snd (add_layer env
                 ((request (''L'' @ str_of_nat layer_num))
                    \<lparr>req_base := Some ''TOP'', req_material := ''copper'',
                     req_thickness := inner_layer_thickness, req_fill := dielectric_material,
                     req_method := insert_below\<rparr>) s);
          s2 = snd (add_layer env
                 ((request (''D'' @ str_of_nat (layer_num - 1)))
                    \<lparr>req_base := Some ''TOP'', req_material := dielectric_material,
                     req_thickness := dielectric_thickness, req_type := ''dielectric'',
                     req_fill := dielectric_material, req_method := insert_below\<rparr>) s1);
          s3 = snd (add_layer env
                 ((request (''L'' @ str_of_nat (layer_count - layer_num + 1)))
                    \<lparr>req_base := Some ''BOT'', req_material := ''copper'',
                     req_thickness := inner_layer_thickness, req_fill := dielectric_material,
                     req_method := insert_above\<rparr>) s2)
      in snd (add_layer env
                 ((request (''D'' @ str_of_nat (layer_count - layer_num + 1)))
                    \<lparr>req_base := Some ''BOT'', req_material := dielectric_material,
                     req_thickness := dielectric_thickness, req_type := ''dielectric'',
                     req_fill := dielectric_material, req_method := insert_above\<rparr>) s3))"

definition add_soldermask :: "stackup_env \<Rightarrow> real \<Rightarrow> string \<Rightarrow> edb_state \<Rightarrow> edb_state option" where
  "add_soldermask env soldermask_thickness dielectric_material s =
     (let s1 = snd (add_layer env
                 ((request ''SMT'')
                    \<lparr>req_material := ''solder_mask'', req_thickness := soldermask_thickness,
                     req_type := ''dielectric'', req_fill := dielectric_material\<rparr>) s);
          s2 = snd (add_layer env
                 ((request ''SMB'')
                    \<lparr>req_material := ''solder_mask'', req_thickness := soldermask_thickness,
                     req_type := ''dielectric'', req_fill := dielectric_material,
                     req_method := add_on_bottom\<rparr>) s1)
      in case set_dielectric_fill ''TOP'' ''solder_mask'' s2 of
           None \<Rightarrow> None
         | Some s3 \<Rightarrow> set_dielectric_fill ''BOT'' ''solder_mask'' s3)"

definition create_symmetric_stackup ::
  "stackup_env \<Rightarrow> nat \<Rightarrow> real \<Rightarrow> real \<Rightarrow> real \<Rightarrow> string \<Rightarrow> bool \<Rightarrow> real \<Rightarrow> edb_state
     \<Rightarrow> bool \<times> edb_state" where
  "create_symmetric_stackup env layer_count inner_layer_thickness outer_layer_thickness
       dielectric_thickness dielectric_material soldermask soldermask_thickness s =
     (if \<not> numpy_present env
      then (False, append_log ''Numpy is needed. Please, install it first.'' s)
      else if \<not> layer_count mod 2 = 0 then (False, s)
      else
        (let s1 = snd (add_layer env
                    ((request ''BOT'')
                       \<lparr>req_material := ''copper'', req_thickness := outer_layer_thickness,
                        req_fill := dielectric_material\<rparr>) s);
             s2 = snd (add_layer env
                    ((request (''D'' @ str_of_nat (layer_count div 2)))
                       \<lparr>req_material := ''fr4_epoxy'', req_thickness := dielectric_thickness,
                        req_type := ''dielectric'', req_fill := dielectric_material\<rparr>) s1);
             s3 = snd (add_layer env
                    ((request ''TOP'')
                       \<lparr>req_material := ''copper'', req_thickness := outer_layer_thickness,
                        req_fill := dielectric_material\<rparr>) s2);
             s4 = (if soldermask
                   then add_soldermask env soldermask_thickness dielectric_material s3
                   else Some s3)
         in case s4 of
              None \<Rightarrow> (False, s3)
            | Some s5 \<Rightarrow>
                (True,
                 fold (add_inner_layers env layer_count inner_layer_thickness
                         dielectric_thickness dielectric_material)
                   (rev [2 ..< Suc (layer_count div 2)]) s5)))"

text \<open>The defaults of \<open>create_symmetric_stackup\<close>, with and without solder mask.\<close>

definition symmetric_stackup :: "stackup_env \<Rightarrow> nat \<Rightarrow> bool \<Rightarrow> edb_state \<Rightarrow> bool \<times> edb_state" where
  "symmetric_stackup env layer_count soldermask s =
     create_symmetric_stackup env layer_count (17 / 1000000) (50 / 1000000) (100 / 1000000)
       ''fr4_epoxy'' soldermask (20 / 1000000) s"

subsection \<open>Concrete states for evaluation\<close>

definition empty_edb :: edb_state where
  "empty_edb =
     \<lparr>collection = LayerCollection, material_names = [''copper'', ''FR4_epoxy'', ''air''],
      edb_components = [], edb_padstacks = [], logged = []\<rparr>"

definition cpython :: stackup_env where
  "cpython = \<lparr>SetLayerCollection = (\<lambda>lc. True), numpy_present = True\<rparr>"

text \<open>
  The stackup \<open>create_symmetric_stackup\<close> builds from two layers without solder mask
  (lengths in meters: 50 um, 100 um, 50 um).
\<close>

definition three_layers :: edb_state where
  "three_layers =
     empty_edb\<lparr>collection :=
       \<lparr>mode = Laminate,
        layers_of =
          [(new_layer_of ''TOP'' SignalLayer (50 / 1000000))
             \<lparr>material := ''copper'', fill_material := ''FR4_epoxy'',
              lower_elevation := 150 / 1000000\<rparr>,
           (new_layer_of ''D1'' DielectricLayer (100 / 1000000))
             \<lparr>material := ''FR4_epoxy'', lower_elevation := 50 / 1000000\<rparr>,
           (new_layer_of ''BOT'' SignalLayer (50 / 1000000))
             \<lparr>material := ''copper'', fill_material := ''FR4_epoxy''\<rparr>]\<rparr>\<rparr>"

text \<open>The same three layers in an overlapping collection that lists them from the bottom.\<close>

definition ascending_edb :: edb_state where
  "ascending_edb =
     three_layers\<lparr>collection := (collection three_layers)
       \<lparr>mode := Overlapping, layers_of := rev (layers_of (collection three_layers))\<rparr>\<rparr>"

subsection \<open>Notions used to state the properties of the stackup\<close>

text \<open>A layer without regard to its elevation.\<close>

definition without_elevation :: "layer \<Rightarrow> layer" where
  "without_elevation l = l\<lparr>lower_elevation := 0\<rparr>"

text \<open>A layer and a collection without regard to the names of the materials.\<close>

definition without_materials :: "layer \<Rightarrow> layer" where
  "without_materials l = l\<lparr>material := [], fill_material := []\<rparr>"

definition collection_without_materials :: "layer_collection \<Rightarrow> layer_collection" where
  "collection_without_materials lc = lc\<lparr>layers_of := map without_materials (layers_of lc)\<rparr>"

text \<open>
  The layout's answer to \<open>SetLayerCollection\<close> does not depend on the names of the
  materials in the collection.
\<close>

definition material_blind :: "stackup_env \<Rightarrow> bool" where
  "material_blind env \<longleftrightarrow>
     (\<forall>lc lc'. collection_without_materials lc = collection_without_materials lc'
        \<longrightarrow> SetLayerCollection env lc = SetLayerCollection env lc')"

text \<open>The material and the fill material \<open>add_layer\<close> looks up: the argument or its default.\<close>

definition chosen_material :: "layer_request \<Rightarrow> string" where
  "chosen_material r =
     (if req_material r = [] then (if req_type r = ''signal'' then ''copper'' else ''fr4_epoxy'')
      else req_material r)"

definition chosen_fill :: "layer_request \<Rightarrow> string" where
  "chosen_fill r = (if req_fill r = [] then ''fr4_epoxy'' else req_fill r)"

abbreviation wm :: "layer \<Rightarrow> layer" where
  "wm \<equiv> without_materials"

abbreviation cwm :: "layer_collection \<Rightarrow> layer_collection" where
  "cwm \<equiv> collection_without_materials"

text \<open>
  The maximum elevation in the words of the specification, in meters: the maximum over
  the lower and upper elevations of the stackup layers whose name does not contain
  \<open>RadBox\<close>.
\<close>

definition claimed_max_elevation :: "layer_collection \<Rightarrow> real" where
  "claimed_max_elevation lc =
     Max (set (concat (map (\<lambda>l. [lower_elevation l, upper_elevation l])
                         (filter (\<lambda>l. \<not> radbox l) (StackupLayerSet lc)))))"

text \<open>
  Two overlapping stackups of one signal layer, 10 um thick and top associated: one
  below elevation 0, from -20 um to -10 um, and one above it, from 10 um to 20 um.
\<close>

definition sunk_edb :: edb_state where
  "sunk_edb =
     empty_edb\<lparr>collection :=
       \<lparr>mode = Overlapping,
        layers_of = [(new_layer_of ''L1'' SignalLayer (10 / 1000000))
                       \<lparr>lower_elevation := - (20 / 1000000), association := TopAssociated\<rparr>]\<rparr>\<rparr>"

definition raised_edb :: edb_state where
  "raised_edb =
     empty_edb\<lparr>collection :=
       \<lparr>mode = Overlapping,
        layers_of = [(new_layer_of ''L1'' SignalLayer (10 / 1000000))
                       \<lparr>lower_elevation := 10 / 1000000, association := TopAssociated\<rparr>]\<rparr>\<rparr>"

text \<open>
  A board on the ground: an overlapping stackup of two signal layers and a dielectric
  between them, a silkscreen layer, a component and a padstack instance.
\<close>

definition grounded_edb :: edb_state where
  "grounded_edb =
     \<lparr>collection =
        \<lparr>mode = Overlapping,
         layers_of =
           [(new_layer_of ''TOP'' SignalLayer (50 / 1000000))
              \<lparr>lower_elevation := 150 / 1000000, association := TopAssociated\<rparr>,
            (new_layer_of ''D1'' DielectricLayer (100 / 1000000))
              \<lparr>lower_elevation := 50 / 1000000, association := TopAssociated\<rparr>,
            (new_layer_of ''BOT'' SignalLayer (50 / 1000000))
              \<lparr>association := BottomAssociated\<rparr>,
            new_layer_of ''SILK'' SilkscreenLayer 0]\<rparr>,
      material_names = [''copper''],
      edb_components =
        [\<lparr>comp_name = ''U1'', comp_type = IC, placement = AbovePadstack, orientation = ChipUp\<rparr>],
      edb_padstacks = [\<lparr>start_layer = ''TOP'', stop_layer = ''BOT'', layer_map = None\<rparr>],
      logged = []\<rparr>"

text \<open>The same board with a via layer between \<open>TOP\<close> and \<open>BOT\<close>.\<close>

definition via_edb :: edb_state where
  "via_edb =
     grounded_edb\<lparr>collection := (collection grounded_edb)
       \<lparr>layers_of :=
          (new_layer_of ''VIA'' DielectricLayer (100 / 1000000))
            \<lparr>lower_elevation := 50 / 1000000, is_via_layer := True,
             upper_ref := ''TOP'', lower_ref := ''BOT''\<rparr>
          # layers_of (collection grounded_edb)\<rparr>\<rparr>"

text \<open>
  What the third loop of \<open>flip_design\<close> makes of the via layer \<open>v\<close>, when \<open>r\<close> is the
  layer found under its upper reference in the new collection.
\<close>

definition flipped_via :: "layer \<Rightarrow> layer \<Rightarrow> layer" where
  "flipped_via v r =
     v\<lparr>upper_ref := lower_ref v, lower_ref := upper_ref v,
       lower_elevation := lower_elevation r + thickness r\<rparr>"

section \<open>The steps of the cutout after its guard\<close>

lemma set_fold_removeAll: "set (fold removeAll xs ys) = set ys - set xs"
  by (induction xs arbitrary: ys) auto

lemma fold_max_ge_init: "(a::nat) \<le> fold max xs a"
  by (induction xs arbitrary: a) (auto intro: order_trans [OF max.cobounded2])

lemma fold_max_ge_elem: "(x::nat) \<in> set xs \<Longrightarrow> x \<le> fold max xs a"
proof (induction xs arbitrary: a)
  case Nil
  then show ?case by simp
next
  case (Cons y ys)
  show ?case
  proof (cases "x = y")
    case True
    have "y \<le> max y a" by simp
    also have "\<dots> \<le> fold max ys (max y a)" by (rule fold_max_ge_init)
    finally show ?thesis using True by simp
  next
    case False
    with Cons show ?thesis by simp
  qed
qed

lemma fresh_id_above: "q \<in> set ps \<Longrightarrow> prim_id q < fresh_id ps"
  unfolding fresh_id_def using fold_max_ge_elem [of "prim_id q" "map prim_id ps" 0]
  by (simp add: less_Suc_eq_le)

lemma fold_create_polygon_mem:
  "n \<in> set (fold create_polygon els ps) \<Longrightarrow>
     n \<in> set ps \<or> ((\<exists>el \<in> set els. made_from el n) \<and> (\<forall>q \<in> set ps. prim_id q < prim_id n))"
proof (induction els arbitrary: ps)
  case Nil
  then show ?case by simp
next
  case (Cons el els)
  from Cons.prems have "n \<in> set (fold create_polygon els (create_polygon el ps))" by simp
  from Cons.IH [OF this] show ?case
  proof
    assume "n \<in> set (create_polygon el ps)"
    then show ?thesis
      by (auto simp: create_polygon_def made_from_def fresh_id_above)
  next
    assume h: "(\<exists>el \<in> set els. made_from el n) \<and> (\<forall>q \<in> set (create_polygon el ps). prim_id q < prim_id n)"
    then show ?thesis by (auto simp: create_polygon_def)
  qed
qed

lemma fold_create_polygon_keeps: "set ps \<subseteq> set (fold create_polygon els ps)"
proof (induction els arbitrary: ps)
  case Nil
  then show ?case by simp
next
  case (Cons el els)
  have "set ps \<subseteq> set (create_polygon el ps)" by (auto simp: create_polygon_def)
  also have "\<dots> \<subseteq> set (fold create_polygon els (create_polygon el ps))" by (rule Cons.IH)
  finally show ?case by simp
qed

lemma fold_create_polygon_makes:
  "el \<in> set els \<Longrightarrow>
     \<exists>n \<in> set (fold create_polygon els ps). made_from el n \<and> (\<forall>q \<in> set ps. prim_id q < prim_id n)"
proof (induction els arbitrary: ps)
  case Nil
  then show ?case by simp
next
  case (Cons e els)
  show ?case
  proof (cases "el = e")
    case True
    let ?n = "\<lparr>prim_id = fresh_id ps, prim_net = fst (snd (snd el)), prim_layer = fst (snd el),
            is_void = False, polygon_data = fst el, prim_voids = snd (snd (snd el))\<rparr>"
    have "?n \<in> set (create_polygon e ps)" using True by (simp add: create_polygon_def)
    then have "?n \<in> set (fold create_polygon els (create_polygon e ps))"
      using fold_create_polygon_keeps by blast
    moreover have "made_from el ?n" by (simp add: made_from_def)
    moreover have "\<forall>q \<in> set ps. prim_id q < prim_id ?n" by (simp add: fresh_id_above)
    ultimately show ?thesis by (metis fold_simps(2))
  next
    case False
    with Cons.prems have "el \<in> set els" by simp
    from Cons.IH [OF this, of "create_polygon e ps"]
    obtain n where "n \<in> set (fold create_polygon els (create_polygon e ps))" "made_from el n"
      "\<forall>q \<in> set (create_polygon e ps). prim_id q < prim_id n" by blast
    moreover have "set ps \<subseteq> set (create_polygon e ps)" by (auto simp: create_polygon_def)
    ultimately have "n \<in> set (fold create_polygon (e # els) ps)" "made_from el n"
      "\<forall>q \<in> set ps. prim_id q < prim_id n" by auto
    then show ?thesis by blast
  qed
qed


lemma list_void_eq:
  "list_void g p vs = filter (\<lambda>v. GetIntersectionType g p v = 2) vs"
  unfolding list_void_def by (rule filter_cong) auto

lemma void_to_subtract_eq:
  "void_to_subtract g p vs =
     filter (\<lambda>v. GetIntersectionType g p v = 1 \<or> 2 < GetIntersectionType g p v) vs"
  unfolding void_to_subtract_def by (rule filter_cong) auto

lemma set_piece_polys:
  "set (piece_polys g q p) = (if IsNull g p then {} else clipped_pieces g q p)"
proof (cases "prim_voids q = []")
  case True
  then show ?thesis by (simp add: piece_polys_def clipped_pieces_def)
next
  case False
  then show ?thesis
    by (simp add: piece_polys_def clipped_pieces_def list_void_eq void_to_subtract_eq Let_def)
qed

lemma fst_clean_prim:
  "set (fst (clean_prim g poly q)) =
     (if GetIntersectionType g poly (polygon_data q) = 0
         \<or> GetIntersectionType g poly (polygon_data q) = 2 then {}
      else kept_pieces g poly q)"
  by (auto simp: clean_prim_def kept_pieces_def set_piece_polys Let_def)

lemma snd_clean_prim:
  "snd (clean_prim g poly q) =
     (if GetIntersectionType g poly (polygon_data q) = 2 then [] else [q])"
  by (simp add: clean_prim_def Let_def)

lemma set_prims_to_delete:
  "set (concat (map snd (map (clean_prim g poly) qs)))
     = {q \<in> set qs. GetIntersectionType g poly (polygon_data q) \<noteq> 2}"
  by (induction qs) (auto simp: snd_clean_prim)

lemma set_poly_to_create:
  "set (concat (map fst (map (clean_prim g poly) qs)))
     = (\<Union>q \<in> {q \<in> set qs. GetIntersectionType g poly (polygon_data q) \<noteq> 0
                     \<and> GetIntersectionType g poly (polygon_data q) \<noteq> 2}. kept_pieces g poly q)"
  by (induction qs) (auto simp: fst_clean_prim)

lemma fold_removeAll_filter: "fold removeAll xs ys = filter (\<lambda>y. y \<notin> set xs) ys"
proof (induction xs arbitrary: ys)
  case Nil
  then show ?case by simp
next
  case (Cons x xs)
  have "fold removeAll (x # xs) ys = filter (\<lambda>y. y \<notin> set xs) (removeAll x ys)"
    using Cons.IH by simp
  also have "\<dots> = filter (\<lambda>y. y \<notin> set (x # xs)) ys"
    by (induction ys) auto
  finally show ?case .
qed

lemma primitives_prune:
  "primitives (prune env poly rp rq rm s) =
     fold removeAll (concat (map snd (map (clean_prim (engine env) poly) rq)))
       (fold create_polygon (concat (map fst (map (clean_prim (engine env) poly) rq)))
          (primitives s))"
  by (simp add: prune_def Let_def)

lemma instances_prune:
  "instances (prune env poly rp rq rm s) =
     fold removeAll (filter (\<lambda>pinst. \<not> in_polygon (engine env) (pinst_geom pinst) poly) rp)
       (instances s)"
  by (simp add: prune_def Let_def)

lemma cutout_success:
  assumes "cutout_steps env sl rl custom rm s = (True, s')"
  obtains poly where
    "clip_region env custom sl (net_clean_up (all_list_of custom sl rl) s) = Some poly"
    "\<not> IsNull (engine env) poly"
    "s' = prune env poly
            (reference_pinsts (all_list_of custom sl rl) (reference_list_of custom sl rl) s)
            (reference_prims (all_list_of custom sl rl) (reference_list_of custom sl rl) s)
            rm (net_clean_up (all_list_of custom sl rl) s)"
  using assms unfolding cutout_steps_def Let_def
  by (auto split: option.splits if_splits)

lemma reference_in_all:
  "n \<in> set (reference_list_of custom sl rl) \<Longrightarrow> n \<in> set (all_list_of custom sl rl)"
  by (auto simp: reference_list_of_def all_list_of_def)


lemma set_all_list_of: "set (all_list_of custom sl rl) = set sl \<union> set rl"
  by (auto simp: all_list_of_def reference_list_of_def)

lemma made_from_net: "made_from el n \<Longrightarrow> prim_net n = fst (snd (snd el))"
  by (simp add: made_from_def)

lemma kept_pieces_net: "el \<in> kept_pieces g poly q \<Longrightarrow> fst (snd (snd el)) = prim_net q"
  by (auto simp: kept_pieces_def clipped_pieces_def Let_def split: if_splits)

lemma kept_pieces_layer: "el \<in> kept_pieces g poly q \<Longrightarrow> fst (snd el) = prim_layer q"
  by (auto simp: kept_pieces_def clipped_pieces_def Let_def split: if_splits)

text \<open>The instances the steps leave when they succeed.\<close>

lemma cutout_instances:
  assumes ok: "cutout_steps env sl rl custom rm s = (True, s')"
    and clip: "clip_region env custom sl (net_clean_up (all_list_of custom sl rl) s) = Some poly"
  shows "instances s' =
           filter (\<lambda>i. pinst_net i \<in> set sl \<union> set rl
                     \<and> (pinst_net i \<in> set (reference_list_of custom sl rl)
                          \<longrightarrow> in_polygon (engine env) (pinst_geom i) poly))
             (instances s)"
proof -
  define al where "al = all_list_of custom sl rl"
  define rl' where "rl' = reference_list_of custom sl rl"
  from ok clip have "instances s' =
      fold removeAll
        (filter (\<lambda>pinst. \<not> in_polygon (engine env) (pinst_geom pinst) poly)
           (reference_pinsts al rl' s))
        (filter (\<lambda>i. pinst_net i \<in> set al) (instances s))"
    by (elim cutout_success) (simp add: instances_prune al_def rl'_def net_clean_up_def)
  also have "\<dots> = filter (\<lambda>i. pinst_net i \<in> set al
                     \<and> (pinst_net i \<in> set rl' \<longrightarrow> in_polygon (engine env) (pinst_geom i) poly))
                   (instances s)"
    unfolding fold_removeAll_filter filter_filter
    by (rule filter_cong) (auto simp: reference_pinsts_def)
  finally show ?thesis by (simp add: al_def rl'_def set_all_list_of)
qed

text \<open>
  The primitives the steps leave when they succeed: which of the old ones are deleted, which
  are kept, and where the new ones come from.
\<close>

lemma cutout_primitives:
  assumes ok: "cutout_steps env sl rl custom rm s = (True, s')"
    and clip: "clip_region env custom sl (net_clean_up (all_list_of custom sl rl) s) = Some poly"
  shows "\<And>q. q \<in> set (primitives s) \<Longrightarrow> prim_net q \<in> set (reference_list_of custom sl rl) \<Longrightarrow>
              \<not> is_void q \<Longrightarrow> GetIntersectionType (engine env) poly (polygon_data q) \<noteq> 2 \<Longrightarrow>
              q \<notin> set (primitives s')"
    and "\<And>q. q \<in> set (primitives s) \<Longrightarrow> prim_net q \<in> set sl \<union> set rl \<Longrightarrow>
              prim_net q \<notin> set (reference_list_of custom sl rl) \<or> is_void q
                \<or> GetIntersectionType (engine env) poly (polygon_data q) = 2 \<Longrightarrow>
              q \<in> set (primitives s')"
    and "\<And>q el. q \<in> set (primitives s) \<Longrightarrow> prim_net q \<in> set (reference_list_of custom sl rl) \<Longrightarrow>
              \<not> is_void q \<Longrightarrow> GetIntersectionType (engine env) poly (polygon_data q) \<noteq> 0 \<Longrightarrow>
              GetIntersectionType (engine env) poly (polygon_data q) \<noteq> 2 \<Longrightarrow>
              el \<in> kept_pieces (engine env) poly q \<Longrightarrow>
              \<exists>n \<in> set (primitives s'). n \<notin> set (primitives s) \<and> made_from el n"
    and "\<And>n. n \<in> set (primitives s') \<Longrightarrow> n \<notin> set (primitives s) \<Longrightarrow>
              \<exists>q \<in> set (primitives s).
                 prim_net q \<in> set (reference_list_of custom sl rl) \<and> \<not> is_void q
                 \<and> GetIntersectionType (engine env) poly (polygon_data q) \<noteq> 0
                 \<and> GetIntersectionType (engine env) poly (polygon_data q) \<noteq> 2
                 \<and> (\<exists>el \<in> kept_pieces (engine env) poly q. made_from el n)"
proof -
  define al where "al = all_list_of custom sl rl"
  define rl' where "rl' = reference_list_of custom sl rl"
  define g where "g = engine env"
  define rq where "rq = reference_prims al rl' s"
  define ps where "ps = primitives (net_clean_up al s)"
  define cs where "cs = concat (map fst (map (clean_prim g poly) rq))"
  define ds where "ds = concat (map snd (map (clean_prim g poly) rq))"
  let ?t = "\<lambda>q. GetIntersectionType g poly (polygon_data q)"
  from ok clip have s': "primitives s' = fold removeAll ds (fold create_polygon cs ps)"
    by (elim cutout_success)
       (simp add: primitives_prune al_def rl'_def g_def rq_def ps_def cs_def ds_def)
  have al: "set al = set sl \<union> set rl"
    unfolding al_def by (rule set_all_list_of)
  have ps: "set ps = {q \<in> set (primitives s). prim_net q \<in> set al}"
    by (auto simp: ps_def net_clean_up_def)
  have rl_al: "\<And>n. n \<in> set rl' \<Longrightarrow> n \<in> set al"
    unfolding rl'_def al_def by (rule reference_in_all)
  have rq: "set rq = {q \<in> set (primitives s). prim_net q \<in> set rl' \<and> \<not> is_void q}"
    using rl_al by (auto simp: rq_def reference_prims_def)
  have rq_ps: "set rq \<subseteq> set ps" using rq ps rl_al by auto
  have ds: "set ds = {q \<in> set rq. ?t q \<noteq> 2}"
    unfolding ds_def by (rule set_prims_to_delete)
  have cs: "set cs = (\<Union>q \<in> {q \<in> set rq. ?t q \<noteq> 0 \<and> ?t q \<noteq> 2}. kept_pieces g poly q)"
    unfolding cs_def by (rule set_poly_to_create)
  have ds_ps: "set ds \<subseteq> set ps" using ds rq_ps by auto
  show "q \<notin> set (primitives s')"
    if "q \<in> set (primitives s)" "prim_net q \<in> set (reference_list_of custom sl rl)"
       "\<not> is_void q" "GetIntersectionType (engine env) poly (polygon_data q) \<noteq> 2" for q
  proof -
    have "q \<in> set ds" using that ds rq by (simp add: rl'_def g_def)
    then show ?thesis by (simp add: s' set_fold_removeAll)
  qed
  show "q \<in> set (primitives s')"
    if "q \<in> set (primitives s)" "prim_net q \<in> set sl \<union> set rl"
       "prim_net q \<notin> set (reference_list_of custom sl rl) \<or> is_void q
          \<or> GetIntersectionType (engine env) poly (polygon_data q) = 2" for q
  proof -
    have "q \<notin> set ds" using that(3) ds rq by (auto simp: rl'_def g_def)
    moreover have "q \<in> set ps" using that(1,2) ps al by simp
    then have "q \<in> set (fold create_polygon cs ps)"
      using fold_create_polygon_keeps by blast
    ultimately show ?thesis by (simp add: s' set_fold_removeAll)
  qed
  show "\<exists>n \<in> set (primitives s'). n \<notin> set (primitives s) \<and> made_from el n"
    if "q \<in> set (primitives s)" "prim_net q \<in> set (reference_list_of custom sl rl)"
       "\<not> is_void q" "GetIntersectionType (engine env) poly (polygon_data q) \<noteq> 0"
       "GetIntersectionType (engine env) poly (polygon_data q) \<noteq> 2"
       "el \<in> kept_pieces (engine env) poly q" for q el
  proof -
    have q: "q \<in> set rq" using that(1-3) rq by (simp add: rl'_def)
    then have "el \<in> set cs" using that(4-6) cs by (auto simp: g_def)
    from fold_create_polygon_makes [OF this, of ps]
    obtain n where n: "n \<in> set (fold create_polygon cs ps)" "made_from el n"
      "\<forall>p \<in> set ps. prim_id p < prim_id n" by blast
    have "n \<notin> set ps" using n(3) by auto
    then have "n \<notin> set ds" using ds_ps by auto
    with n(1) have 1: "n \<in> set (primitives s')" by (simp add: s' set_fold_removeAll)
    have "prim_net n = prim_net q"
      using n(2) that(6) by (simp add: made_from_net kept_pieces_net)
    with \<open>n \<notin> set ps\<close> q rq_ps ps have "n \<notin> set (primitives s)" by auto
    with 1 n(2) show ?thesis by blast
  qed
  show "\<exists>q \<in> set (primitives s).
          prim_net q \<in> set (reference_list_of custom sl rl) \<and> \<not> is_void q
          \<and> GetIntersectionType (engine env) poly (polygon_data q) \<noteq> 0
          \<and> GetIntersectionType (engine env) poly (polygon_data q) \<noteq> 2
          \<and> (\<exists>el \<in> kept_pieces (engine env) poly q. made_from el n)"
    if "n \<in> set (primitives s')" "n \<notin> set (primitives s)" for n
  proof -
    from that(1) have "n \<in> set (fold create_polygon cs ps)" by (simp add: s' set_fold_removeAll)
    from fold_create_polygon_mem [OF this] that(2) ps
    have "\<exists>el \<in> set cs. made_from el n" by auto
    then show ?thesis using cs rq by (auto simp: rl'_def g_def)
  qed
qed

lemma board_net_cutout:
  "cutout_steps iv_env [''NET1''] [''GND''] NoExtent False board = (True, board_net_cut)"
  by code_simp

lemma board_net_clip:
  "clip_region iv_env NoExtent [''NET1'']
     (net_clean_up (all_list_of NoExtent [''NET1''] [''GND'']) board) = Some (10, 20)"
  by code_simp

lemma board_custom_cutout:
  "cutout_steps iv_env [''NET1''] [''GND''] (ExtentPolygon (11, 16)) False board
     = (True, board_custom_cut)"
  by code_simp

lemma board_custom_clip:
  "clip_region iv_env (ExtentPolygon (11, 16)) [''NET1'']
     (net_clean_up (all_list_of (ExtentPolygon (11, 16)) [''NET1''] [''GND'']) board) = Some (11, 16)"
  by code_simp


text \<open>
  The classification. When the steps succeed with clip polygon \<open>poly\<close>, every
  primitive of a reference net that is not a void falls in exactly one of three classes,
  by the intersection type of the clip polygon with it: type 0 (disjoint), the primitive
  is deleted; type 2 (contained), the primitive is kept as it is; any other type, the
  primitive is deleted and each clipped polygon of \<open>kept_pieces\<close> (a piece of the
  intersection, minus the voids reaching outside it, with the voids inside it attached)
  is created as a new primitive on the layer and the net of the original. The last
  conjunct says that nothing else is created: every new primitive of the layout is such
  a clipped polygon of a partially overlapping primitive.
\<close>

lemma steps_classify_three_ways:
  assumes ok: "cutout_steps env signal_list reference_list custom rm s = (True, s')"
    and clip: "clip_region env custom signal_list
                 (net_clean_up (all_list_of custom signal_list reference_list) s) = Some poly"
  shows "(\<forall>q \<in> set (primitives s).
            prim_net q \<in> set (reference_list_of custom signal_list reference_list) \<and> \<not> is_void q \<longrightarrow>
              (GetIntersectionType (engine env) poly (polygon_data q) = 0 \<longrightarrow>
                 q \<notin> set (primitives s'))
            \<and> (GetIntersectionType (engine env) poly (polygon_data q) = 2 \<longrightarrow>
                 q \<in> set (primitives s'))
            \<and> (GetIntersectionType (engine env) poly (polygon_data q) \<noteq> 0
               \<and> GetIntersectionType (engine env) poly (polygon_data q) \<noteq> 2 \<longrightarrow>
                 q \<notin> set (primitives s')
                 \<and> (\<forall>el \<in> kept_pieces (engine env) poly q.
                       fst (snd el) = prim_layer q \<and> fst (snd (snd el)) = prim_net q
                       \<and> (\<exists>n \<in> set (primitives s'). n \<notin> set (primitives s) \<and> made_from el n))))
       \<and> (\<forall>n \<in> set (primitives s'). n \<notin> set (primitives s) \<longrightarrow>
            (\<exists>q \<in> set (primitives s).
               prim_net q \<in> set (reference_list_of custom signal_list reference_list) \<and> \<not> is_void q
               \<and> GetIntersectionType (engine env) poly (polygon_data q) \<noteq> 0
               \<and> GetIntersectionType (engine env) poly (polygon_data q) \<noteq> 2
               \<and> (\<exists>el \<in> kept_pieces (engine env) poly q. made_from el n)))"
proof (intro conjI ballI impI)
  fix q
  assume q: "q \<in> set (primitives s)"
    "prim_net q \<in> set (reference_list_of custom signal_list reference_list) \<and> \<not> is_void q"
  { assume "GetIntersectionType (engine env) poly (polygon_data q) = 0"
    then show "q \<notin> set (primitives s')"
      using cutout_primitives(1) [OF ok clip, of q] q by simp }
  { assume "GetIntersectionType (engine env) poly (polygon_data q) = 2"
    moreover have "prim_net q \<in> set signal_list \<union> set reference_list"
      using q(2) reference_in_all [of "prim_net q" custom signal_list reference_list]
      by (simp add: set_all_list_of)
    ultimately show "q \<in> set (primitives s')"
      using cutout_primitives(2) [OF ok clip, of q] q by simp }
  { assume t: "GetIntersectionType (engine env) poly (polygon_data q) \<noteq> 0
               \<and> GetIntersectionType (engine env) poly (polygon_data q) \<noteq> 2"
    then show "q \<notin> set (primitives s')"
      using cutout_primitives(1) [OF ok clip, of q] q by simp
    fix el assume el: "el \<in> kept_pieces (engine env) poly q"
    show "fst (snd el) = prim_layer q" using el by (rule kept_pieces_layer)
    show "fst (snd (snd el)) = prim_net q" using el by (rule kept_pieces_net)
    show "\<exists>n \<in> set (primitives s'). n \<notin> set (primitives s) \<and> made_from el n"
      using cutout_primitives(3) [OF ok clip, of q el] q t el by simp }
next
  fix n assume "n \<in> set (primitives s')" "n \<notin> set (primitives s)"
  then show "\<exists>q \<in> set (primitives s).
               prim_net q \<in> set (reference_list_of custom signal_list reference_list) \<and> \<not> is_void q
               \<and> GetIntersectionType (engine env) poly (polygon_data q) \<noteq> 0
               \<and> GetIntersectionType (engine env) poly (polygon_data q) \<noteq> 2
               \<and> (\<exists>el \<in> kept_pieces (engine env) poly q. made_from el n)"
    by (rule cutout_primitives(4) [OF ok clip])
qed

text \<open>
  The lemma at the board, cut around \<open>NET1\<close> with reference net \<open>GND\<close>: the clip
  region is \<open>[10, 20)\<close>; the ground polygon \<open>[30, 40)\<close> is disjoint and deleted,
  \<open>[11, 19)\<close> is contained and kept, and the plane \<open>[0, 100)\<close> is replaced by
  \<open>[10, 18)\<close> with the void \<open>[12, 14)\<close>.
\<close>

lemma steps_classify_three_ways_example:
  "cutout_steps iv_env [''NET1''] [''GND''] NoExtent False board = (True, board_net_cut)
   \<and> GetIntersectionType iv_engine (10, 20) (polygon_data (primitives board ! 3)) = 0
   \<and> primitives board ! 3 \<notin> set (primitives board_net_cut)
   \<and> GetIntersectionType iv_engine (10, 20) (polygon_data (primitives board ! 2)) = 2
   \<and> primitives board ! 2 \<in> set (primitives board_net_cut)
   \<and> GetIntersectionType iv_engine (10, 20) (polygon_data (primitives board ! 1)) = 1
   \<and> primitives board ! 1 \<notin> set (primitives board_net_cut)
   \<and> ((10, 18), ''BOT'', ''GND'', [(12, 14)]) \<in> kept_pieces iv_engine (10, 20) (primitives board ! 1)
   \<and> (\<exists>n \<in> set (primitives board_net_cut). n \<notin> set (primitives board)
         \<and> made_from ((10, 18), ''BOT'', ''GND'', [(12, 14)]) n)"
proof -
  note T = steps_classify_three_ways [OF board_net_cutout board_net_clip]
  have e: "engine iv_env = iv_engine" by (simp add: iv_env_def)
  have m: "primitives board ! 3 \<in> set (primitives board)"
    "primitives board ! 2 \<in> set (primitives board)"
    "primitives board ! 1 \<in> set (primitives board)" by code_simp+
  have r: "prim_net (primitives board ! 3) \<in> set (reference_list_of (NoExtent :: interval custom_extent) [''NET1''] [''GND''])
             \<and> \<not> is_void (primitives board ! 3)"
    "prim_net (primitives board ! 2) \<in> set (reference_list_of (NoExtent :: interval custom_extent) [''NET1''] [''GND''])
             \<and> \<not> is_void (primitives board ! 2)"
    "prim_net (primitives board ! 1) \<in> set (reference_list_of (NoExtent :: interval custom_extent) [''NET1''] [''GND''])
             \<and> \<not> is_void (primitives board ! 1)" by code_simp+
  have t: "GetIntersectionType iv_engine (10, 20) (polygon_data (primitives board ! 3)) = 0"
    "GetIntersectionType iv_engine (10, 20) (polygon_data (primitives board ! 2)) = 2"
    "GetIntersectionType iv_engine (10, 20) (polygon_data (primitives board ! 1)) = 1" by code_simp+
  have k: "((10, 18), ''BOT'', ''GND'', [(12, 14)])
             \<in> kept_pieces iv_engine (10, 20) (primitives board ! 1)" by code_simp
  from T [unfolded e] have A: "\<forall>q \<in> set (primitives board).
            prim_net q \<in> set (reference_list_of (NoExtent :: interval custom_extent) [''NET1''] [''GND'']) \<and> \<not> is_void q \<longrightarrow>
              (GetIntersectionType iv_engine (10, 20) (polygon_data q) = 0 \<longrightarrow>
                 q \<notin> set (primitives board_net_cut))
            \<and> (GetIntersectionType iv_engine (10, 20) (polygon_data q) = 2 \<longrightarrow>
                 q \<in> set (primitives board_net_cut))
            \<and> (GetIntersectionType iv_engine (10, 20) (polygon_data q) \<noteq> 0
               \<and> GetIntersectionType iv_engine (10, 20) (polygon_data q) \<noteq> 2 \<longrightarrow>
                 q \<notin> set (primitives board_net_cut)
                 \<and> (\<forall>el \<in> kept_pieces iv_engine (10, 20) q.
                       fst (snd el) = prim_layer q \<and> fst (snd (snd el)) = prim_net q
                       \<and> (\<exists>n \<in> set (primitives board_net_cut). n \<notin> set (primitives board) \<and> made_from el n)))"
    by (rule conjunct1)
  from bspec [OF A m(1)] r(1) t(1)
  have 1: "primitives board ! 3 \<notin> set (primitives board_net_cut)" by simp
  from bspec [OF A m(2)] r(2) t(2)
  have 2: "primitives board ! 2 \<in> set (primitives board_net_cut)" by simp
  from bspec [OF A m(3)] r(3) t(3)
  have 3: "primitives board ! 1 \<notin> set (primitives board_net_cut)
           \<and> (\<forall>el \<in> kept_pieces iv_engine (10, 20) (primitives board ! 1).
                       fst (snd el) = prim_layer (primitives board ! 1) \<and> fst (snd (snd el)) = prim_net (primitives board ! 1)
                       \<and> (\<exists>n \<in> set (primitives board_net_cut). n \<notin> set (primitives board) \<and> made_from el n))" by simp
  from 3 k have 4: "\<exists>n \<in> set (primitives board_net_cut). n \<notin> set (primitives board)
         \<and> made_from ((10, 18), ''BOT'', ''GND'', [(12, 14)]) n" by blast
  show ?thesis using board_net_cutout t 1 2 3 k 4 by blast
qed

text \<open>
  The null extent. When the clip region is \<open>None\<close> or a null polygon, the steps return
  \<open>False\<close>, and the layout they leave is the one after the net clean-up: the nets,
  padstack instances and primitives outside the signal and reference nets stay deleted.
\<close>

lemma steps_null_extent_no_rollback:
  assumes "clip_region env custom signal_list
             (net_clean_up (all_list_of custom signal_list reference_list) s) = None
         \<or> (\<exists>poly. clip_region env custom signal_list
                      (net_clean_up (all_list_of custom signal_list reference_list) s) = Some poly
                    \<and> IsNull (engine env) poly)"
  shows "fst (cutout_steps env signal_list reference_list custom rm s) = False
       \<and> nets (snd (cutout_steps env signal_list reference_list custom rm s))
           = filter (\<lambda>n. n \<in> set signal_list \<union> set reference_list) (nets s)
       \<and> instances (snd (cutout_steps env signal_list reference_list custom rm s))
           = filter (\<lambda>i. pinst_net i \<in> set signal_list \<union> set reference_list) (instances s)
       \<and> primitives (snd (cutout_steps env signal_list reference_list custom rm s))
           = filter (\<lambda>i. prim_net i \<in> set signal_list \<union> set reference_list) (primitives s)
       \<and> components (snd (cutout_steps env signal_list reference_list custom rm s))
           = components s"
proof -
  have "cutout_steps env signal_list reference_list custom rm s
          = (False, net_clean_up (all_list_of custom signal_list reference_list) s)"
    using assms unfolding cutout_steps_def Let_def by auto
  then show ?thesis
    by (simp add: net_clean_up_def set_all_list_of)
qed

text \<open>
  The lemma at the board with the null polygon \<open>[10, 10)\<close> as custom extent: the
  steps fail, and net \<open>VCC\<close>, its primitive 5 and its instance 4 are gone.
\<close>

lemma steps_null_extent_no_rollback_example:
  "clip_region iv_env (ExtentPolygon (10, 10)) [''NET1'']
      (net_clean_up (all_list_of (ExtentPolygon (10, 10)) [''NET1''] [''GND'']) board) = Some (10, 10)
   \<and> IsNull (engine iv_env) (10, 10)
   \<and> fst (cutout_steps iv_env [''NET1''] [''GND''] (ExtentPolygon (10, 10)) False board)
       = False
   \<and> nets board = [''NET1'', ''GND'', ''VCC'']
   \<and> nets (snd (cutout_steps iv_env [''NET1''] [''GND''] (ExtentPolygon (10, 10)) False
                  board)) = [''NET1'', ''GND'']
   \<and> map prim_id (primitives board) = [1, 2, 3, 4, 5]
   \<and> map prim_id (primitives (snd (cutout_steps iv_env [''NET1''] [''GND'']
                  (ExtentPolygon (10, 10)) False board))) = [1, 2, 3, 4]
   \<and> map pinst_id (instances board) = [1, 2, 3, 4, 5]
   \<and> map pinst_id (instances (snd (cutout_steps iv_env [''NET1''] [''GND'']
                  (ExtentPolygon (10, 10)) False board))) = [1, 2, 3, 5]"
proof -
  have c: "clip_region iv_env (ExtentPolygon (10, 10)) [''NET1'']
      (net_clean_up (all_list_of (ExtentPolygon (10, 10)) [''NET1''] [''GND'']) board) = Some (10, 10)"
    by code_simp
  have n: "IsNull (engine iv_env) (10, 10)" by code_simp
  from c n have "clip_region iv_env (ExtentPolygon (10, 10)) [''NET1'']
             (net_clean_up (all_list_of (ExtentPolygon (10, 10)) [''NET1''] [''GND'']) board) = None
         \<or> (\<exists>poly. clip_region iv_env (ExtentPolygon (10, 10)) [''NET1'']
                      (net_clean_up (all_list_of (ExtentPolygon (10, 10)) [''NET1''] [''GND'']) board) = Some poly
                    \<and> IsNull (engine iv_env) poly)" by blast
  note T = steps_null_extent_no_rollback [OF this, of False]
  have f: "filter (\<lambda>n. n \<in> set [''NET1''] \<union> set [''GND'']) (nets board) = [''NET1'', ''GND'']"
    "map prim_id (filter (\<lambda>i. prim_net i \<in> set [''NET1''] \<union> set [''GND'']) (primitives board))
       = [1, 2, 3, 4]"
    "map pinst_id (filter (\<lambda>i. pinst_net i \<in> set [''NET1''] \<union> set [''GND'']) (instances board))
       = [1, 2, 3, 5]"
    "nets board = [''NET1'', ''GND'', ''VCC'']"
    "map prim_id (primitives board) = [1, 2, 3, 4, 5]"
    "map pinst_id (instances board) = [1, 2, 3, 4, 5]"
    by code_simp+
  show ?thesis using T c n f by simp
qed

text \<open>
  The survivors. When the steps succeed, the padstack instances left are
  exactly the instances of the signal and reference nets, less the instances of
  \<open>reference_list\<close> that fail \<open>in_polygon\<close>: the set of deleted instances is computed
  from the instance list as it was before any deletion. So every instance of a reference
  net that is left passes the test, and no primitive of the original layout that belongs
  to a reference net, is not a void and is disjoint from the clip region (type 0) is
  left. (Void primitives are not classified on their own: they belong to their polygon.)
  The last conjunct covers the new polygons too, for an engine whose clipped pieces are
  never disjoint from the clip region.
\<close>

lemma steps_survivors_inside_clip_region:
  assumes ok: "cutout_steps env signal_list reference_list custom rm s = (True, s')"
    and clip: "clip_region env custom signal_list
                 (net_clean_up (all_list_of custom signal_list reference_list) s) = Some poly"
  shows "set reference_list \<subseteq> set (reference_list_of custom signal_list reference_list)
       \<and> instances s' =
           filter (\<lambda>i. pinst_net i \<in> set signal_list \<union> set reference_list
                     \<and> (pinst_net i \<in> set (reference_list_of custom signal_list reference_list)
                          \<longrightarrow> in_polygon (engine env) (pinst_geom i) poly))
             (instances s)
       \<and> (\<forall>i \<in> set (instances s').
             pinst_net i \<in> set (reference_list_of custom signal_list reference_list)
               \<longrightarrow> in_polygon (engine env) (pinst_geom i) poly)
       \<and> (\<forall>q \<in> set (primitives s').
             q \<in> set (primitives s)
             \<and> prim_net q \<in> set (reference_list_of custom signal_list reference_list)
             \<and> \<not> is_void q
               \<longrightarrow> GetIntersectionType (engine env) poly (polygon_data q) \<noteq> 0)
       \<and> ((\<forall>q \<in> set (primitives s). \<forall>el \<in> kept_pieces (engine env) poly q.
               GetIntersectionType (engine env) poly (fst el) \<noteq> 0)
            \<longrightarrow> (\<forall>q \<in> set (primitives s').
                   prim_net q \<in> set (reference_list_of custom signal_list reference_list)
                   \<and> \<not> is_void q
                     \<longrightarrow> GetIntersectionType (engine env) poly (polygon_data q) \<noteq> 0))"
proof -
  let ?rl = "reference_list_of custom signal_list reference_list"
  let ?t = "\<lambda>q. GetIntersectionType (engine env) poly (polygon_data q)"
  have sub: "set reference_list \<subseteq> set ?rl"
    by (auto simp: reference_list_of_def)
  note inst = cutout_instances [OF ok clip]
  have old: "?t q \<noteq> 0"
    if "q \<in> set (primitives s')" "q \<in> set (primitives s)" "prim_net q \<in> set ?rl" "\<not> is_void q" for q
  proof
    assume "?t q = 0"
    then have "q \<notin> set (primitives s')"
      using cutout_primitives(1) [OF ok clip that(2,3,4)] by simp
    with that(1) show False by simp
  qed
  have all: "?t q \<noteq> 0"
    if eng: "\<forall>q \<in> set (primitives s). \<forall>el \<in> kept_pieces (engine env) poly q.
               GetIntersectionType (engine env) poly (fst el) \<noteq> 0"
      and q: "q \<in> set (primitives s')" "prim_net q \<in> set ?rl" "\<not> is_void q" for q
  proof (cases "q \<in> set (primitives s)")
    case True
    with q show ?thesis by (simp add: old)
  next
    case False
    from cutout_primitives(4) [OF ok clip q(1) False]
    obtain p el where "p \<in> set (primitives s)" "el \<in> kept_pieces (engine env) poly p"
      "made_from el q" by blast
    then show ?thesis using eng by (auto simp: made_from_def)
  qed
  show ?thesis
    using sub inst old all by (intro conjI) auto
qed

text \<open>
  The lemma at the board: the ground instance 3, at 40, fails the test and is deleted.
\<close>

lemma steps_steps_survivors_inside_clip_region_example:
  "cutout_steps iv_env [''NET1''] [''GND''] NoExtent False board = (True, board_net_cut)
   \<and> map pinst_id (instances board) = [1, 2, 3, 4, 5]
   \<and> map pinst_id (instances board_net_cut) = [1, 2, 5]
   \<and> pinst_net (instances board ! 2) = ''GND''
   \<and> \<not> in_polygon iv_engine (pinst_geom (instances board ! 2)) (10, 20)
   \<and> instances board_net_cut =
           filter (\<lambda>i. pinst_net i \<in> set [''NET1''] \<union> set [''GND'']
                     \<and> (pinst_net i \<in> set (reference_list_of (NoExtent :: interval custom_extent) [''NET1''] [''GND''])
                          \<longrightarrow> in_polygon (engine iv_env) (pinst_geom i) (10, 20)))
             (instances board)
   \<and> in_polygon (engine iv_env) (pinst_geom (instances board_net_cut ! 1)) (10, 20)
   \<and> GetIntersectionType (engine iv_env) (10, 20) (polygon_data (primitives board_net_cut ! 1)) \<noteq> 0
   \<and> GetIntersectionType (engine iv_env) (10, 20) (polygon_data (primitives board_net_cut ! 2)) \<noteq> 0"
proof -
  note T = steps_survivors_inside_clip_region [OF board_net_cutout board_net_clip]
  have eng: "\<forall>q \<in> set (primitives board). \<forall>el \<in> kept_pieces (engine iv_env) (10, 20) q.
               GetIntersectionType (engine iv_env) (10, 20) (fst el) \<noteq> 0" by code_simp
  have m: "instances board_net_cut ! 1 \<in> set (instances board_net_cut)"
    "pinst_net (instances board_net_cut ! 1)
       \<in> set (reference_list_of (NoExtent :: interval custom_extent) [''NET1''] [''GND''])"
    "primitives board_net_cut ! 1 \<in> set (primitives board_net_cut)"
    "primitives board_net_cut ! 2 \<in> set (primitives board_net_cut)"
    "prim_net (primitives board_net_cut ! 1)
       \<in> set (reference_list_of (NoExtent :: interval custom_extent) [''NET1''] [''GND''])
     \<and> \<not> is_void (primitives board_net_cut ! 1)"
    "prim_net (primitives board_net_cut ! 2)
       \<in> set (reference_list_of (NoExtent :: interval custom_extent) [''NET1''] [''GND''])
     \<and> \<not> is_void (primitives board_net_cut ! 2)"
    by code_simp+
  have f: "map pinst_id (instances board) = [1, 2, 3, 4, 5]"
    "map pinst_id (instances board_net_cut) = [1, 2, 5]"
    "pinst_net (instances board ! 2) = ''GND''"
    "\<not> in_polygon iv_engine (pinst_geom (instances board ! 2)) (10, 20)"
    by code_simp+
  from T m(1,2) have 1: "in_polygon (engine iv_env) (pinst_geom (instances board_net_cut ! 1)) (10, 20)"
    by blast
  from T eng have "\<forall>q \<in> set (primitives board_net_cut).
                   prim_net q \<in> set (reference_list_of (NoExtent :: interval custom_extent) [''NET1''] [''GND''])
                   \<and> \<not> is_void q
                     \<longrightarrow> GetIntersectionType (engine iv_env) (10, 20) (polygon_data q) \<noteq> 0"
    by blast
  with m(3-6) have 2:
    "GetIntersectionType (engine iv_env) (10, 20) (polygon_data (primitives board_net_cut ! 1)) \<noteq> 0"
    "GetIntersectionType (engine iv_env) (10, 20) (polygon_data (primitives board_net_cut ! 2)) \<noteq> 0"
    by blast+
  from T have 3: "instances board_net_cut =
           filter (\<lambda>i. pinst_net i \<in> set [''NET1''] \<union> set [''GND'']
                     \<and> (pinst_net i \<in> set (reference_list_of (NoExtent :: interval custom_extent) [''NET1''] [''GND''])
                          \<longrightarrow> in_polygon (engine iv_env) (pinst_geom i) (10, 20)))
             (instances board)" by blast
  show ?thesis using board_net_cutout f 1 2 3 by blast
qed

text \<open>
  The custom extent. With a custom extent the signal nets are appended to \<open>reference_list\<close>
  before the pruning, so the instances of the signal nets that fail \<open>in_polygon\<close> and
  the primitives of the signal nets that the clip polygon does not contain are deleted
  (and the overlapping ones clipped); without a custom extent the instances and
  primitives of a signal net that is not also a reference net are all kept.
\<close>

lemma steps_custom_extent_clips_signal_nets:
  "(extent_given custom
      \<and> cutout_steps env signal_list reference_list custom rm s = (True, s')
      \<and> clip_region env custom signal_list
          (net_clean_up (all_list_of custom signal_list reference_list) s) = Some poly
    \<longrightarrow> reference_list_of custom signal_list reference_list = reference_list @ signal_list
      \<and> (\<forall>i \<in> set (instances s).
            pinst_net i \<in> set signal_list \<and> \<not> in_polygon (engine env) (pinst_geom i) poly
              \<longrightarrow> i \<notin> set (instances s'))
      \<and> (\<forall>q \<in> set (primitives s).
            prim_net q \<in> set signal_list \<and> \<not> is_void q
            \<and> GetIntersectionType (engine env) poly (polygon_data q) \<noteq> 2
              \<longrightarrow> q \<notin> set (primitives s')))
 \<and> (\<not> extent_given custom
      \<and> cutout_steps env signal_list reference_list custom rm s = (True, s')
    \<longrightarrow> reference_list_of custom signal_list reference_list = reference_list
      \<and> (\<forall>i \<in> set (instances s).
            pinst_net i \<in> set signal_list \<and> pinst_net i \<notin> set reference_list
              \<longrightarrow> i \<in> set (instances s'))
      \<and> (\<forall>q \<in> set (primitives s).
            prim_net q \<in> set signal_list \<and> prim_net q \<notin> set reference_list
              \<longrightarrow> q \<in> set (primitives s')))"
proof (intro conjI impI)
  assume a: "extent_given custom
      \<and> cutout_steps env signal_list reference_list custom rm s = (True, s')
      \<and> clip_region env custom signal_list
          (net_clean_up (all_list_of custom signal_list reference_list) s) = Some poly"
  then have rl: "reference_list_of custom signal_list reference_list = reference_list @ signal_list"
    by (simp add: reference_list_of_def)
  then show "reference_list_of custom signal_list reference_list = reference_list @ signal_list" .
  from a have ok: "cutout_steps env signal_list reference_list custom rm s = (True, s')"
    and clip: "clip_region env custom signal_list
          (net_clean_up (all_list_of custom signal_list reference_list) s) = Some poly" by simp_all
  show "\<forall>i \<in> set (instances s).
            pinst_net i \<in> set signal_list \<and> \<not> in_polygon (engine env) (pinst_geom i) poly
              \<longrightarrow> i \<notin> set (instances s')"
    unfolding cutout_instances [OF ok clip] rl by simp
  show "\<forall>q \<in> set (primitives s).
            prim_net q \<in> set signal_list \<and> \<not> is_void q
            \<and> GetIntersectionType (engine env) poly (polygon_data q) \<noteq> 2
              \<longrightarrow> q \<notin> set (primitives s')"
    using cutout_primitives(1) [OF ok clip] unfolding rl by simp
next
  assume a: "\<not> extent_given custom
      \<and> cutout_steps env signal_list reference_list custom rm s = (True, s')"
  then have rl: "reference_list_of custom signal_list reference_list = reference_list"
    by (simp add: reference_list_of_def)
  then show "reference_list_of custom signal_list reference_list = reference_list" .
  from a have ok: "cutout_steps env signal_list reference_list custom rm s = (True, s')"
    by simp
  then obtain p where clip: "clip_region env custom signal_list
          (net_clean_up (all_list_of custom signal_list reference_list) s) = Some p"
    by (rule cutout_success)
  show "\<forall>i \<in> set (instances s).
            pinst_net i \<in> set signal_list \<and> pinst_net i \<notin> set reference_list
              \<longrightarrow> i \<in> set (instances s')"
    unfolding cutout_instances [OF ok clip] rl by simp
  show "\<forall>q \<in> set (primitives s).
            prim_net q \<in> set signal_list \<and> prim_net q \<notin> set reference_list
              \<longrightarrow> q \<in> set (primitives s')"
    using cutout_primitives(2) [OF ok clip] unfolding rl by simp
qed

text \<open>
  The lemma at the board: the instance of \<open>NET1\<close> at 19 and the trace \<open>[10, 20)\<close>
  of \<open>NET1\<close> are deleted by the steps with the polygon \<open>[11, 16)\<close>, and kept by the
  steps around \<open>NET1\<close>.
\<close>

lemma steps_steps_custom_extent_clips_signal_nets_example:
  "extent_given (ExtentPolygon (11, 16) :: interval custom_extent)
   \<and> cutout_steps iv_env [''NET1''] [''GND''] (ExtentPolygon (11, 16)) False board
       = (True, board_custom_cut)
   \<and> \<not> extent_given (NoExtent :: interval custom_extent)
   \<and> cutout_steps iv_env [''NET1''] [''GND''] NoExtent False board
       = (True, board_net_cut)
   \<and> pinst_net (instances board ! 4) = ''NET1''
   \<and> \<not> in_polygon (engine iv_env) (pinst_geom (instances board ! 4)) (11, 16)
   \<and> instances board ! 4 \<notin> set (instances board_custom_cut)
   \<and> instances board ! 4 \<in> set (instances board_net_cut)
   \<and> prim_net (primitives board ! 0) = ''NET1''
   \<and> GetIntersectionType (engine iv_env) (11, 16) (polygon_data (primitives board ! 0)) \<noteq> 2
   \<and> primitives board ! 0 \<notin> set (primitives board_custom_cut)
   \<and> primitives board ! 0 \<in> set (primitives board_net_cut)"
proof -
  have g: "extent_given (ExtentPolygon (11, 16) :: interval custom_extent)"
    "\<not> extent_given (NoExtent :: interval custom_extent)" by simp_all
  note C = steps_custom_extent_clips_signal_nets
    [where custom = "ExtentPolygon (11, 16)" and env = iv_env and signal_list = "[''NET1'']"
       and reference_list = "[''GND'']" and rm = False and s = board and s' = board_custom_cut
       and poly = "(11, 16)", THEN conjunct1, rule_format, OF conjI [OF g(1) conjI [OF board_custom_cutout board_custom_clip]]]
  note N = steps_custom_extent_clips_signal_nets
    [where custom = NoExtent and env = iv_env and signal_list = "[''NET1'']"
       and reference_list = "[''GND'']" and rm = False and s = board and s' = board_net_cut,
       THEN conjunct2, rule_format, OF conjI [OF g(2) board_net_cutout]]
  have f: "instances board ! 4 \<in> set (instances board)"
    "primitives board ! 0 \<in> set (primitives board)"
    "pinst_net (instances board ! 4) = ''NET1''"
    "\<not> in_polygon (engine iv_env) (pinst_geom (instances board ! 4)) (11, 16)"
    "prim_net (primitives board ! 0) = ''NET1''"
    "\<not> is_void (primitives board ! 0)"
    "GetIntersectionType (engine iv_env) (11, 16) (polygon_data (primitives board ! 0)) \<noteq> 2"
    by code_simp+
  from C f have 1: "instances board ! 4 \<notin> set (instances board_custom_cut)"
    "primitives board ! 0 \<notin> set (primitives board_custom_cut)" by simp_all
  from N f have 2: "instances board ! 4 \<in> set (instances board_net_cut)"
    "primitives board ! 0 \<in> set (primitives board_net_cut)" by simp_all
  show ?thesis using g board_custom_cutout board_net_cutout f 1 2 by blast
qed

section \<open>The cutout: \<open>_create_cutout_multithread\<close> as it runs\<close>

text \<open>
  The lookup of \<open>is_ironpython\<close> fails before anything else is done: every call returns
  \<open>False\<close> and leaves the layout as it was.
\<close>

lemma create_cutout_multithread_NameError:
  "create_cutout_multithread env signal_list reference_list custom rm s = (False, s)"
  by (simp add: create_cutout_multithread_def is_ironpython_def)

text \<open>
  Claim C1. The multithreaded cutout classifies no primitive. At the board, cut around
  \<open>NET1\<close> with reference net \<open>GND\<close>, the call returns \<open>False\<close> and the layout is the
  board. The clip region of the steps after the guard is \<open>[10, 20)\<close>: the ground polygon
  \<open>[30, 40)\<close> is disjoint from it (type 0) and is still there, and the plane \<open>[0, 100)\<close>
  overlaps it (type 1) and is still there, with no clipped polygon created. The steps
  after the guard, run by themselves, delete the first and replace the second.
\<close>

theorem cutout_classifies_no_primitive:
  "is_ironpython = None
   \<and> create_cutout_multithread iv_env [''NET1''] [''GND''] NoExtent False board = (False, board)
   \<and> clip_region iv_env NoExtent [''NET1'']
        (net_clean_up (all_list_of (NoExtent :: interval custom_extent) [''NET1''] [''GND'']) board)
      = Some (10, 20)
   \<and> prim_net (primitives board ! 3) = ''GND''
   \<and> GetIntersectionType iv_engine (10, 20) (polygon_data (primitives board ! 3)) = 0
   \<and> primitives board ! 3
        \<in> set (primitives (snd (create_cutout_multithread iv_env [''NET1''] [''GND''] NoExtent False
                                 board)))
   \<and> prim_net (primitives board ! 1) = ''GND''
   \<and> GetIntersectionType iv_engine (10, 20) (polygon_data (primitives board ! 1)) = 1
   \<and> primitives board ! 1
        \<in> set (primitives (snd (create_cutout_multithread iv_env [''NET1''] [''GND''] NoExtent False
                                 board)))
   \<and> primitives (snd (create_cutout_multithread iv_env [''NET1''] [''GND''] NoExtent False board))
      = primitives board
   \<and> cutout_steps iv_env [''NET1''] [''GND''] NoExtent False board = (True, board_net_cut)
   \<and> primitives board ! 3 \<notin> set (primitives board_net_cut)
   \<and> primitives board ! 1 \<notin> set (primitives board_net_cut)"
  by code_simp


text \<open>
  Claim C3. With a null clip region the multithreaded cutout returns \<open>False\<close>, but
  nothing was deleted before: the call stops at its first statement. At the board with
  the null polygon \<open>[10, 10)\<close> as custom extent, net \<open>VCC\<close>, its instance 4 and its
  primitive 5, which are outside the signal and reference nets, are still there. The
  steps after the guard, run by themselves, delete them before they find the region
  null.
\<close>

theorem null_extent_deletes_nothing:
  "IsNull (engine iv_env) (10, 10)
   \<and> create_cutout_multithread iv_env [''NET1''] [''GND''] (ExtentPolygon (10, 10)) False board
      = (False, board)
   \<and> nets (snd (create_cutout_multithread iv_env [''NET1''] [''GND''] (ExtentPolygon (10, 10))
                  False board))
      = [''NET1'', ''GND'', ''VCC'']
   \<and> map pinst_id
        (instances (snd (create_cutout_multithread iv_env [''NET1''] [''GND'']
                           (ExtentPolygon (10, 10)) False board)))
      = [1, 2, 3, 4, 5]
   \<and> map prim_id
        (primitives (snd (create_cutout_multithread iv_env [''NET1''] [''GND'']
                            (ExtentPolygon (10, 10)) False board)))
      = [1, 2, 3, 4, 5]
   \<and> fst (cutout_steps iv_env [''NET1''] [''GND''] (ExtentPolygon (10, 10)) False board) = False
   \<and> nets (snd (cutout_steps iv_env [''NET1''] [''GND''] (ExtentPolygon (10, 10)) False board))
      = [''NET1'', ''GND'']
   \<and> map pinst_id
        (instances (snd (cutout_steps iv_env [''NET1''] [''GND''] (ExtentPolygon (10, 10)) False
                           board)))
      = [1, 2, 3, 5]
   \<and> map prim_id
        (primitives (snd (cutout_steps iv_env [''NET1''] [''GND''] (ExtentPolygon (10, 10)) False
                            board)))
      = [1, 2, 3, 4]"
  by code_simp

text \<open>
  Claim C10. With a custom extent the multithreaded cutout clips nothing, signal nets
  included: the call returns \<open>False\<close> at its first statement. At the board with the
  polygon \<open>[11, 16)\<close> as custom extent, the instance of the signal net \<open>NET1\<close> at 19
  fails \<open>in_polygon\<close> and is still there, and the trace \<open>[10, 20)\<close> of \<open>NET1\<close>, which
  the polygon does not contain, is still there, unclipped. The steps after the guard,
  run by themselves, delete the instance and replace the trace by \<open>[11, 16)\<close>.
\<close>

theorem custom_extent_clips_nothing:
  "extent_given (ExtentPolygon (11, 16) :: interval custom_extent)
   \<and> create_cutout_multithread iv_env [''NET1''] [''GND''] (ExtentPolygon (11, 16)) False board
      = (False, board)
   \<and> pinst_net (instances board ! 4) = ''NET1''
   \<and> \<not> in_polygon (engine iv_env) (pinst_geom (instances board ! 4)) (11, 16)
   \<and> instances board ! 4
        \<in> set (instances (snd (create_cutout_multithread iv_env [''NET1''] [''GND'']
                                (ExtentPolygon (11, 16)) False board)))
   \<and> prim_net (primitives board ! 0) = ''NET1''
   \<and> GetIntersectionType (engine iv_env) (11, 16) (polygon_data (primitives board ! 0)) \<noteq> 2
   \<and> primitives board ! 0
        \<in> set (primitives (snd (create_cutout_multithread iv_env [''NET1''] [''GND'']
                                 (ExtentPolygon (11, 16)) False board)))
   \<and> cutout_steps iv_env [''NET1''] [''GND''] (ExtentPolygon (11, 16)) False board
      = (True, board_custom_cut)
   \<and> instances board ! 4 \<notin> set (instances board_custom_cut)
   \<and> primitives board ! 0 \<notin> set (primitives board_custom_cut)"
  by code_simp

section \<open>Properties of the stackup\<close>

lemma symmetric_stackup_two_layers:
  "symmetric_stackup cpython 2 False empty_edb = (True, three_layers)"
  by code_simp

text \<open>
  Claim C6. \<open>get_layout_thickness\<close> does not return the thickness that
  \<open>stackup_limits\<close> gives: it takes the first stackup layer of the rebuilt copy for
  the bottom layer and the last for the top layer, and the copy lists the layers from
  the top. On the three layers, whose copy is the collection itself, \<open>stackup_limits\<close>
  gives the top layer \<open>TOP\<close> at 150 um, which is 50 um thick, and the bottom at 0,
  that is 200 um, and \<open>get_layout_thickness\<close> returns -100 um. The same layers
  listed from the bottom in an overlapping collection have the same copy, listed from
  the top, and the same two results.
\<close>

theorem layout_thickness_differs_from_limits:
  "2 \<le> length (stackup_layers three_layers)
   \<and> refresh_layer_collection (collection three_layers) = collection three_layers
   \<and> map layer_name (stackup_layers (refreshed three_layers)) = [''TOP'', ''D1'', ''BOT'']
   \<and> stackup_limits False three_layers = Some (''TOP'', 150 / 1000000, ''BOT'', 0)
   \<and> find_layer ''TOP'' (layers three_layers)
       = Some ((new_layer_of ''TOP'' SignalLayer (50 / 1000000))
                 \<lparr>material := ''copper'', fill_material := ''FR4_epoxy'',
                  lower_elevation := 150 / 1000000\<rparr>)
   \<and> get_layout_thickness three_layers = Some (- (100 / 1000000))
   \<and> get_layout_thickness three_layers \<noteq> Some (150 / 1000000 + 50 / 1000000 - 0)
   \<and> map layer_name (stackup_layers ascending_edb) = [''BOT'', ''D1'', ''TOP'']
   \<and> map layer_name (stackup_layers (refreshed ascending_edb)) = [''TOP'', ''D1'', ''BOT'']
   \<and> stackup_limits False ascending_edb = Some (''TOP'', 150 / 1000000, ''BOT'', 0)
   \<and> get_layout_thickness ascending_edb = Some (- (100 / 1000000))"
  by code_simp

text \<open>
  Claim C9. \<open>create_symmetric_stackup\<close> with \<open>layer_count = 2\<close> and no solder mask,
  on an empty stackup, builds exactly the three stackup layers \<open>TOP\<close> (copper, 50 um),
  \<open>D1\<close> (dielectric, 100 um) and \<open>BOT\<close> (copper, 50 um), at elevations 150 um,
  50 um and 0. The collection lists them from the top, so \<open>get_layout_thickness\<close>
  takes \<open>TOP\<close> for the bottom layer and returns -100 um, 300 um away from the 200 um
  of the claim.
\<close>

theorem symmetric_stackup_thickness:
  "symmetric_stackup cpython 2 False empty_edb = (True, three_layers)
   \<and> map (\<lambda>l. (layer_name l, kind l, material l, thickness l)) (stackup_layers three_layers)
       = [(''TOP'', SignalLayer, ''copper'', 50 / 1000000),
          (''D1'', DielectricLayer, ''FR4_epoxy'', 100 / 1000000),
          (''BOT'', SignalLayer, ''copper'', 50 / 1000000)]
   \<and> map lower_elevation (stackup_layers three_layers) = [150 / 1000000, 50 / 1000000, 0]
   \<and> get_layout_thickness three_layers = Some (- (100 / 1000000))
   \<and> \<bar>- (100 / 1000000) - 200 / 1000000\<bar> = (300 / 1000000 :: real)"
  by code_simp

lemma layer_name_without_elevation [simp]: "layer_name (without_elevation l) = layer_name l"
  by (simp add: without_elevation_def)

lemma stack_up_without_elevation:
  "map without_elevation (stack_up z ls) = map without_elevation ls"
  by (induction ls arbitrary: z) (auto simp: without_elevation_def)

lemma restack_without_elevation:
  "map without_elevation (restack ls) = map without_elevation ls"
proof -
  have "map without_elevation (restack ls) = rev (map without_elevation (stack_up 0 (rev ls)))"
    by (simp add: restack_def rev_map)
  also have "\<dots> = map without_elevation ls"
    by (simp add: stack_up_without_elevation rev_map)
  finally show ?thesis .
qed

lemma settle_without_elevation:
  "map without_elevation (layers_of (settle lc)) = map without_elevation (layers_of lc)"
  by (simp add: settle_def restack_without_elevation)

lemma mode_settle [simp]: "mode (settle lc) = mode lc"
  by (simp add: settle_def)

lemma AddLayerBottom_without_elevation:
  "map without_elevation (layers_of (AddLayerBottom l lc))
     = map without_elevation (layers_of lc) @ [without_elevation l]"
  by (simp add: AddLayerBottom_def settle_without_elevation)

lemma mode_AddLayerBottom [simp]: "mode (AddLayerBottom l lc) = mode lc"
  by (simp add: AddLayerBottom_def)

lemma fold_AddLayerBottom_except:
  "map without_elevation
     (layers_of (fold (\<lambda>lyr lc. if \<not> (layer_name lyr = n) then AddLayerBottom lyr lc else lc) ls lc0))
   = map without_elevation (layers_of lc0)
     @ filter (\<lambda>l. layer_name l \<noteq> n) (map without_elevation ls)"
  by (induction ls arbitrary: lc0) (auto simp: AddLayerBottom_without_elevation)

lemma mode_fold_AddLayerBottom_except:
  "mode (fold (\<lambda>lyr lc. if \<not> (layer_name lyr = n) then AddLayerBottom lyr lc else lc) ls lc0)
     = mode lc0"
  by (induction ls arbitrary: lc0) auto

text \<open>
  Claim C8, as amended. \<open>remove_layer(name)\<close> builds a new (laminate) collection with
  every layer but those of that name, in the same order and with the same attributes
  (the elevations are those of the new stack), hands it to the layout and returns the
  layout's answer. When no layer has the name, the new collection has the same layers,
  and the call returns that answer all the same.
\<close>

theorem remove_layer_rebuilds:
  "\<exists>lc'. mode lc' = Laminate
      \<and> map without_elevation (layers_of lc')
          = filter (\<lambda>l. layer_name l \<noteq> n) (map without_elevation (layers s))
      \<and> remove_layer env n s
          = (if SetLayerCollection env lc' then (True, s\<lparr>collection := lc'\<rparr>) else (False, s))
      \<and> (n \<notin> set (map layer_name (layers s))
           \<longrightarrow> map without_elevation (layers_of lc') = map without_elevation (layers s))"
proof -
  define lc' where
    "lc' = fold (\<lambda>lyr lc. if \<not> (layer_name lyr = n) then AddLayerBottom lyr lc else lc)
             (layers s) LayerCollection"
  have m: "mode lc' = Laminate"
    by (simp add: lc'_def mode_fold_AddLayerBottom_except LayerCollection_def)
  have f: "map without_elevation (layers_of lc')
          = filter (\<lambda>l. layer_name l \<noteq> n) (map without_elevation (layers s))"
    by (simp add: lc'_def fold_AddLayerBottom_except LayerCollection_def)
  have r: "remove_layer env n s
          = (if SetLayerCollection env lc' then (True, s\<lparr>collection := lc'\<rparr>) else (False, s))"
    by (simp add: remove_layer_def lc'_def commit_def Let_def)
  have "filter (\<lambda>l. layer_name l \<noteq> n) (map without_elevation (layers s))
          = map without_elevation (layers s)"
    if "n \<notin> set (map layer_name (layers s))"
    using that by (induction "layers s") (auto simp: filter_id_conv)
  with m f r show ?thesis by auto
qed

text \<open>
  The theorem at the three layers: removing \<open>D1\<close> leaves \<open>TOP\<close> and \<open>BOT\<close>.
\<close>

theorem remove_layer_rebuilds_witness:
  "remove_layer cpython ''D1'' three_layers
     = (True, snd (remove_layer cpython ''D1'' three_layers))
   \<and> map layer_name (layers three_layers) = [''TOP'', ''D1'', ''BOT'']
   \<and> map layer_name (layers (snd (remove_layer cpython ''D1'' three_layers))) = [''TOP'', ''BOT'']"
proof -
  from remove_layer_rebuilds [of "''D1''" three_layers cpython]
  obtain lc' where lc':
    "map without_elevation (layers_of lc')
       = filter (\<lambda>l. layer_name l \<noteq> ''D1'') (map without_elevation (layers three_layers))"
    "remove_layer cpython ''D1'' three_layers
       = (if SetLayerCollection cpython lc' then (True, three_layers\<lparr>collection := lc'\<rparr>)
          else (False, three_layers))"
    by blast
  have r: "remove_layer cpython ''D1'' three_layers = (True, three_layers\<lparr>collection := lc'\<rparr>)"
    using lc'(2) by (simp add: cpython_def)
  have "map layer_name (layers_of lc') = map layer_name (map without_elevation (layers_of lc'))"
    by (simp add: comp_def)
  also have "\<dots> = map layer_name
      (filter (\<lambda>l. layer_name l \<noteq> ''D1'') (map without_elevation (layers three_layers)))"
    by (simp only: lc'(1))
  also have "\<dots> = [''TOP'', ''BOT'']" by code_simp
  finally have n: "map layer_name (layers_of lc') = [''TOP'', ''BOT'']" .
  have o: "map layer_name (layers three_layers) = [''TOP'', ''D1'', ''BOT'']" by code_simp
  show ?thesis using r n o by (simp add: layers_def)
qed

text \<open>
  Claim C8 as stated fails: removing a name that no layer has returns \<open>True\<close>.
\<close>

theorem remove_absent_layer_returns_true:
  "''X'' \<notin> set (map layer_name (layers three_layers))
   \<and> remove_layer cpython ''X'' three_layers = (True, three_layers)"
  by code_simp

subsection \<open>\<open>add_layer\<close>\<close>

lemma wm_simps [simp]:
  "layer_name (wm l) = layer_name l" "kind (wm l) = kind l"
  "thickness (wm l) = thickness l" "lower_elevation (wm l) = lower_elevation l"
  "is_via_layer (wm l) = is_via_layer l" "is_stackup_layer (wm l) = is_stackup_layer l"
  "wm (wm l) = wm l"
  "wm (l\<lparr>lower_elevation := z\<rparr>) = (wm l)\<lparr>lower_elevation := z\<rparr>"
  "wm (l\<lparr>etch_factor := e\<rparr>) = (wm l)\<lparr>etch_factor := e\<rparr>"
  "wm (l\<lparr>roughness_enabled := b\<rparr>) = (wm l)\<lparr>roughness_enabled := b\<rparr>"
  "wm (l\<lparr>negative := b\<rparr>) = (wm l)\<lparr>negative := b\<rparr>"
  "wm (l\<lparr>material := m\<rparr>) = wm l" "wm (l\<lparr>fill_material := m\<rparr>) = wm l"
  by (simp_all add: without_materials_def is_stackup_layer_def)

lemma cwm_simps [simp]:
  "mode (cwm lc) = mode lc" "layers_of (cwm lc) = map wm (layers_of lc)"
  "cwm (lc\<lparr>layers_of := ls\<rparr>) = (cwm lc)\<lparr>layers_of := map wm ls\<rparr>"
  "cwm (lc\<lparr>mode := m\<rparr>) = (cwm lc)\<lparr>mode := m\<rparr>"
  by (simp_all add: collection_without_materials_def)

lemma cwm_idem [simp]: "cwm (cwm lc) = cwm lc"
  by (simp add: collection_without_materials_def comp_def)

lemma stack_up_wm: "map wm (stack_up z ls) = stack_up z (map wm ls)"
  by (induction ls arbitrary: z) auto

lemma restack_wm: "map wm (restack ls) = restack (map wm ls)"
proof -
  have "map wm (restack ls) = rev (map wm (stack_up 0 (rev ls)))"
    by (simp add: restack_def rev_map)
  also have "\<dots> = rev (stack_up 0 (rev (map wm ls)))"
    by (simp add: stack_up_wm rev_map)
  finally show ?thesis by (simp add: restack_def)
qed

lemma settle_wm: "cwm (settle lc) = settle (cwm lc)"
  by (simp add: settle_def restack_wm)

lemma insert_above_wm:
  "map wm (list_insert_above l b xs) = list_insert_above (wm l) b (map wm xs)"
  by (induction xs) auto

lemma insert_below_wm:
  "map wm (list_insert_below l b xs) = list_insert_below (wm l) b (map wm xs)"
  by (induction xs) auto

lemma insert_at_elevation_wm:
  "map wm (insert_at_elevation l xs) = insert_at_elevation (wm l) (map wm xs)"
  by (induction xs) auto

lemma Add_wm:
  "cwm (AddLayerTop l lc) = AddLayerTop (wm l) (cwm lc)"
  "cwm (AddLayerBottom l lc) = AddLayerBottom (wm l) (cwm lc)"
  "cwm (AddLayerAbove l b lc) = AddLayerAbove (wm l) b (cwm lc)"
  "cwm (AddLayerBelow l b lc) = AddLayerBelow (wm l) b (cwm lc)"
  "cwm (AddStackupLayerAtElevation l lc) = AddStackupLayerAtElevation (wm l) (cwm lc)"
  by (simp_all add: AddLayerTop_def AddLayerBottom_def AddLayerAbove_def AddLayerBelow_def
        AddStackupLayerAtElevation_def settle_wm insert_above_wm insert_below_wm
        insert_at_elevation_wm split: option.splits)

lemma sets_wm:
  "StackupLayerSet (cwm lc) = map wm (StackupLayerSet lc)"
  "NonStackupLayerSet (cwm lc) = map wm (NonStackupLayerSet lc)"
  by (simp_all add: StackupLayerSet_def NonStackupLayerSet_def filter_map comp_def)

lemma fold_wm:
  assumes "\<And>x acc. cwm (f x acc) = f' (wm x) (cwm acc)"
  shows "cwm (fold f xs acc) = fold f' (map wm xs) (cwm acc)"
  using assms by (induction xs arbitrary: acc) auto

lemma rebuild_with_wm: "cwm (rebuild_with c b lc) = rebuild_with (wm c) b (cwm lc)"
proof -
  define add where "add = (if mode lc = Overlapping then AddStackupLayerAtElevation
                           else AddLayerBottom)"
  define f where "f = (\<lambda>c layer lc. if layer_name layer = layer_name c \<or> Some (layer_name layer) = b
                        then add c lc else add layer lc)"
  have add: "\<And>l acc. cwm (add l acc) = add (wm l) (cwm acc)"
    by (simp add: add_def Add_wm)
  have f: "\<And>x acc. cwm (f c x acc) = f (wm c) (wm x) (cwm acc)"
    by (simp add: f_def add)
  have init: "cwm LayerCollection = LayerCollection"
    by (simp add: LayerCollection_def collection_without_materials_def)
  have 1: "cwm (fold (f c) (StackupLayerSet lc) (LayerCollection\<lparr>mode := mode lc\<rparr>))
         = fold (f (wm c)) (StackupLayerSet (cwm lc)) (LayerCollection\<lparr>mode := mode lc\<rparr>)"
    using fold_wm [of "f c" "f (wm c)", OF f] by (simp add: sets_wm init)
  have 2: "\<And>acc. cwm (fold AddLayerBottom (NonStackupLayerSet lc) acc)
         = fold AddLayerBottom (NonStackupLayerSet (cwm lc)) (cwm acc)"
    using fold_wm [of AddLayerBottom AddLayerBottom] by (simp add: sets_wm Add_wm)
  have "rebuild_with c b lc
          = fold AddLayerBottom (NonStackupLayerSet lc)
              (fold (f c) (StackupLayerSet lc) (LayerCollection\<lparr>mode := mode lc\<rparr>))"
    unfolding rebuild_with_def Let_def f_def add_def by (cases "mode lc = Overlapping") simp_all
  moreover have "rebuild_with (wm c) b (cwm lc)
          = fold AddLayerBottom (NonStackupLayerSet (cwm lc))
              (fold (f (wm c)) (StackupLayerSet (cwm lc)) (LayerCollection\<lparr>mode := mode lc\<rparr>))"
    unfolding rebuild_with_def Let_def f_def add_def by (cases "mode lc = Overlapping") simp_all
  ultimately show ?thesis by (simp add: 1 2)
qed

lemma blind_cwm: "material_blind env \<Longrightarrow> SetLayerCollection env (cwm lc) = SetLayerCollection env lc"
  unfolding material_blind_def by (metis cwm_idem)

lemma blind_eq:
  "material_blind env \<Longrightarrow> cwm lc = cwm lc' \<Longrightarrow> SetLayerCollection env lc = SetLayerCollection env lc'"
  unfolding material_blind_def by blast

text \<open>The collection an operation of \<open>_set_layout_stackup\<close> hands to the layout.\<close>

lemma set_layout_stackup_collection:
  assumes "material_blind env" "wm c = wm c'" "cwm (collection s) = cwm (collection s')"
  shows "cwm (collection (snd (set_layout_stackup env c operation b s)))
       = cwm (collection (snd (set_layout_stackup env c' operation b s')))"
proof -
  define go where "go = (\<lambda>c lc.
            (if operation = change_position \<or> operation = change_attribute
                \<or> operation = change_name
             then rebuild_with c b lc
             else if operation = insert_below then AddLayerBelow c b lc
             else if operation = insert_above then AddLayerAbove c b lc
             else if operation = add_on_top then AddLayerTop c lc
             else if operation = add_on_bottom then AddLayerBottom c lc
             else if operation = add_at_elevation then AddStackupLayerAtElevation c lc
             else lc))"
  have go: "cwm (go c lc) = go (wm c) (cwm lc)" for c lc
    by (simp add: go_def Add_wm rebuild_with_wm)
  have eq: "cwm (go c (collection s)) = cwm (go c' (collection s'))"
    by (simp add: go assms)
  then have ok: "SetLayerCollection env (go c (collection s))
               = SetLayerCollection env (go c' (collection s'))"
    using assms(1) by (rule blind_eq [rotated])
  have "snd (set_layout_stackup env c operation b s)
          = (if SetLayerCollection env (go c (collection s))
             then s\<lparr>collection := go c (collection s)\<rparr> else s)" for c s
    by (simp add: set_layout_stackup_def commit_def Let_def go_def)
  then show ?thesis using eq ok assms(3) by simp
qed

lemma cwm_names:
  "cwm lc = cwm lc' \<Longrightarrow> map layer_name (layers_of lc) = map layer_name (layers_of lc')"
proof -
  assume "cwm lc = cwm lc'"
  then have "map wm (layers_of lc) = map wm (layers_of lc')"
    by (metis cwm_simps(2))
  then have "map layer_name (map wm (layers_of lc)) = map layer_name (map wm (layers_of lc'))"
    by simp
  then show ?thesis by (simp add: comp_def)
qed

lemma find_layer_None: "find_layer n ls = None \<longleftrightarrow> n \<notin> set (map layer_name ls)"
  by (auto simp: find_layer_def find_None_iff)

lemma cwm_update_layer:
  assumes "\<And>l. wm (f l) = f (wm l)" "cwm (collection s) = cwm (collection s')"
  shows "cwm (collection (update_layer n f s)) = cwm (collection (update_layer n f s'))"
proof -
  let ?g = "\<lambda>l. if layer_name l = n then f l else l"
  have m: "map wm (map ?g ls) = map ?g (map wm ls)" for ls
    by (induction ls) (simp_all add: assms(1))
  have u: "cwm (collection (update_layer n f s))
      = (cwm (collection s))\<lparr>layers_of := map ?g (map wm (layers_of (collection s)))\<rparr>" for s
    unfolding update_layer_def using m [of "layers_of (collection s)"]
    by (simp add: collection_without_materials_def)
  from assms(2) have "layers_of (cwm (collection s)) = layers_of (cwm (collection s'))"
    by simp
  then have "map wm (layers_of (collection s)) = map wm (layers_of (collection s'))"
    by (simp only: cwm_simps)
  then show ?thesis unfolding u using assms(2) by (simp only:)
qed

lemma add_stackup_layer_None:
  assumes "material_blind env" "cwm (collection s) = cwm (collection s')"
  shows "fst (add_stackup_layer env r m f s) = None
       \<longleftrightarrow> fst (add_stackup_layer env r m' f' s') = None"
proof -
  define nl where "nl = (\<lambda>m f.
     (let new_layer = (create_stackup_layer (req_name r) (req_thickness r) (req_type r))
                        \<lparr>material := m\<rparr>;
          new_layer = (if req_type r \<noteq> ''dielectric''
                       then new_layer\<lparr>fill_material := f\<rparr> else new_layer);
          new_layer = new_layer\<lparr>negative := req_negative r\<rparr>
      in (if req_method r = add_at_elevation \<and> truthy (req_elevation r)
                       then new_layer\<lparr>lower_elevation := the (req_elevation r)\<rparr>
                       else new_layer)))"
  define st where "st = (\<lambda>m f s.
     (let s1 = snd (set_layout_stackup env (nl m f) (req_method r) (req_base r) s)
      in (if length (layers s1) = length (layers s)
                then snd (set_layout_stackup env (nl m f) (req_method r) (req_base r) s1)
                else s1)))"
  define fin where "fin = (\<lambda>s2.
           (let s3 = (if truthy (req_etch_factor r)
                      then update_layer (req_name r) (\<lambda>l. l\<lparr>etch_factor := req_etch_factor r\<rparr>) s2
                      else s2)
            in (if req_roughness r
                      then update_layer (req_name r) (\<lambda>l. l\<lparr>roughness_enabled := True\<rparr>) s3
                      else s3)))"
  have unfold: "add_stackup_layer env r m f s
      = (if (truthy (req_etch_factor r) \<or> req_roughness r)
            \<and> find_layer (req_name r) (layers (st m f s)) = None
         then (None, st m f s)
         else (find_layer (req_name r) (layers (fin (st m f s))), fin (st m f s)))" for m f s
    by (simp only: add_stackup_layer_def st_def nl_def fin_def Let_def)
  have nl: "wm (nl m f) = wm (nl m' f')"
    by (simp add: nl_def Let_def)
  have len: "length (layers a) = length (layers b)"
    if "cwm (collection a) = cwm (collection b)" for a b
    using cwm_names [OF that] by (metis layers_def length_map)
  have st: "cwm (collection (st m f s)) = cwm (collection (st m' f' s'))"
  proof -
    let ?a = "snd (set_layout_stackup env (nl m f) (req_method r) (req_base r) s)"
    let ?b = "snd (set_layout_stackup env (nl m' f') (req_method r) (req_base r) s')"
    have 1: "cwm (collection ?a) = cwm (collection ?b)"
      using assms(1) nl assms(2) by (rule set_layout_stackup_collection)
    have 2: "cwm (collection (snd (set_layout_stackup env (nl m f) (req_method r) (req_base r) ?a)))
           = cwm (collection (snd (set_layout_stackup env (nl m' f') (req_method r) (req_base r) ?b)))"
      using assms(1) nl 1 by (rule set_layout_stackup_collection)
    show ?thesis
      using 1 2 len [OF 1] len [OF assms(2)] by (simp add: st_def Let_def)
  qed
  have fin: "cwm (collection (fin a)) = cwm (collection (fin b))"
    if "cwm (collection a) = cwm (collection b)" for a b
  proof -
    have e: "cwm (collection (update_layer (req_name r) (\<lambda>l. l\<lparr>etch_factor := req_etch_factor r\<rparr>) a))
           = cwm (collection (update_layer (req_name r) (\<lambda>l. l\<lparr>etch_factor := req_etch_factor r\<rparr>) b))"
      using that by (intro cwm_update_layer) simp_all
    have ro: "cwm (collection (update_layer (req_name r) (\<lambda>l. l\<lparr>roughness_enabled := True\<rparr>) x))
           = cwm (collection (update_layer (req_name r) (\<lambda>l. l\<lparr>roughness_enabled := True\<rparr>) y))"
      if "cwm (collection x) = cwm (collection y)" for x y
      using that by (intro cwm_update_layer) simp_all
    show ?thesis
    proof (cases "truthy (req_etch_factor r)")
      case True
      show ?thesis
      proof (cases "req_roughness r")
        case True
        with \<open>truthy (req_etch_factor r)\<close> ro [OF e] show ?thesis
          by (simp only: fin_def Let_def if_True)
      next
        case False
        with \<open>truthy (req_etch_factor r)\<close> e show ?thesis
          by (simp only: fin_def Let_def if_True if_False)
      qed
    next
      case False
      show ?thesis
      proof (cases "req_roughness r")
        case True
        with \<open>\<not> truthy (req_etch_factor r)\<close> ro [OF that] show ?thesis
          by (simp only: fin_def Let_def if_True if_False)
      next
        case False
        with \<open>\<not> truthy (req_etch_factor r)\<close> that show ?thesis
          by (simp only: fin_def Let_def if_False)
      qed
    qed
  qed
  have none: "find_layer n (layers a) = None \<longleftrightarrow> find_layer n (layers b) = None"
    if "cwm (collection a) = cwm (collection b)" for a b n
    using cwm_names [OF that] by (simp add: find_layer_None layers_def)
  have a: "find_layer (req_name r) (layers (st m f s)) = None
         \<longleftrightarrow> find_layer (req_name r) (layers (st m' f' s')) = None"
    by (rule none [OF st])
  have b: "find_layer (req_name r) (layers (fin (st m f s))) = None
         \<longleftrightarrow> find_layer (req_name r) (layers (fin (st m' f' s'))) = None"
    by (rule none [OF fin [OF st]])
  show ?thesis
    unfolding unfold using a b by (cases "truthy (req_etch_factor r) \<or> req_roughness r") auto
qed

lemma collection_append_log [simp]: "collection (append_log msg s) = collection s"
  "layers (append_log msg s) = layers s" "logged (append_log msg s) = logged s @ [msg]"
  "material_names (append_log msg s) = material_names s"
  by (simp_all add: append_log_def layers_def)

lemma resolve_material_state:
  "collection (snd (resolve_material m s)) = collection s"
  "layers (snd (resolve_material m s)) = layers s"
  "material_names (snd (resolve_material m s)) = material_names s"
  "logged (snd (resolve_material m s))
     = logged s @ (if materials_lower (material_names s) (str_lower m) = None
                   then [m @ '' does not exist in material library''] else [])"
  "fst (resolve_material m s)
     = (case materials_lower (material_names s) (str_lower m) of None \<Rightarrow> m | Some m' \<Rightarrow> m')"
  by (simp_all add: resolve_material_def layers_def split: option.splits)

lemma logged_set_layout_stackup [simp]:
  "logged (snd (set_layout_stackup env c operation b s)) = logged s"
  by (simp add: set_layout_stackup_def commit_def Let_def)

lemma logged_update_layer [simp]: "logged (update_layer n f s) = logged s"
  by (simp add: update_layer_def)

lemma logged_add_stackup_layer [simp]:
  "logged (snd (add_stackup_layer env r m f s)) = logged s"
  by (simp add: add_stackup_layer_def Let_def)

text \<open>\<open>add_layer\<close> with the pairs of \<open>resolve_material\<close> taken apart.\<close>

lemma add_layer_unfold:
  "add_layer env r s =
     (if req_name r \<in> set (map layer_name (layers s))
      then (None, append_log (''layer '' @ req_name r @ '' exists.'') s)
      else
        (let s1 = snd (resolve_material (chosen_material r) s);
             s2 = (if req_type r \<noteq> ''dielectric''
                   then snd (resolve_material (chosen_fill r) s1) else s1)
         in if req_type r = ''signal'' \<or> req_type r = ''dielectric''
            then add_stackup_layer env r (fst (resolve_material (chosen_material r) s))
                   (if req_type r \<noteq> ''dielectric''
                    then fst (resolve_material (chosen_fill r) s1) else chosen_fill r) s2
            else (find_layer (req_name r)
                    (layers (snd (set_layout_stackup env
                       (create_nonstackup_layer (req_name r) (req_type r)) non_stackup None s2))),
                  snd (set_layout_stackup env
                       (create_nonstackup_layer (req_name r) (req_type r)) non_stackup None s2))))"
  by (simp add: add_layer_def Let_def split_beta chosen_material_def chosen_fill_def)

lemma collection_after_materials:
  "collection (if c then snd (resolve_material f (snd (resolve_material m s)))
               else snd (resolve_material m s)) = collection s"
  by (simp add: resolve_material_state)

lemma non_stackup_keeps_collection:
  "collection (snd (set_layout_stackup env c non_stackup b s)) = collection s"
  by (simp add: set_layout_stackup_def commit_def Let_def)

lemma add_layer_None_blind:
  assumes "material_blind env"
  shows "fst (add_layer env r (s\<lparr>material_names := ms\<rparr>)) = None
       \<longleftrightarrow> fst (add_layer env r (s\<lparr>material_names := ms'\<rparr>)) = None"
proof -
  let ?s = "\<lambda>ms. s\<lparr>material_names := ms\<rparr>"
  let ?s2 = "\<lambda>ms. if req_type r \<noteq> ''dielectric''
                   then snd (resolve_material (chosen_fill r)
                               (snd (resolve_material (chosen_material r) (?s ms))))
                   else snd (resolve_material (chosen_material r) (?s ms))"
  have l: "layers (?s ms) = layers s" for ms by (simp add: layers_def)
  have c: "collection (?s2 ms) = collection s" for ms
    using collection_after_materials [of "req_type r \<noteq> ''dielectric''" "chosen_fill r"
        "chosen_material r" "?s ms"] by simp
  show ?thesis
  proof (cases "req_name r \<in> set (map layer_name (layers s))")
    case True
    then show ?thesis by (simp add: add_layer_unfold l)
  next
    case False
    show ?thesis
    proof (cases "req_type r = ''signal'' \<or> req_type r = ''dielectric''")
      case True
      have "fst (add_stackup_layer env r m f (?s2 ms)) = None
          \<longleftrightarrow> fst (add_stackup_layer env r m' f' (?s2 ms')) = None" for m f m' f'
        using assms by (rule add_stackup_layer_None) (simp add: c)
      with False True show ?thesis
        by (simp only: add_layer_unfold l Let_def if_False if_True)
    next
      case stack: False
      have "find_layer (req_name r)
              (layers (snd (set_layout_stackup env
                 (create_nonstackup_layer (req_name r) (req_type r)) non_stackup None (?s2 ms))))
            = None" for ms
        using False by (simp add: find_layer_None layers_def non_stackup_keeps_collection c)
      with False stack show ?thesis
        by (simp only: add_layer_unfold l Let_def if_False fst_conv)
    qed
  qed
qed

lemma logged_add_layer:
  "logged (snd (add_layer env r s)) =
     logged s @
     (if req_name r \<in> set (map layer_name (layers s))
      then [''layer '' @ req_name r @ '' exists.'']
      else (if materials_lower (material_names s) (str_lower (chosen_material r)) = None
            then [chosen_material r @ '' does not exist in material library''] else [])
         @ (if req_type r \<noteq> ''dielectric''
               \<and> materials_lower (material_names s) (str_lower (chosen_fill r)) = None
            then [chosen_fill r @ '' does not exist in material library''] else []))"
  by (simp add: add_layer_unfold Let_def resolve_material_state)

lemma we_simps [simp]:
  "material (without_elevation l) = material l" "thickness (without_elevation l) = thickness l"
  "kind (without_elevation l) = kind l"
  by (simp_all add: without_elevation_def)

lemma AddLayerTop_without_elevation:
  "map without_elevation (layers_of (AddLayerTop l lc))
     = without_elevation l # map without_elevation (layers_of lc)"
  by (simp add: AddLayerTop_def settle_without_elevation)

text \<open>
  After a layer of a new name is put on top or at the bottom, the layers of that name
  are the new layer, at some elevation.
\<close>

lemma added_layer_found:
  assumes new: "layer_name nl \<notin> set (map layer_name (layers_of lc))"
    and ls: "map without_elevation ls = without_elevation nl # map without_elevation (layers_of lc)
           \<or> map without_elevation ls = map without_elevation (layers_of lc) @ [without_elevation nl]"
  shows "length ls = Suc (length (layers_of lc))"
    and "layer_name nl \<in> set (map layer_name ls)"
    and "\<forall>l \<in> set ls. layer_name l = layer_name nl \<longrightarrow> without_elevation l = without_elevation nl"
proof -
  have "length (map without_elevation ls) = Suc (length (map without_elevation (layers_of lc)))"
    using ls by (elim disjE) (simp_all only: length_Cons length_append list.size add_0_right
        One_nat_def add_Suc_right)
  then show "length ls = Suc (length (layers_of lc))" by (simp only: length_map)
  have s: "without_elevation ` set ls = insert (without_elevation nl) (without_elevation ` set (layers_of lc))"
  proof -
    have "set (map without_elevation ls)
        = insert (without_elevation nl) (set (map without_elevation (layers_of lc)))"
      using ls by (elim disjE) (simp_all only: set_simps set_append Un_insert_right
          sup_bot.right_neutral)
    then show ?thesis by (simp only: set_map)
  qed
  have "without_elevation nl \<in> without_elevation ` set ls" using s by simp
  then obtain l where "l \<in> set ls" "without_elevation l = without_elevation nl" by auto
  then have "l \<in> set ls" "layer_name l = layer_name nl"
    by (metis layer_name_without_elevation)+
  then show "layer_name nl \<in> set (map layer_name ls)" by (metis image_eqI set_map)
  show "\<forall>l \<in> set ls. layer_name l = layer_name nl \<longrightarrow> without_elevation l = without_elevation nl"
  proof (intro ballI impI)
    fix l assume l: "l \<in> set ls" "layer_name l = layer_name nl"
    then have "without_elevation l \<in> insert (without_elevation nl) (without_elevation ` set (layers_of lc))"
      using s by blast
    moreover have "without_elevation l \<notin> without_elevation ` set (layers_of lc)"
    proof
      assume "without_elevation l \<in> without_elevation ` set (layers_of lc)"
      then obtain x where "x \<in> set (layers_of lc)" "without_elevation l = without_elevation x" by auto
      then have "layer_name x = layer_name nl" using l(2) by (metis layer_name_without_elevation)
      with \<open>x \<in> set (layers_of lc)\<close> new show False by (metis image_eqI set_map)
    qed
    ultimately show "without_elevation l = without_elevation nl" by blast
  qed
qed

lemma find_layer_Some: "find_layer n ls = Some l \<Longrightarrow> l \<in> set ls \<and> layer_name l = n"
  unfolding find_layer_def by (induction ls) (auto split: if_splits)

lemma find_layer_map:
  assumes "\<And>l. layer_name (g l) = layer_name l"
  shows "find_layer n (map g ls) = map_option g (find_layer n ls)"
  unfolding find_layer_def by (induction ls) (simp_all add: assms)

lemma layers_update_layer:
  "layers (update_layer n f s) = map (\<lambda>l. if layer_name l = n then f l else l) (layers s)"
  by (simp add: update_layer_def layers_def)

lemma add_stackup_layer_creates:
  assumes meth: "req_method r = add_on_top \<or> req_method r = add_on_bottom"
    and ok: "\<forall>lc. SetLayerCollection env lc"
    and new: "req_name r \<notin> set (map layer_name (layers s))"
  shows "\<exists>l. fst (add_stackup_layer env r m f s) = Some l \<and> layer_name l = req_name r
             \<and> material l = m \<and> thickness l = req_thickness r
             \<and> kind l = (if req_type r = ''signal'' then SignalLayer else DielectricLayer)"
proof -
  define nl where "nl =
     (let new_layer = (create_stackup_layer (req_name r) (req_thickness r) (req_type r))
                        \<lparr>material := m\<rparr>;
          new_layer = (if req_type r \<noteq> ''dielectric''
                       then new_layer\<lparr>fill_material := f\<rparr> else new_layer)
      in new_layer\<lparr>negative := req_negative r\<rparr>)"
  define s1 where "s1 = snd (set_layout_stackup env nl (req_method r) (req_base r) s)"
  define g1 where "g1 = (\<lambda>l :: layer. if truthy (req_etch_factor r) \<and> layer_name l = req_name r
                              then l\<lparr>etch_factor := req_etch_factor r\<rparr> else l)"
  define g2 where "g2 = (\<lambda>l :: layer. if req_roughness r \<and> layer_name l = req_name r
                              then l\<lparr>roughness_enabled := True\<rparr> else l)"
  have nl: "layer_name nl = req_name r" "material nl = m" "thickness nl = req_thickness r"
    "kind nl = (if req_type r = ''signal'' then SignalLayer else DielectricLayer)"
    by (simp_all add: nl_def Let_def create_stackup_layer_def new_layer_of_def)
  have s1: "layers s1 = layers_of (AddLayerTop nl (collection s))
          \<or> layers s1 = layers_of (AddLayerBottom nl (collection s))"
    using meth ok by (auto simp: s1_def set_layout_stackup_def commit_def Let_def layers_def)
  then have we: "map without_elevation (layers s1)
             = without_elevation nl # map without_elevation (layers_of (collection s))
           \<or> map without_elevation (layers s1)
             = map without_elevation (layers_of (collection s)) @ [without_elevation nl]"
    by (auto simp: AddLayerTop_without_elevation AddLayerBottom_without_elevation)
  have new': "layer_name nl \<notin> set (map layer_name (layers_of (collection s)))"
    using new nl(1) by (simp add: layers_def)
  note found = added_layer_found [OF new' we]
  have len: "length (layers s1) \<noteq> length (layers s)"
    using found(1) by (simp add: layers_def)
  from found(2) obtain l0 where l0: "find_layer (req_name r) (layers s1) = Some l0"
    using find_layer_None [of "req_name r" "layers s1"] nl(1) by auto
  then have "l0 \<in> set (layers s1)" "layer_name l0 = layer_name nl"
    using find_layer_Some [OF l0] nl(1) by simp_all
  with found(3) have "without_elevation l0 = without_elevation nl" by blast
  then have l0': "material l0 = m" "thickness l0 = req_thickness r"
    "kind l0 = (if req_type r = ''signal'' then SignalLayer else DielectricLayer)"
    "layer_name l0 = req_name r"
    using nl by (metis we_simps layer_name_without_elevation)+
  have g: "layer_name (g1 l) = layer_name l" "layer_name (g2 l) = layer_name l"
    "material (g1 l) = material l" "material (g2 l) = material l"
    "thickness (g1 l) = thickness l" "thickness (g2 l) = thickness l"
    "kind (g1 l) = kind l" "kind (g2 l) = kind l" for l
    by (simp_all add: g1_def g2_def)
  define s3 where "s3 = (if truthy (req_etch_factor r)
                      then update_layer (req_name r) (\<lambda>l. l\<lparr>etch_factor := req_etch_factor r\<rparr>) s1
                      else s1)"
  define s4 where "s4 = (if req_roughness r
                      then update_layer (req_name r) (\<lambda>l. l\<lparr>roughness_enabled := True\<rparr>) s3
                      else s3)"
  have u1: "layers s3 = map g1 (layers s1)"
    by (auto simp: s3_def layers_update_layer g1_def map_idI)
  have u2: "layers s4 = map g2 (layers s3)"
    by (auto simp: s4_def layers_update_layer g2_def map_idI)
  have a: "\<not> (req_method r = add_at_elevation \<and> truthy (req_elevation r))" using meth by auto
  have b: "\<not> ((truthy (req_etch_factor r) \<or> req_roughness r)
              \<and> find_layer (req_name r) (layers s1) = None)" using l0 by simp
  have "add_stackup_layer env r m f s = (find_layer (req_name r) (layers s4), s4)"
    unfolding add_stackup_layer_def Let_def
    unfolding nl_def [symmetric, unfolded Let_def] if_not_P [OF a] s1_def [symmetric]
      if_not_P [OF len] if_not_P [OF b] s3_def [symmetric] s4_def [symmetric] ..
  then have fin: "fst (add_stackup_layer env r m f s)
                 = find_layer (req_name r) (map g2 (map g1 (layers s1)))"
    by (simp only: fst_conv u1 u2)
  have "find_layer (req_name r) (map g2 (map g1 (layers s1))) = Some (g2 (g1 l0))"
    by (simp add: find_layer_map g l0)
  with fin l0' show ?thesis by (simp add: g)
qed



section \<open>\<open>flip_design\<close>\<close>

lemma set_insert_at_elevation: "set (insert_at_elevation l xs) = insert l (set xs)"
  by (induction xs) auto

lemma AddStackupLayerAtElevation_simps [simp]:
  "mode (AddStackupLayerAtElevation l lc) = mode lc"
  "set (layers_of (AddStackupLayerAtElevation l lc)) = insert l (set (layers_of lc))"
  by (simp_all add: AddStackupLayerAtElevation_def set_insert_at_elevation)

lemma flip_stackup_layers_set:
  "mode (flip_stackup_layers M ls c) = mode c
   \<and> set (layers_of (flip_stackup_layers M ls c))
       = set (layers_of c)
         \<union> flipped M ` {l \<in> set ls. is_stackup_layer l \<and> \<not> radbox l \<and> \<not> is_via_layer l}"
  unfolding flip_stackup_layers_def
  by (induction ls arbitrary: c) auto

text \<open>What a via layer becomes, given the layer found under its upper reference.\<close>

lemma flip_via_layers_result:
  "flip_via_layers lc vs c = Some c' \<Longrightarrow>
     mode c' = mode c
     \<and> set (layers_of c) \<subseteq> set (layers_of c')
     \<and> (\<forall>v \<in> set vs. \<exists>r \<in> set (layers_of c'). layer_name r = upper_ref v
            \<and> v\<lparr>upper_ref := lower_ref v, lower_ref := upper_ref v,
                 lower_elevation := lower_elevation r + thickness r\<rparr> \<in> set (layers_of c'))
     \<and> (\<forall>x \<in> set (layers_of c'). x \<in> set (layers_of c)
            \<or> (\<exists>v \<in> set vs. \<exists>r \<in> set (layers_of c'). layer_name r = upper_ref v
                  \<and> x = v\<lparr>upper_ref := lower_ref v, lower_ref := upper_ref v,
                           lower_elevation := lower_elevation r + thickness r\<rparr>))"
proof (induction vs arbitrary: c)
  case Nil
  then show ?case by simp
next
  case (Cons v vs)
  from Cons.prems obtain u u' r where
    u: "find_layer (upper_ref v) (layers_of lc) = Some u"
    and u': "find_layer (lower_ref v) (layers_of lc) = Some u'"
    and r: "find_layer (upper_ref v) (layers_of c) = Some r"
    and rest: "flip_via_layers lc vs
                 (AddStackupLayerAtElevation
                    (v\<lparr>upper_ref := layer_name u', lower_ref := layer_name u,
                       lower_elevation := lower_elevation r + thickness r\<rparr>) c) = Some c'"
    by (auto split: option.splits)
  let ?v' = "v\<lparr>upper_ref := lower_ref v, lower_ref := upper_ref v,
                lower_elevation := lower_elevation r + thickness r\<rparr>"
  have names: "layer_name u = upper_ref v" "layer_name u' = lower_ref v"
    using find_layer_Some [OF u] find_layer_Some [OF u'] by simp_all
  have rin: "r \<in> set (layers_of c)" "layer_name r = upper_ref v"
    using find_layer_Some [OF r] by simp_all
  from rest have rest': "flip_via_layers lc vs (AddStackupLayerAtElevation ?v' c) = Some c'"
    by (simp add: names)
  note IH = Cons.IH [OF rest']
  have sub: "insert ?v' (set (layers_of c)) \<subseteq> set (layers_of c')"
    using IH by simp
  show ?case
  proof (intro conjI ballI)
    show "mode c' = mode c" using IH by simp
    show "set (layers_of c) \<subseteq> set (layers_of c')" using sub by blast
  next
    fix w assume "w \<in> set (v # vs)"
    show "\<exists>r \<in> set (layers_of c'). layer_name r = upper_ref w
            \<and> w\<lparr>upper_ref := lower_ref w, lower_ref := upper_ref w,
                 lower_elevation := lower_elevation r + thickness r\<rparr> \<in> set (layers_of c')"
    proof (cases "w = v")
      case True
      then show ?thesis using sub rin by blast
    next
      case False
      with \<open>w \<in> set (v # vs)\<close> have "w \<in> set vs" by simp
      then show ?thesis using IH by blast
    qed
  next
    fix x assume "x \<in> set (layers_of c')"
    with IH have "x \<in> insert ?v' (set (layers_of c))
            \<or> (\<exists>v \<in> set vs. \<exists>r \<in> set (layers_of c'). layer_name r = upper_ref v
                  \<and> x = v\<lparr>upper_ref := lower_ref v, lower_ref := upper_ref v,
                           lower_elevation := lower_elevation r + thickness r\<rparr>)"
      by simp
    then show "x \<in> set (layers_of c)
            \<or> (\<exists>v \<in> set (v # vs). \<exists>r \<in> set (layers_of c'). layer_name r = upper_ref v
                  \<and> x = v\<lparr>upper_ref := lower_ref v, lower_ref := upper_ref v,
                           lower_elevation := lower_elevation r + thickness r\<rparr>)"
      using sub rin by (elim disjE insertE) (auto intro: bexI [where x = r])
  qed
qed

lemma Max_insert_three:
  fixes m :: real
  assumes "finite S"
  shows "Max (insert (max (max m a) b) S) = Max (insert m (insert a (insert b S)))"
proof (cases "S = {}")
  case True
  then show ?thesis by (simp add: max.assoc)
next
  case False
  then show ?thesis using assms by (simp add: max.assoc)
qed

lemma fold_max_pairs:
  fixes a b :: "'a \<Rightarrow> real"
  shows "fold (\<lambda>l m. if P l then max (max m (a l)) (b l) else m) ls m0
           = Max (insert m0 (\<Union>l \<in> {l \<in> set ls. P l}. {a l, b l}))"
proof (induction ls arbitrary: m0)
  case Nil
  then show ?case by simp
next
  case (Cons x xs)
  have fin: "finite (\<Union>l \<in> {l \<in> set xs. P l}. {a l, b l})" by simp
  show ?case
  proof (cases "P x")
    case True
    have "{l \<in> set (x # xs). P l} = insert x {l \<in> set xs. P l}" using True by auto
    then have s: "insert m0 (\<Union>l \<in> {l \<in> set (x # xs). P l}. {a l, b l})
          = insert m0 (insert (a x) (insert (b x) (\<Union>l \<in> {l \<in> set xs. P l}. {a l, b l})))"
      by auto
    have "fold (\<lambda>l m. if P l then max (max m (a l)) (b l) else m) (x # xs) m0
        = Max (insert (max (max m0 (a x)) (b x)) (\<Union>l \<in> {l \<in> set xs. P l}. {a l, b l}))"
      using True Cons.IH by simp
    also have "\<dots> = Max (insert m0 (insert (a x) (insert (b x)
                         (\<Union>l \<in> {l \<in> set xs. P l}. {a l, b l}))))"
      using fin by (rule Max_insert_three)
    finally show ?thesis unfolding s .
  next
    case False
    then have "{l \<in> set (x # xs). P l} = {l \<in> set xs. P l}" by auto
    then show ?thesis using False Cons.IH by simp
  qed
qed

lemma max_elevation_Max:
  "max_elevation lc =
     Max (insert 0 (\<Union>l \<in> {l \<in> set (StackupLayerSet lc). \<not> radbox l}.
                     {lower_elevation l * 1000000, upper_elevation l * 1000000}))"
  unfolding max_elevation_def by (rule fold_max_pairs)

lemma flipped_simps [simp]:
  "layer_name (flipped M l) = layer_name l"
  "kind (flipped M l) = kind l"
  "thickness (flipped M l) = thickness l"
  "is_via_layer (flipped M l) = is_via_layer l"
  "lower_elevation (flipped M l) = (M - upper_elevation l * 1000000) / 1000000"
  "association (flipped M l)
     = (if association l = TopAssociated then BottomAssociated else TopAssociated)"
  by (simp_all add: flipped_def um_def)

lemma flipped_preserves [simp]:
  "is_stackup_layer (flipped M l) = is_stackup_layer l"
  "radbox (flipped M l) = radbox l"
  by (simp_all add: is_stackup_layer_def radbox_def)

lemma flip_layers_Some:
  assumes "flip_layers lc = Some new_lc"
  shows "\<exists>c. flip_via_layers lc (filter is_via_layer (StackupLayerSet lc))
                (flip_stackup_layers (max_elevation lc) (layers_of lc)
                   (LayerCollection\<lparr>mode := mode lc\<rparr>)) = Some c
             \<and> new_lc = AddLayers (NonStackupLayerSet lc) c"
  using assms unfolding flip_layers_def Let_def by (auto split: option.splits)

lemma filter_all: "(\<forall>x \<in> set xs. P x) \<Longrightarrow> filter P xs = xs"
  by (induction xs) auto

lemma filter_none: "(\<forall>x \<in> set xs. \<not> P x) \<Longrightarrow> filter P xs = []"
  by (induction xs) auto

text \<open>The layers of the collection that \<open>flip_design\<close> builds.\<close>

lemma flip_layers_result:
  assumes "flip_layers lc = Some new_lc"
  shows "mode new_lc = mode lc"
    and "NonStackupLayerSet new_lc = NonStackupLayerSet lc"
    and "flipped (max_elevation lc) ` {l \<in> set (StackupLayerSet lc). \<not> is_via_layer l \<and> \<not> radbox l}
           \<subseteq> set (StackupLayerSet new_lc)"
    and "\<forall>v \<in> set (StackupLayerSet lc). is_via_layer v \<longrightarrow>
           (\<exists>r \<in> set (StackupLayerSet new_lc). layer_name r = upper_ref v
              \<and> v\<lparr>upper_ref := lower_ref v, lower_ref := upper_ref v,
                   lower_elevation := lower_elevation r + thickness r\<rparr>
                  \<in> set (StackupLayerSet new_lc))"
    and "\<forall>x \<in> set (StackupLayerSet new_lc).
           x \<in> flipped (max_elevation lc)
                  ` {l \<in> set (StackupLayerSet lc). \<not> is_via_layer l \<and> \<not> radbox l}
           \<or> (\<exists>v \<in> set (StackupLayerSet lc). is_via_layer v
                 \<and> (\<exists>r \<in> set (StackupLayerSet new_lc). layer_name r = upper_ref v
                       \<and> x = v\<lparr>upper_ref := lower_ref v, lower_ref := upper_ref v,
                                lower_elevation := lower_elevation r + thickness r\<rparr>))"
proof -
  define M where "M = max_elevation lc"
  define A where "A = {l \<in> set (StackupLayerSet lc). \<not> is_via_layer l \<and> \<not> radbox l}"
  define vs where "vs = filter is_via_layer (StackupLayerSet lc)"
  define c1 where
    "c1 = flip_stackup_layers M (layers_of lc) (LayerCollection\<lparr>mode := mode lc\<rparr>)"
  from flip_layers_Some [OF assms] obtain c2 where
    c2: "flip_via_layers lc vs c1 = Some c2"
    and new: "new_lc = AddLayers (NonStackupLayerSet lc) c2"
    unfolding vs_def c1_def M_def by blast
  have A: "A = {l \<in> set (layers_of lc). is_stackup_layer l \<and> \<not> radbox l \<and> \<not> is_via_layer l}"
    unfolding A_def StackupLayerSet_def by auto
  have c1m: "mode c1 = mode lc" and c1s: "set (layers_of c1) = flipped M ` A"
    using flip_stackup_layers_set [of M "layers_of lc" "LayerCollection\<lparr>mode := mode lc\<rparr>"]
    unfolding c1_def [symmetric] A by (simp_all add: LayerCollection_def)
  note R = flip_via_layers_result [OF c2]
  have c2m: "mode c2 = mode lc" using R c1m by simp
  have sub: "flipped M ` A \<subseteq> set (layers_of c2)" using R c1s by simp
  have vias: "\<forall>v \<in> set vs. \<exists>r \<in> set (layers_of c2). layer_name r = upper_ref v
            \<and> v\<lparr>upper_ref := lower_ref v, lower_ref := upper_ref v,
                 lower_elevation := lower_elevation r + thickness r\<rparr> \<in> set (layers_of c2)"
    using R by blast
  have exact: "\<forall>x \<in> set (layers_of c2). x \<in> flipped M ` A
            \<or> (\<exists>v \<in> set vs. \<exists>r \<in> set (layers_of c2). layer_name r = upper_ref v
                  \<and> x = v\<lparr>upper_ref := lower_ref v, lower_ref := upper_ref v,
                           lower_elevation := lower_elevation r + thickness r\<rparr>)"
    using R c1s by simp
  have vs: "set vs = {v \<in> set (StackupLayerSet lc). is_via_layer v}"
    unfolding vs_def by auto
  have vstack: "\<forall>v \<in> set vs. is_stackup_layer v"
    unfolding vs StackupLayerSet_def by simp
  have Astack: "\<forall>l \<in> A. is_stackup_layer l" unfolding A by simp
  have all: "\<forall>x \<in> set (layers_of c2). is_stackup_layer x"
  proof
    fix x assume "x \<in> set (layers_of c2)"
    with exact have "x \<in> flipped M ` A
            \<or> (\<exists>v \<in> set vs. \<exists>r \<in> set (layers_of c2). layer_name r = upper_ref v
                  \<and> x = v\<lparr>upper_ref := lower_ref v, lower_ref := upper_ref v,
                           lower_elevation := lower_elevation r + thickness r\<rparr>)" ..
    then show "is_stackup_layer x"
    proof
      assume "x \<in> flipped M ` A"
      then show ?thesis using Astack by auto
    next
      assume "\<exists>v \<in> set vs. \<exists>r \<in> set (layers_of c2). layer_name r = upper_ref v
                  \<and> x = v\<lparr>upper_ref := lower_ref v, lower_ref := upper_ref v,
                           lower_elevation := lower_elevation r + thickness r\<rparr>"
      then obtain v where "v \<in> set vs" "kind x = kind v" by auto
      then show ?thesis using vstack by (simp add: is_stackup_layer_def)
    qed
  qed
  have non: "\<forall>x \<in> set (NonStackupLayerSet lc). \<not> is_stackup_layer x"
    unfolding NonStackupLayerSet_def by simp
  have lay: "layers_of new_lc = layers_of c2 @ NonStackupLayerSet lc"
    unfolding new AddLayers_def by simp
  have st: "StackupLayerSet new_lc = layers_of c2"
    unfolding StackupLayerSet_def lay
    using filter_all [OF all] filter_none [of "NonStackupLayerSet lc" is_stackup_layer] non
    by simp
  have "filter (\<lambda>l. \<not> is_stackup_layer l) (layers_of c2) = []"
    by (rule filter_none) (use all in simp)
  moreover have "filter (\<lambda>l. \<not> is_stackup_layer l) (NonStackupLayerSet lc) = NonStackupLayerSet lc"
    by (rule filter_all) (use non in simp)
  ultimately show "NonStackupLayerSet new_lc = NonStackupLayerSet lc"
    unfolding NonStackupLayerSet_def [of new_lc] lay by simp
  show "mode new_lc = mode lc" unfolding new AddLayers_def using c2m by simp
  show "flipped (max_elevation lc) ` {l \<in> set (StackupLayerSet lc). \<not> is_via_layer l \<and> \<not> radbox l}
           \<subseteq> set (StackupLayerSet new_lc)"
    unfolding st M_def [symmetric] A_def [symmetric] by (rule sub)
  show "\<forall>v \<in> set (StackupLayerSet lc). is_via_layer v \<longrightarrow>
           (\<exists>r \<in> set (StackupLayerSet new_lc). layer_name r = upper_ref v
              \<and> v\<lparr>upper_ref := lower_ref v, lower_ref := upper_ref v,
                   lower_elevation := lower_elevation r + thickness r\<rparr>
                  \<in> set (StackupLayerSet new_lc))"
    unfolding st using vias unfolding vs by blast
  show "\<forall>x \<in> set (StackupLayerSet new_lc).
           x \<in> flipped (max_elevation lc)
                  ` {l \<in> set (StackupLayerSet lc). \<not> is_via_layer l \<and> \<not> radbox l}
           \<or> (\<exists>v \<in> set (StackupLayerSet lc). is_via_layer v
                 \<and> (\<exists>r \<in> set (StackupLayerSet new_lc). layer_name r = upper_ref v
                       \<and> x = v\<lparr>upper_ref := lower_ref v, lower_ref := upper_ref v,
                                lower_elevation := lower_elevation r + thickness r\<rparr>))"
    unfolding st M_def [symmetric] A_def [symmetric] using exact unfolding vs by blast
qed

lemma flip_design_collection:
  assumes "flip_layers (collection s) = Some new_lc" and "SetLayerCollection env new_lc"
  shows "collection (snd (flip_design env s)) = new_lc"
  using assms unfolding flip_design_def Let_def by simp

lemma flipped_eq:
  "flipped M l = l\<lparr>lower_elevation := (M - upper_elevation l * 1000000) / 1000000,
                   association := (if association l = TopAssociated then BottomAssociated
                                   else TopAssociated)\<rparr>"
  by (simp add: flipped_def um_def)

text \<open>
  Claim C4, as amended. When \<open>flip_design\<close> gets through the layers (every via layer's
  reference layers are found) and the layout takes the new collection, the layout's
  collection is the new one, in the mode of the old one, and: the maximum elevation is
  the greatest of 0 and the lower and upper elevations (in um) of the stackup layers
  whose name does not contain \<open>RadBox\<close>; every such stackup layer that is not a via
  layer is there with its lower elevation set to the maximum elevation minus its old
  upper elevation and its association inverted (top to bottom, anything else to top);
  the non-stackup layers are the old ones, unchanged and in the same order; every via
  layer is there with its reference layers swapped and its lower elevation set to the
  upper elevation of the layer that has the name of its former upper reference in the
  new collection.
\<close>

theorem flip_design_mirrors_layers:
  assumes "flip_layers (collection s) = Some new_lc"
    and "SetLayerCollection env new_lc"
  shows "collection (snd (flip_design env s)) = new_lc
    \<and> mode new_lc = mode (collection s)
    \<and> max_elevation (collection s)
        = Max (insert 0 (\<Union>l \<in> {l \<in> set (StackupLayerSet (collection s)). \<not> radbox l}.
                          {lower_elevation l * 1000000, upper_elevation l * 1000000}))
    \<and> (\<forall>l \<in> set (StackupLayerSet (collection s)). \<not> is_via_layer l \<and> \<not> radbox l \<longrightarrow>
          l\<lparr>lower_elevation :=
               (max_elevation (collection s) - upper_elevation l * 1000000) / 1000000,
            association := (if association l = TopAssociated then BottomAssociated
                            else TopAssociated)\<rparr>
            \<in> set (StackupLayerSet new_lc))
    \<and> NonStackupLayerSet new_lc = NonStackupLayerSet (collection s)
    \<and> (\<forall>v \<in> set (StackupLayerSet (collection s)). is_via_layer v \<longrightarrow>
          (\<exists>r \<in> set (StackupLayerSet new_lc). layer_name r = upper_ref v
             \<and> v\<lparr>upper_ref := lower_ref v, lower_ref := upper_ref v,
                  lower_elevation := upper_elevation r\<rparr>
                 \<in> set (StackupLayerSet new_lc)))"
proof (intro conjI)
  note R = flip_layers_result [OF assms(1)]
  show "collection (snd (flip_design env s)) = new_lc"
    using assms by (rule flip_design_collection)
  show "mode new_lc = mode (collection s)" by (rule R(1))
  show "max_elevation (collection s)
        = Max (insert 0 (\<Union>l \<in> {l \<in> set (StackupLayerSet (collection s)). \<not> radbox l}.
                          {lower_elevation l * 1000000, upper_elevation l * 1000000}))"
    by (rule max_elevation_Max)
  show "\<forall>l \<in> set (StackupLayerSet (collection s)). \<not> is_via_layer l \<and> \<not> radbox l \<longrightarrow>
          l\<lparr>lower_elevation :=
               (max_elevation (collection s) - upper_elevation l * 1000000) / 1000000,
            association := (if association l = TopAssociated then BottomAssociated
                            else TopAssociated)\<rparr>
            \<in> set (StackupLayerSet new_lc)"
    using R(3) unfolding flipped_eq [symmetric] by blast
  show "NonStackupLayerSet new_lc = NonStackupLayerSet (collection s)" by (rule R(2))
  show "\<forall>v \<in> set (StackupLayerSet (collection s)). is_via_layer v \<longrightarrow>
          (\<exists>r \<in> set (StackupLayerSet new_lc). layer_name r = upper_ref v
             \<and> v\<lparr>upper_ref := lower_ref v, lower_ref := upper_ref v,
                  lower_elevation := upper_elevation r\<rparr>
                 \<in> set (StackupLayerSet new_lc))"
    unfolding upper_elevation_def by (rule R(4))
qed

text \<open>
  The theorem at the board with a via layer: the maximum elevation is 200 um, \<open>TOP\<close>
  (150 um to 200 um) goes to 0, \<open>D1\<close> (50 um to 150 um) stays at 50 um, \<open>BOT\<close> (0 to
  50 um) goes to 150 um, the via layer now runs from \<open>BOT\<close> to \<open>TOP\<close>, above the new
  \<open>TOP\<close>, and the silkscreen layer is as it was.
\<close>

theorem flip_design_mirrors_layers_witness:
  "max_elevation (collection via_edb) = 200
   \<and> map (\<lambda>l. (layer_name l, lower_elevation l * 1000000, association l))
        (filter (\<lambda>l. \<not> is_via_layer l) (StackupLayerSet (collection via_edb)))
      = [(''TOP'', 150, TopAssociated), (''D1'', 50, TopAssociated), (''BOT'', 0, BottomAssociated)]
   \<and> map (\<lambda>l. (layer_name l, lower_elevation l * 1000000, association l))
        (filter (\<lambda>l. \<not> is_via_layer l)
           (StackupLayerSet (collection (snd (flip_design cpython via_edb)))))
      = [(''BOT'', 150, TopAssociated), (''D1'', 50, BottomAssociated), (''TOP'', 0, BottomAssociated)]
   \<and> map (\<lambda>l. (layer_name l, upper_ref l, lower_ref l, lower_elevation l * 1000000))
        (filter is_via_layer (StackupLayerSet (collection (snd (flip_design cpython via_edb)))))
      = [(''VIA'', ''BOT'', ''TOP'', 50)]
   \<and> NonStackupLayerSet (collection (snd (flip_design cpython via_edb)))
      = NonStackupLayerSet (collection via_edb)"
proof -
  define new_lc where "new_lc = the (flip_layers (collection via_edb))"
  have "flip_layers (collection via_edb) \<noteq> None" by code_simp
  then have h1: "flip_layers (collection via_edb) = Some new_lc"
    unfolding new_lc_def by simp
  have h2: "SetLayerCollection cpython new_lc" by (simp add: cpython_def)
  note T = flip_design_mirrors_layers [OF h1 h2]
  have c: "collection (snd (flip_design cpython via_edb)) = new_lc"
    using T by (rule conjunct1)
  have n: "NonStackupLayerSet new_lc = NonStackupLayerSet (collection via_edb)"
    using T by blast
  have a: "max_elevation (collection via_edb) = 200" by code_simp
  have b: "map (\<lambda>l. (layer_name l, lower_elevation l * 1000000, association l))
        (filter (\<lambda>l. \<not> is_via_layer l) (StackupLayerSet (collection via_edb)))
      = [(''TOP'', 150, TopAssociated), (''D1'', 50, TopAssociated), (''BOT'', 0, BottomAssociated)]"
    by code_simp
  have d: "map (\<lambda>l. (layer_name l, lower_elevation l * 1000000, association l))
        (filter (\<lambda>l. \<not> is_via_layer l)
           (StackupLayerSet (the (flip_layers (collection via_edb)))))
      = [(''BOT'', 150, TopAssociated), (''D1'', 50, BottomAssociated), (''TOP'', 0, BottomAssociated)]"
    by code_simp
  have e: "map (\<lambda>l. (layer_name l, upper_ref l, lower_ref l, lower_elevation l * 1000000))
        (filter is_via_layer (StackupLayerSet (the (flip_layers (collection via_edb)))))
      = [(''VIA'', ''BOT'', ''TOP'', 50)]"
    by code_simp
  show ?thesis
    unfolding c using a b d e n unfolding new_lc_def by (intro conjI)
qed

text \<open>
  Claim C4 as stated fails on a stackup below elevation 0. The one layer runs from
  -20 um to -10 um; the maximum over the layers' elevations is -10 um, which gives the
  new lower elevation \<open>-10 - (-10) = 0\<close>; \<open>flip_design\<close> starts its maximum at 0 and puts
  the layer at \<open>0 - (-10) = 10\<close> um.
\<close>

theorem flip_design_max_elevation_starts_at_zero:
  "map layer_name (StackupLayerSet (collection sunk_edb)) = [''L1'']
   \<and> map is_via_layer (StackupLayerSet (collection sunk_edb)) = [False]
   \<and> map lower_elevation (StackupLayerSet (collection sunk_edb)) = [- (20 / 1000000)]
   \<and> map upper_elevation (StackupLayerSet (collection sunk_edb)) = [- (10 / 1000000)]
   \<and> claimed_max_elevation (collection sunk_edb) = - (10 / 1000000)
   \<and> fst (flip_design cpython sunk_edb)
   \<and> map layer_name (StackupLayerSet (collection (snd (flip_design cpython sunk_edb))))
       = [''L1'']
   \<and> map lower_elevation (StackupLayerSet (collection (snd (flip_design cpython sunk_edb))))
       = [10 / 1000000]
   \<and> map lower_elevation (StackupLayerSet (collection (snd (flip_design cpython sunk_edb))))
       \<noteq> [claimed_max_elevation (collection sunk_edb) - - (10 / 1000000)]"
  by code_simp

lemma flipped_via_simps [simp]:
  "layer_name (flipped_via v r) = layer_name v"
  "kind (flipped_via v r) = kind v"
  "thickness (flipped_via v r) = thickness v"
  "is_via_layer (flipped_via v r) = is_via_layer v"
  "upper_ref (flipped_via v r) = lower_ref v"
  "lower_ref (flipped_via v r) = upper_ref v"
  "lower_elevation (flipped_via v r) = lower_elevation r + thickness r"
  "is_stackup_layer (flipped_via v r) = is_stackup_layer v"
  "radbox (flipped_via v r) = radbox v"
  by (simp_all add: flipped_via_def is_stackup_layer_def radbox_def)

lemma flip_via_layers_succeeds:
  "(\<forall>v \<in> set vs. upper_ref v \<in> layer_name ` set (layers_of lc)
        \<and> lower_ref v \<in> layer_name ` set (layers_of lc)
        \<and> upper_ref v \<in> layer_name ` set (layers_of c))
   \<Longrightarrow> \<exists>c'. flip_via_layers lc vs c = Some c'"
proof (induction vs arbitrary: c)
  case Nil
  then show ?case by simp
next
  case (Cons v vs)
  from Cons.prems obtain u w r where
    u: "find_layer (upper_ref v) (layers_of lc) = Some u"
    and w: "find_layer (lower_ref v) (layers_of lc) = Some w"
    and r: "find_layer (upper_ref v) (layers_of c) = Some r"
    using find_layer_None [of "upper_ref v" "layers_of lc"]
      find_layer_None [of "lower_ref v" "layers_of lc"]
      find_layer_None [of "upper_ref v" "layers_of c"]
    by auto
  let ?c = "AddStackupLayerAtElevation
              (v\<lparr>upper_ref := layer_name w, lower_ref := layer_name u,
                 lower_elevation := lower_elevation r + thickness r\<rparr>) c"
  have "\<forall>v \<in> set vs. upper_ref v \<in> layer_name ` set (layers_of lc)
        \<and> lower_ref v \<in> layer_name ` set (layers_of lc)
        \<and> upper_ref v \<in> layer_name ` set (layers_of ?c)"
    using Cons.prems by auto
  from Cons.IH [OF this] show ?case using u w r by simp
qed

lemma set_layers_split:
  "set (layers_of lc) = set (StackupLayerSet lc) \<union> set (NonStackupLayerSet lc)"
  unfolding StackupLayerSet_def NonStackupLayerSet_def by auto

text \<open>
  The stackup layers of the flipped collection, when no two layers have the same name
  and the references of the via layers are stackup layers that are flipped.
\<close>

lemma flip_layers_char:
  assumes names: "\<forall>x \<in> set (layers_of lc). \<forall>y \<in> set (layers_of lc).
                    layer_name x = layer_name y \<longrightarrow> x = y"
    and refs: "\<forall>v \<in> set (StackupLayerSet lc). is_via_layer v \<longrightarrow>
                 (\<exists>u \<in> set (StackupLayerSet lc).
                     \<not> is_via_layer u \<and> \<not> radbox u \<and> layer_name u = upper_ref v)
                 \<and> (\<exists>w \<in> set (StackupLayerSet lc).
                     \<not> is_via_layer w \<and> \<not> radbox w \<and> layer_name w = lower_ref v)"
  shows "\<exists>new_lc. flip_layers lc = Some new_lc
           \<and> mode new_lc = mode lc
           \<and> NonStackupLayerSet new_lc = NonStackupLayerSet lc
           \<and> set (StackupLayerSet new_lc)
               = flipped (max_elevation lc)
                   ` {l \<in> set (StackupLayerSet lc). \<not> is_via_layer l \<and> \<not> radbox l}
                 \<union> {flipped_via v (flipped (max_elevation lc) u) | v u.
                      v \<in> set (StackupLayerSet lc) \<and> is_via_layer v
                      \<and> u \<in> set (StackupLayerSet lc) \<and> \<not> is_via_layer u \<and> \<not> radbox u
                      \<and> layer_name u = upper_ref v}"
proof -
  define M where "M = max_elevation lc"
  define A where "A = {l \<in> set (StackupLayerSet lc). \<not> is_via_layer l \<and> \<not> radbox l}"
  define V where "V = {v \<in> set (StackupLayerSet lc). is_via_layer v}"
  define vs where "vs = filter is_via_layer (StackupLayerSet lc)"
  define c1 where
    "c1 = flip_stackup_layers M (layers_of lc) (LayerCollection\<lparr>mode := mode lc\<rparr>)"
  have st: "set (StackupLayerSet lc) \<subseteq> set (layers_of lc)"
    unfolding StackupLayerSet_def by auto
  have AL: "A \<subseteq> set (layers_of lc)" and VL: "V \<subseteq> set (layers_of lc)"
    using st unfolding A_def V_def by auto
  have vs: "set vs = V" unfolding vs_def V_def by auto
  have A': "A = {l \<in> set (layers_of lc). is_stackup_layer l \<and> \<not> radbox l \<and> \<not> is_via_layer l}"
    unfolding A_def StackupLayerSet_def by auto
  have c1s: "set (layers_of c1) = flipped M ` A"
    using flip_stackup_layers_set [of M "layers_of lc" "LayerCollection\<lparr>mode := mode lc\<rparr>"]
    unfolding c1_def [symmetric] A' by (simp add: LayerCollection_def)
  have upper: "\<exists>u \<in> A. layer_name u = upper_ref v" if "v \<in> V" for v
    using refs that unfolding V_def A_def by blast
  have lower: "\<exists>w \<in> A. layer_name w = lower_ref v" if "v \<in> V" for v
    using refs that unfolding V_def A_def by blast
  have "\<forall>v \<in> set vs. upper_ref v \<in> layer_name ` set (layers_of lc)
        \<and> lower_ref v \<in> layer_name ` set (layers_of lc)
        \<and> upper_ref v \<in> layer_name ` set (layers_of c1)"
  proof
    fix v assume "v \<in> set vs"
    then have v: "v \<in> V" using vs by simp
    from upper [OF v] obtain u where u: "u \<in> A" "layer_name u = upper_ref v" by blast
    from lower [OF v] obtain w where w: "w \<in> A" "layer_name w = lower_ref v" by blast
    have "layer_name (flipped M u) = upper_ref v" using u by simp
    moreover have "flipped M u \<in> set (layers_of c1)" using u c1s by blast
    ultimately have "upper_ref v \<in> layer_name ` set (layers_of c1)" by (metis image_eqI)
    moreover have "upper_ref v \<in> layer_name ` set (layers_of lc)"
      using u AL by (metis image_eqI subsetD)
    moreover have "lower_ref v \<in> layer_name ` set (layers_of lc)"
      using w AL by (metis image_eqI subsetD)
    ultimately show "upper_ref v \<in> layer_name ` set (layers_of lc)
        \<and> lower_ref v \<in> layer_name ` set (layers_of lc)
        \<and> upper_ref v \<in> layer_name ` set (layers_of c1)" by simp
  qed
  from flip_via_layers_succeeds [OF this] obtain c2 where
    c2: "flip_via_layers lc vs c1 = Some c2" by blast
  define new_lc where "new_lc = AddLayers (NonStackupLayerSet lc) c2"
  have new: "flip_layers lc = Some new_lc"
    unfolding flip_layers_def Let_def new_lc_def
    using c2 unfolding vs_def c1_def M_def by simp
  note R = flip_layers_result [OF new]
  define S where "S = set (StackupLayerSet new_lc)"
  have R3: "flipped M ` A \<subseteq> S"
    using R(3) unfolding S_def M_def A_def .
  have R4: "\<exists>r \<in> S. layer_name r = upper_ref v \<and> flipped_via v r \<in> S" if "v \<in> V" for v
    using R(4) that unfolding S_def V_def flipped_via_def by blast
  have R5: "x \<in> flipped M ` A
              \<or> (\<exists>v \<in> V. \<exists>r \<in> S. layer_name r = upper_ref v \<and> x = flipped_via v r)"
    if "x \<in> S" for x
    using R(5) that unfolding S_def V_def flipped_via_def M_def A_def by blast
  have key: "r = flipped M u" if r: "r \<in> S" and u: "u \<in> A" and n: "layer_name r = layer_name u"
    for r u
  proof -
    from R5 [OF r] show ?thesis
    proof
      assume "r \<in> flipped M ` A"
      then obtain a where a: "a \<in> A" "r = flipped M a" by blast
      then have "layer_name a = layer_name u" using n by simp
      then have "a = u" using names a(1) u AL by blast
      then show ?thesis using a by simp
    next
      assume "\<exists>v \<in> V. \<exists>r' \<in> S. layer_name r' = upper_ref v \<and> r = flipped_via v r'"
      then obtain v r' where v: "v \<in> V" "r = flipped_via v r'" by blast
      then have "layer_name v = layer_name u" using n by simp
      then have "v = u" using names v(1) u AL VL by blast
      then have False using v(1) u unfolding V_def A_def by simp
      then show ?thesis ..
    qed
  qed
  have "S = flipped M ` A
             \<union> {flipped_via v (flipped M u) | v u. v \<in> V \<and> u \<in> A \<and> layer_name u = upper_ref v}"
  proof (intro equalityI subsetI)
    fix x assume "x \<in> S"
    from R5 [OF this] show "x \<in> flipped M ` A
             \<union> {flipped_via v (flipped M u) | v u. v \<in> V \<and> u \<in> A \<and> layer_name u = upper_ref v}"
    proof
      assume "x \<in> flipped M ` A"
      then show ?thesis by simp
    next
      assume "\<exists>v \<in> V. \<exists>r \<in> S. layer_name r = upper_ref v \<and> x = flipped_via v r"
      then obtain v r where v: "v \<in> V" "r \<in> S" "layer_name r = upper_ref v"
        "x = flipped_via v r" by blast
      from upper [OF v(1)] obtain u where u: "u \<in> A" "layer_name u = upper_ref v" by blast
      have "r = flipped M u" using v(2) u(1) by (rule key) (simp add: v(3) u(2))
      then show ?thesis using v u by blast
    qed
  next
    fix x assume "x \<in> flipped M ` A
             \<union> {flipped_via v (flipped M u) | v u. v \<in> V \<and> u \<in> A \<and> layer_name u = upper_ref v}"
    then show "x \<in> S"
    proof
      assume "x \<in> flipped M ` A"
      then show ?thesis using R3 by blast
    next
      assume "x \<in> {flipped_via v (flipped M u) | v u. v \<in> V \<and> u \<in> A \<and> layer_name u = upper_ref v}"
      then obtain v u where v: "v \<in> V" "u \<in> A" "layer_name u = upper_ref v"
        "x = flipped_via v (flipped M u)" by blast
      from R4 [OF v(1)] obtain r where r: "r \<in> S" "layer_name r = upper_ref v"
        "flipped_via v r \<in> S" by blast
      have "r = flipped M u" using r(1) v(2) by (rule key) (simp add: r(2) v(3))
      then show ?thesis using r(3) v(4) by simp
    qed
  qed
  then have "set (StackupLayerSet new_lc)
               = flipped (max_elevation lc)
                   ` {l \<in> set (StackupLayerSet lc). \<not> is_via_layer l \<and> \<not> radbox l}
                 \<union> {flipped_via v (flipped (max_elevation lc) u) | v u.
                      v \<in> set (StackupLayerSet lc) \<and> is_via_layer v
                      \<and> u \<in> set (StackupLayerSet lc) \<and> \<not> is_via_layer u \<and> \<not> radbox u
                      \<and> layer_name u = upper_ref v}"
    unfolding S_def M_def A_def V_def by auto
  with new R(1) R(2) show ?thesis by blast
qed

lemma upper_elevation_flipped:
  "upper_elevation (flipped M l) * 1000000 = M - lower_elevation l * 1000000"
  by (simp add: upper_elevation_def field_simps)

lemma lower_elevation_flipped:
  "lower_elevation (flipped M l) * 1000000 = M - upper_elevation l * 1000000"
  by simp

lemma flipped_twice:
  assumes "association l = TopAssociated \<or> association l = BottomAssociated"
  shows "flipped M (flipped M l) = l"
proof -
  have "(M - upper_elevation (flipped M l) * 1000000) / 1000000 = lower_elevation l"
    unfolding upper_elevation_flipped by simp
  then show ?thesis
    using assms unfolding flipped_eq [of M "flipped M l"]
    by (auto simp add: flipped_eq)
qed

lemma flipped_via_twice:
  assumes "lower_elevation v = lower_elevation w + thickness w"
  shows "flipped_via (flipped_via v r) w = v"
  using assms by (simp add: flipped_via_def)

text \<open>The names of the flipped collection are as unique as those of the collection.\<close>

lemma names_flipped:
  assumes names: "\<forall>x \<in> set (layers_of lc). \<forall>y \<in> set (layers_of lc).
                    layer_name x = layer_name y \<longrightarrow> x = y"
    and non: "NonStackupLayerSet new_lc = NonStackupLayerSet lc"
    and st: "set (StackupLayerSet new_lc)
               = flipped M ` {l \<in> set (StackupLayerSet lc). \<not> is_via_layer l \<and> \<not> radbox l}
                 \<union> {flipped_via v (flipped M u) | v u.
                      v \<in> set (StackupLayerSet lc) \<and> is_via_layer v
                      \<and> u \<in> set (StackupLayerSet lc) \<and> \<not> is_via_layer u \<and> \<not> radbox u
                      \<and> layer_name u = upper_ref v}"
  shows "\<forall>x \<in> set (layers_of new_lc). \<forall>y \<in> set (layers_of new_lc).
           layer_name x = layer_name y \<longrightarrow> x = y"
proof (intro ballI impI)
  define A where "A = {l \<in> set (StackupLayerSet lc). \<not> is_via_layer l \<and> \<not> radbox l}"
  define V where "V = {v \<in> set (StackupLayerSet lc). is_via_layer v}"
  define N where "N = set (NonStackupLayerSet lc)"
  have AL: "A \<subseteq> set (layers_of lc)" and VL: "V \<subseteq> set (layers_of lc)"
    and NL: "N \<subseteq> set (layers_of lc)"
    unfolding A_def V_def N_def StackupLayerSet_def NonStackupLayerSet_def by auto
  have AS: "\<forall>a \<in> A. is_stackup_layer a \<and> \<not> is_via_layer a"
    and VS: "\<forall>v \<in> V. is_stackup_layer v \<and> is_via_layer v"
    and NS: "\<forall>n \<in> N. \<not> is_stackup_layer n"
    unfolding A_def V_def N_def StackupLayerSet_def NonStackupLayerSet_def by auto
  have all: "set (layers_of new_lc)
      = flipped M ` A
        \<union> {flipped_via v (flipped M u) | v u. v \<in> V \<and> u \<in> A \<and> layer_name u = upper_ref v}
        \<union> N"
    unfolding set_layers_split [of new_lc] st non A_def V_def N_def by auto
  have origin: "\<exists>l0 \<in> set (layers_of lc). layer_name l0 = layer_name x
      \<and> ((l0 \<in> A \<and> x = flipped M l0)
         \<or> (l0 \<in> V \<and> (\<exists>u \<in> A. layer_name u = upper_ref l0 \<and> x = flipped_via l0 (flipped M u)))
         \<or> (l0 \<in> N \<and> x = l0))"
    if "x \<in> set (layers_of new_lc)" for x
  proof -
    from that all consider
      (a) a where "a \<in> A" "x = flipped M a"
      | (v) v u where "v \<in> V" "u \<in> A" "layer_name u = upper_ref v" "x = flipped_via v (flipped M u)"
      | (n) "x \<in> N"
      by blast
    then show ?thesis
    proof cases
      case a
      then show ?thesis using AL by (intro bexI [of _ a]) auto
    next
      case v
      then show ?thesis using VL by (intro bexI [of _ v]) auto
    next
      case n
      then show ?thesis using NL by (intro bexI [of _ x]) auto
    qed
  qed
  fix x y
  assume x: "x \<in> set (layers_of new_lc)" and y: "y \<in> set (layers_of new_lc)"
    and n: "layer_name x = layer_name y"
  from origin [OF x] obtain ox where ox: "ox \<in> set (layers_of lc)" "layer_name ox = layer_name x"
    "(ox \<in> A \<and> x = flipped M ox)
       \<or> (ox \<in> V \<and> (\<exists>u \<in> A. layer_name u = upper_ref ox \<and> x = flipped_via ox (flipped M u)))
       \<or> (ox \<in> N \<and> x = ox)" by blast
  from origin [OF y] obtain oy where oy: "oy \<in> set (layers_of lc)" "layer_name oy = layer_name y"
    "(oy \<in> A \<and> y = flipped M oy)
       \<or> (oy \<in> V \<and> (\<exists>u \<in> A. layer_name u = upper_ref oy \<and> y = flipped_via oy (flipped M u)))
       \<or> (oy \<in> N \<and> y = oy)" by blast
  have eq: "ox = oy" using names ox(1,2) oy(1,2) n by simp
  from ox(3) show "x = y"
  proof (elim disjE conjE bexE)
    assume a: "ox \<in> A" "x = flipped M ox"
    then have "oy \<notin> V" "oy \<notin> N" using eq AS VS NS by auto
    with oy(3) have "y = flipped M oy" by blast
    then show ?thesis using a eq by simp
  next
    fix u assume v: "ox \<in> V" "u \<in> A" "layer_name u = upper_ref ox"
      "x = flipped_via ox (flipped M u)"
    then have "oy \<notin> A" "oy \<notin> N" using eq AS VS NS by auto
    with oy(3) obtain u' where u': "u' \<in> A" "layer_name u' = upper_ref oy"
      "y = flipped_via oy (flipped M u')" by blast
    have "u = u'" using names v(2,3) u'(1,2) eq AL by (metis subsetD)
    then show ?thesis using v u' eq by simp
  next
    assume a: "ox \<in> N" "x = ox"
    then have "oy \<notin> A" "oy \<notin> V" using eq AS VS NS by auto
    with oy(3) have "y = oy" by blast
    then show ?thesis using a eq by simp
  qed
qed

text \<open>
  On a stackup that stands on elevation 0, whose via layers fit under their upper
  reference layer, the flipped stackup has the same maximum elevation.
\<close>

lemma max_elevation_flipped:
  assumes st: "set (StackupLayerSet new_lc)
               = flipped (max_elevation lc)
                   ` {l \<in> set (StackupLayerSet lc). \<not> is_via_layer l \<and> \<not> radbox l}
                 \<union> {flipped_via v (flipped (max_elevation lc) u) | v u.
                      v \<in> set (StackupLayerSet lc) \<and> is_via_layer v
                      \<and> u \<in> set (StackupLayerSet lc) \<and> \<not> is_via_layer u \<and> \<not> radbox u
                      \<and> layer_name u = upper_ref v}"
    and nonneg: "\<forall>l \<in> set (StackupLayerSet lc). \<not> is_via_layer l \<and> \<not> radbox l \<longrightarrow>
                   0 \<le> lower_elevation l \<and> 0 \<le> thickness l"
    and ground: "\<exists>l \<in> set (StackupLayerSet lc).
                   \<not> is_via_layer l \<and> \<not> radbox l \<and> lower_elevation l = 0"
    and fit: "\<forall>v \<in> set (StackupLayerSet lc). \<forall>u \<in> set (StackupLayerSet lc).
                is_via_layer v \<and> \<not> is_via_layer u \<and> \<not> radbox u \<and> layer_name u = upper_ref v
                  \<longrightarrow> thickness v \<le> lower_elevation u"
  shows "max_elevation new_lc = max_elevation lc"
proof -
  define M where "M = max_elevation lc"
  define A where "A = {l \<in> set (StackupLayerSet lc). \<not> is_via_layer l \<and> \<not> radbox l}"
  define V where "V = {v \<in> set (StackupLayerSet lc). is_via_layer v}"
  define B where "B = {l \<in> set (StackupLayerSet new_lc). \<not> radbox l}"
  define S where "S = insert 0 (\<Union>l \<in> B. {lower_elevation l * 1000000,
                                            upper_elevation l * 1000000})"
  have finB: "finite B" unfolding B_def by simp
  then have fin: "finite S" unfolding S_def by simp
  have M0: "0 \<le> M" unfolding M_def max_elevation_Max by (rule Max_ge) simp_all
  have Apos: "0 \<le> lower_elevation l \<and> 0 \<le> upper_elevation l" if "l \<in> A" for l
    using nonneg that unfolding A_def upper_elevation_def by auto
  have Bcases: "(\<exists>a \<in> A. l = flipped M a)
       \<or> (\<exists>v \<in> V. \<exists>u \<in> A. layer_name u = upper_ref v \<and> l = flipped_via v (flipped M u))"
    if "l \<in> B" for l
    using that unfolding B_def st M_def A_def V_def by blast
  have le: "x \<le> M" if "x \<in> S" for x
  proof -
    from that consider "x = 0"
      | l where "l \<in> B" "x = lower_elevation l * 1000000 \<or> x = upper_elevation l * 1000000"
      unfolding S_def by auto
    then show ?thesis
    proof cases
      case 1
      then show ?thesis using M0 by simp
    next
      case 2
      from Bcases [OF 2(1)] show ?thesis
      proof (elim disjE bexE conjE)
        fix a assume a: "a \<in> A" "l = flipped M a"
        have "lower_elevation l * 1000000 = M - upper_elevation a * 1000000"
          "upper_elevation l * 1000000 = M - lower_elevation a * 1000000"
          unfolding a(2) by (rule lower_elevation_flipped, rule upper_elevation_flipped)
        then show ?thesis using 2(2) Apos [OF a(1)] by auto
      next
        fix v u assume v: "v \<in> V" "u \<in> A" "layer_name u = upper_ref v"
          "l = flipped_via v (flipped M u)"
        have t: "thickness v \<le> lower_elevation u"
          using fit v(1,2,3) unfolding V_def A_def by blast
        have lo: "lower_elevation l * 1000000 = M - lower_elevation u * 1000000"
          unfolding v(4) using upper_elevation_flipped [of M u]
          by (simp add: upper_elevation_def del: flipped_simps(5))
        have up: "upper_elevation l * 1000000
                    = M - lower_elevation u * 1000000 + thickness v * 1000000"
          using lo unfolding upper_elevation_def v(4) by (simp add: algebra_simps)
        show ?thesis using 2(2) lo up t Apos [OF v(2)] by auto
      qed
    qed
  qed
  from ground obtain g where g: "g \<in> A" "lower_elevation g = 0" unfolding A_def by blast
  have "flipped M g \<in> B" unfolding B_def st M_def [symmetric] A_def [symmetric]
    using g(1) unfolding A_def by auto
  moreover have "upper_elevation (flipped M g) * 1000000 = M"
    unfolding upper_elevation_flipped using g(2) by simp
  ultimately have inS: "M \<in> S" unfolding S_def by force
  have "Max S = M" using fin le inS by (rule Max_eqI)
  moreover have "max_elevation new_lc = Max S"
    unfolding S_def B_def by (rule max_elevation_Max)
  ultimately show ?thesis unfolding M_def by simp
qed





end
